theory Spec2Isabelle
  imports Main "HOL-Library.Word"
begin

section \<open>Strings, JSON values and HTTP responses\<close>

text \<open>
  A JavaScript string is a sequence of UTF-16 code units, and \<open>.length\<close> counts them.
  The literals of the source that are ASCII are written with \<open>js\<close>; its Korean
  user-facing messages are given by their code units.
\<close>

type_synonym jstring = "16 word list"

definition js :: "string \<Rightarrow> jstring" where
  "js s = map of_char s"

definition MSG_LOGIN_REQUIRED :: jstring where
  \<comment> \<open>Korean literal of the source: "login is required"\<close>
  "MSG_LOGIN_REQUIRED = [0xB85C, 0xADF8, 0xC778, 0xC774, 0x20, 0xD544, 0xC694, 0xD569, 0xB2C8, 0xB2E4]"

definition MSG_INVALID_TOKEN :: jstring where
  \<comment> \<open>Korean literal of the source: "the token is not valid"\<close>
  "MSG_INVALID_TOKEN = [0xC720, 0xD6A8, 0xD558, 0xC9C0, 0x20, 0xC54A, 0xC740, 0x20, 0xD1A0, 0xD070, 0xC785, 0xB2C8, 0xB2E4]"

definition MSG_FIELDS_REQUIRED :: jstring where
  \<comment> \<open>Korean literal of the source: "enter id, password and nickname"\<close>
  "MSG_FIELDS_REQUIRED = [0xC544, 0xC774, 0xB514, 0x2C, 0x20, 0xBE44, 0xBC00, 0xBC88, 0xD638, 0x2C, 0x20, 0xB2C9, 0xB124, 0xC784, 0xC744, 0x20, 0xBAA8, 0xB450, 0x20, 0xC785, 0xB825, 0xD574, 0xC8FC, 0xC138, 0xC694]"

definition MSG_PASSWORD_TOO_SHORT :: jstring where
  \<comment> \<open>Korean literal of the source: "the password must have 6 characters or more"\<close>
  "MSG_PASSWORD_TOO_SHORT = [0xBE44, 0xBC00, 0xBC88, 0xD638, 0xB294, 0x20, 0x36, 0xC790, 0x20, 0xC774, 0xC0C1, 0xC774, 0xC5B4, 0xC57C, 0x20, 0xD569, 0xB2C8, 0xB2E4]"

definition MSG_USERNAME_EXISTS :: jstring where
  \<comment> \<open>Korean literal of the source: "the id already exists"\<close>
  "MSG_USERNAME_EXISTS = [0xC774, 0xBBF8, 0x20, 0xC874, 0xC7AC, 0xD558, 0xB294, 0x20, 0xC544, 0xC774, 0xB514, 0xC785, 0xB2C8, 0xB2E4]"

definition MSG_SERVER_ERROR :: jstring where
  \<comment> \<open>Korean literal of the source: "server error"\<close>
  "MSG_SERVER_ERROR = [0xC11C, 0xBC84, 0x20, 0xC624, 0xB958]"

definition MSG_CREDENTIALS_REQUIRED :: jstring where
  \<comment> \<open>Korean literal of the source: "enter id and password"\<close>
  "MSG_CREDENTIALS_REQUIRED = [0xC544, 0xC774, 0xB514, 0xC640, 0x20, 0xBE44, 0xBC00, 0xBC88, 0xD638, 0xB97C, 0x20, 0xC785, 0xB825, 0xD574, 0xC8FC, 0xC138, 0xC694]"

definition MSG_BAD_CREDENTIALS :: jstring where
  \<comment> \<open>Korean literal of the source: "the id or the password is wrong"\<close>
  "MSG_BAD_CREDENTIALS = [0xC544, 0xC774, 0xB514, 0x20, 0xB610, 0xB294, 0x20, 0xBE44, 0xBC00, 0xBC88, 0xD638, 0xAC00, 0x20, 0xD2C0, 0xB838, 0xC2B5, 0xB2C8, 0xB2E4]"

definition MSG_USER_NOT_FOUND :: jstring where
  \<comment> \<open>Korean literal of the source: "the user cannot be found"\<close>
  "MSG_USER_NOT_FOUND = [0xC0AC, 0xC6A9, 0xC790, 0xB97C, 0x20, 0xCC3E, 0xC744, 0x20, 0xC218, 0x20, 0xC5C6, 0xC2B5, 0xB2C8, 0xB2E4]"

definition KAKAO_AUTH_FAILED :: jstring where
  \<comment> \<open>Korean literal of the source: "Kakao authentication failed"\<close>
  "KAKAO_AUTH_FAILED = [0xCE74, 0xCE74, 0xC624, 0x20, 0xC778, 0xC99D, 0xC5D0, 0x20, 0xC2E4, 0xD328, 0xD588, 0xC2B5, 0xB2C8, 0xB2E4]"

definition KAKAO_TOKEN_FAILED :: jstring where
  \<comment> \<open>Korean literal of the source: "issuing the Kakao token failed"\<close>
  "KAKAO_TOKEN_FAILED = [0xCE74, 0xCE74, 0xC624, 0x20, 0xD1A0, 0xD070, 0x20, 0xBC1C, 0xAE09, 0xC5D0, 0x20, 0xC2E4, 0xD328, 0xD588, 0xC2B5, 0xB2C8, 0xB2E4]"

definition KAKAO_LOGIN_ERROR :: jstring where
  \<comment> \<open>Korean literal of the source: "an error occurred while processing the Kakao login"\<close>
  "KAKAO_LOGIN_ERROR = [0xCE74, 0xCE74, 0xC624, 0x20, 0xB85C, 0xADF8, 0xC778, 0x20, 0xCC98, 0xB9AC, 0x20, 0xC911, 0x20, 0xC624, 0xB958, 0xAC00, 0x20, 0xBC1C, 0xC0DD, 0xD588, 0xC2B5, 0xB2C8, 0xB2E4]"

definition KAKAO_DEFAULT_NICKNAME :: jstring where
  \<comment> \<open>Korean literal of the source: "Kakao user"\<close>
  "KAKAO_DEFAULT_NICKNAME = [0xCE74, 0xCE74, 0xC624, 0x20, 0xC0AC, 0xC6A9, 0xC790]"

definition DEFAULT_LOCATION :: jstring where
  \<comment> \<open>Korean literal of the source: "Gangnam-gu, Seoul"\<close>
  "DEFAULT_LOCATION = [0xC11C, 0xC6B8, 0xC2DC, 0x20, 0xAC15, 0xB0A8, 0xAD6C]"

text \<open>
  The values of JSON: those that \<open>res.json\<close> serialises and those that \<open>express.json()\<close>
  parses. A row column that is NULL is \<open>JNull\<close>; a member whose value is \<open>undefined\<close> is
  not serialised, so it is simply not in the member list. \<open>JDate\<close> is a timestamp column
  (seconds); it does not occur in a parsed body. A number is an integer.
\<close>

datatype json =
    JNull
  | JBool bool
  | JNum int
  | JStr jstring
  | JDate nat
  | JArr "json list"
  | JObj "(string \<times> json) list"

fun jnullable :: "jstring option \<Rightarrow> json" where
  "jnullable None = JNull"
| "jnullable (Some s) = JStr s"

text \<open>\<open>res.status(n).json(b)\<close>, \<open>res.json(b)\<close> (status 200) and \<open>res.redirect(url)\<close>.\<close>

datatype response =
    Json nat json
  | Redirect jstring

definition failure :: "nat \<Rightarrow> jstring \<Rightarrow> response" where
  \<comment> \<open>\<open>res.status(n).json({ success: false, message })\<close>\<close>
  "failure n message = Json n (JObj [(''success'', JBool False), (''message'', JStr message)])"

definition success :: "json \<Rightarrow> response" where
  \<comment> \<open>\<open>res.json({ success: true, data })\<close>\<close>
  "success data = Json 200 (JObj [(''success'', JBool True), (''data'', data)])"

definition success_no_data :: response where
  \<comment> \<open>\<open>res.json({ success: true, data: undefined })\<close>: the member \<open>data\<close> is dropped\<close>
  "success_no_data = Json 200 (JObj [(''success'', JBool True)])"

text \<open>JavaScript truthiness of a value that is a string, \<open>null\<close> or \<open>undefined\<close>
  (\<open>None\<close> stands for both \<open>null\<close> and \<open>undefined\<close>): only a non-empty string is truthy.\<close>

fun truthy :: "jstring option \<Rightarrow> bool" where
  "truthy None = False"
| "truthy (Some s) = (s \<noteq> [])"

fun or_null :: "jstring option \<Rightarrow> jstring option" where
  \<comment> \<open>\<open>x || null\<close>\<close>
  "or_null None = None"
| "or_null (Some s) = (if s = [] then None else Some s)"

fun or_else :: "jstring option \<Rightarrow> jstring \<Rightarrow> jstring" where
  \<comment> \<open>\<open>x || d\<close> for a string \<open>d\<close>\<close>
  "or_else None d = d"
| "or_else (Some s) d = (if s = [] then d else s)"

text \<open>JavaScript truthiness of any value; \<open>None\<close> is \<open>undefined\<close>. The values that \<open>!x\<close>
  takes for missing are \<open>undefined\<close>, \<open>null\<close>, \<open>false\<close>, \<open>0\<close> and the empty string; an array
  and an object are truthy, also when they are empty.\<close>

fun truthy_value :: "json option \<Rightarrow> bool" where
  "truthy_value None = False"
| "truthy_value (Some JNull) = False"
| "truthy_value (Some (JBool b)) = b"
| "truthy_value (Some (JNum n)) = (n \<noteq> 0)"
| "truthy_value (Some (JStr s)) = (s \<noteq> [])"
| "truthy_value (Some (JDate t)) = True"
| "truthy_value (Some (JArr xs)) = True"
| "truthy_value (Some (JObj ms)) = True"

definition value_or_null :: "json option \<Rightarrow> json option" where
  \<comment> \<open>\<open>x || null\<close> for any value \<open>x\<close>\<close>
  "value_or_null x = (if truthy_value x then x else Some JNull)"

fun startsWith :: "'a list \<Rightarrow> 'a list \<Rightarrow> bool" where
  "startsWith s [] = True"
| "startsWith [] (p # ps) = False"
| "startsWith (c # cs) (p # ps) = (c = p \<and> startsWith cs ps)"

fun split :: "'a \<Rightarrow> 'a list \<Rightarrow> 'a list list" where
  \<comment> \<open>\<open>s.split(sep)\<close> for a separator of one code unit; the result is never empty\<close>
  "split sep [] = [[]]"
| "split sep (c # cs) =
     (if c = sep then [] # split sep cs
      else (case split sep cs of p # ps \<Rightarrow> (c # p) # ps | [] \<Rightarrow> [[c]]))"

fun digits :: "nat \<Rightarrow> jstring" where
  "digits n = (if n < 10 then [of_nat (48 + n)] else digits (n div 10) @ [of_nat (48 + n mod 10)])"

declare digits.simps [simp del]

fun String :: "int option \<Rightarrow> jstring" where
  \<comment> \<open>\<open>String(x)\<close> for an integer or \<open>undefined\<close>\<close>
  "String None = js ''undefined''"
| "String (Some i) = (if i < 0 then js ''-'' @ digits (nat (- i)) else digits (nat i))"

section \<open>The environment of a server process\<close>

text \<open>
  The servers call libraries and services that are not part of the repository: the
  PostgreSQL coercion of a value to \<open>VARCHAR(n)\<close>, \<open>bcryptjs\<close>, the compact
  serialisation of \<open>jsonwebtoken\<close>, \<open>encodeURIComponent\<close>, and two conversions that
  only a request with an array or an object in place of a string reaches. They are
  parameters of the model, collected in one record, together with the process variable
  \<open>JWT_SECRET\<close>.
  \<^item> \<open>varchar n s\<close> is the string stored for \<open>s\<close> in a \<open>VARCHAR(n)\<close> column, or \<open>None\<close>
    when the server raises an error (value too long).
  \<^item> \<open>bcrypt_hash p\<close> is the salted hash of \<open>bcrypt.hash(p, 10)\<close>, \<open>bcrypt_compare p h\<close>
    the answer of \<open>bcrypt.compare(p, h)\<close>.
  \<^item> \<open>jwt_render\<close> and \<open>jwt_parse\<close> turn a signed token into its text and back;
    \<open>jwt_parse\<close> is \<open>None\<close> on a text that is structurally malformed.
  \<^item> \<open>encodeURIComponent s\<close> is \<open>None\<close> when the builtin throws \<open>URIError\<close>.
  \<^item> \<open>prepare_object v\<close> is the text that the driver \<open>pg\<close> sends for a query parameter
    \<open>v\<close> that is an array or an object.
  \<^item> \<open>less_than v n\<close> is the JavaScript comparison \<open>v < n\<close> for a \<open>v\<close> that is a string, an
    array or a date, which is converted to a number first.
\<close>

record jwt =
  jwt_payload :: "(string \<times> json) list"
  jwt_key :: jstring
  jwt_iat :: nat
  jwt_exp :: nat

record env =
  env_JWT_SECRET :: "jstring option"
  varchar :: "nat \<Rightarrow> jstring \<Rightarrow> jstring option"
  bcrypt_hash :: "jstring \<Rightarrow> jstring"
  bcrypt_compare :: "jstring \<Rightarrow> jstring \<Rightarrow> bool"
  jwt_render :: "jwt \<Rightarrow> jstring"
  jwt_parse :: "jstring \<Rightarrow> jwt option"
  encodeURIComponent :: "jstring \<Rightarrow> jstring option"
  prepare_object :: "json \<Rightarrow> jstring"
  less_than :: "json \<Rightarrow> int \<Rightarrow> bool"

section \<open>Token issuer and verifier\<close>

definition SEVEN_DAYS :: nat where
  \<comment> \<open>\<open>expiresIn: '7d'\<close>, in seconds\<close>
  "SEVEN_DAYS = 7 * 24 * 60 * 60"

definition DAY :: nat where
  "DAY = 24 * 60 * 60"

text \<open>
  Modelled from the spec: \<open>jwt.sign\<close> and \<open>jwt.verify\<close> belong to the library
  \<open>jsonwebtoken\<close>, which is not in the repository. Following section 4.2 of the
  specification, a token carries the claims, the time of issue and the expiry, and is
  bound to the secret that signed it; \<open>verify\<close> fails when the text is empty or
  malformed, when the token was signed with another secret, and when the expiry has
  passed (the clock, in seconds, has reached \<open>exp\<close>); otherwise it returns the claims
  together with \<open>iat\<close> and \<open>exp\<close>.
\<close>

definition jwt_issue :: "(string \<times> json) list \<Rightarrow> jstring \<Rightarrow> nat \<Rightarrow> nat \<Rightarrow> jwt" where
  "jwt_issue payload secret ttl now =
     \<lparr>jwt_payload = payload, jwt_key = secret, jwt_iat = now, jwt_exp = now + ttl\<rparr>"

definition jwt_sign :: "env \<Rightarrow> (string \<times> json) list \<Rightarrow> jstring \<Rightarrow> nat \<Rightarrow> nat \<Rightarrow> jstring" where
  "jwt_sign e payload secret ttl now = jwt_render e (jwt_issue payload secret ttl now)"

definition jwt_verify :: "env \<Rightarrow> jstring \<Rightarrow> jstring \<Rightarrow> nat \<Rightarrow> (string \<times> json) list option" where
  "jwt_verify e token secret now =
     (if token = [] then None
      else case jwt_parse e token of
        None \<Rightarrow> None
      | Some t \<Rightarrow>
          if jwt_key t \<noteq> secret then None
          else if jwt_exp t \<le> now then None
          else Some (jwt_payload t @ [(''iat'', JNum (int (jwt_iat t))), (''exp'', JNum (int (jwt_exp t)))]))"

section \<open>Requests and the authorization gate\<close>

text \<open>
  The members of a request that the handlers read: the \<open>Authorization\<close> header,
  \<open>req.body\<close>, the member \<open>code\<close> of the query string, and \<open>req.user\<close>, set by \<open>auth\<close>.

  \<open>express.json()\<close> parses the body of a request that declares JSON, and accepts an
  object or an array. Both servers run Express 5 (their route \<open>/{*splat}\<close> is written in
  its syntax), which leaves \<open>req.body\<close> \<open>undefined\<close> when no body was parsed: \<open>body\<close> is then
  \<open>None\<close>. A parsed object is the list of its members, each with any JSON value; a parsed
  array has none of the members that the handlers read, and is the empty list. A body
  that is not valid JSON is answered by the parser and reaches no handler.
\<close>

record request =
  authorization :: "jstring option"
  body :: "(string \<times> json) list option"
  code :: "jstring option"
  user :: "(string \<times> json) list option"

definition body_member :: "string \<Rightarrow> (string \<times> json) list \<Rightarrow> json option" where
  \<comment> \<open>the variable \<open>k\<close> bound by \<open>const { k } = req.body\<close>, \<open>None\<close> when it is \<open>undefined\<close>; of
      two members with one name, \<open>JSON.parse\<close> keeps the last\<close>
  "body_member k ms = map_of (rev ms) k"

fun length_below :: "env \<Rightarrow> json \<Rightarrow> int \<Rightarrow> bool" where
  \<comment> \<open>\<open>v.length < n\<close>: \<open>.length\<close> of a number or a boolean is \<open>undefined\<close>, and
      \<open>undefined < n\<close> is false; \<open>.length\<close> of an object is its member of that name\<close>
  "length_below e (JStr s) n = (int (length s) < n)"
| "length_below e (JArr xs) n = (int (length xs) < n)"
| "length_below e (JObj ms) n =
     (case body_member ''length'' ms of
        None \<Rightarrow> False
      | Some (JNum l) \<Rightarrow> l < n
      | Some JNull \<Rightarrow> 0 < n
      | Some (JBool b) \<Rightarrow> (if b then 1 else 0) < n
      | Some (JObj _) \<Rightarrow> False
      | Some v \<Rightarrow> less_than e v n)"
| "length_below e JNull n = False"
| "length_below e (JBool b) n = False"
| "length_below e (JNum i) n = False"
| "length_below e (JDate t) n = False"

text \<open>A middleware either answers the request itself or calls \<open>next()\<close>.\<close>

datatype outcome =
    Responded response
  | Next request

definition JWT_SECRET :: "jstring \<Rightarrow> env \<Rightarrow> jstring" where
  \<comment> \<open>\<open>process.env.JWT_SECRET || default\<close>\<close>
  "JWT_SECRET fallback e = or_else (env_JWT_SECRET e) fallback"

definition bearer_token :: "jstring \<Rightarrow> jstring option" where
  \<comment> \<open>\<open>header.split(' ')[1]\<close>, \<open>None\<close> when it is \<open>undefined\<close>\<close>
  "bearer_token header = (case split 0x20 header of _ # token # _ \<Rightarrow> Some token | _ \<Rightarrow> None)"

definition auth :: "jstring \<Rightarrow> env \<Rightarrow> nat \<Rightarrow> request \<Rightarrow> outcome" where
  "auth secret e now req =
     (case authorization req of
        None \<Rightarrow> Responded (failure 401 MSG_LOGIN_REQUIRED)
      | Some header \<Rightarrow>
          if header = [] \<or> \<not> startsWith header (js ''Bearer '') then
            Responded (failure 401 MSG_LOGIN_REQUIRED)
          else
            (case bearer_token header of
               None \<Rightarrow> Responded (failure 401 MSG_INVALID_TOKEN)
             | Some token \<Rightarrow>
                 (case jwt_verify e token secret now of
                    None \<Rightarrow> Responded (failure 401 MSG_INVALID_TOKEN)
                  | Some decoded \<Rightarrow> Next (req\<lparr>user := Some decoded\<rparr>))))"

text \<open>A route registered as \<open>app.get(path, auth, handler)\<close>: the handler runs on the
  request that \<open>auth\<close> passes on, and only then.\<close>

definition protected ::
  "jstring \<Rightarrow> env \<Rightarrow> nat \<Rightarrow> (request \<Rightarrow> 'db \<Rightarrow> response \<times> 'db) \<Rightarrow> request \<Rightarrow> 'db \<Rightarrow> response \<times> 'db" where
  "protected secret e now handler req db =
     (case auth secret e now req of
        Responded r \<Rightarrow> (r, db)
      | Next req' \<Rightarrow> handler req' db)"

section \<open>The credential store\<close>

text \<open>
  A users table is the list of its rows together with the last value of the \<open>SERIAL\<close>
  sequence of \<open>id\<close>. The store is taken to be available: a statement fails only by a
  \<open>UNIQUE\<close> violation (driver code \<open>23505\<close>) or by a parameter that does not fit its
  column. A parameter is coerced to its column when the statement is bound, so a value
  that does not fit is refused before a row is read or the sequence is advanced; an
  \<open>INSERT\<close> refused by a \<open>UNIQUE\<close> constraint has already drawn its \<open>id\<close>.
\<close>

record 'r db =
  users :: "'r list"
  last_id :: int

datatype db_error =
    UniqueViolation
  | OtherError

fun coerce :: "env \<Rightarrow> nat \<Rightarrow> jstring option \<Rightarrow> jstring option option" where
  \<comment> \<open>a query parameter bound for a \<open>VARCHAR(n)\<close> column: \<open>None\<close> is the error,
      \<open>Some None\<close> the parameter NULL\<close>
  "coerce e n None = Some None"
| "coerce e n (Some s) = map_option Some (varchar e n s)"

fun prepareValue :: "env \<Rightarrow> json option \<Rightarrow> jstring option" where
  \<comment> \<open>the text that the driver sends for a query parameter, \<open>None\<close> for NULL: \<open>null\<close> and
      \<open>undefined\<close> are NULL, a number and a boolean are sent as \<open>val.toString()\<close> (the
      decimal digits of an integer below \<open>10^21\<close> in absolute value)\<close>
  "prepareValue e None = None"
| "prepareValue e (Some JNull) = None"
| "prepareValue e (Some (JStr s)) = Some s"
| "prepareValue e (Some (JNum n)) = Some (String (Some n))"
| "prepareValue e (Some (JBool b)) = Some (if b then js ''true'' else js ''false'')"
| "prepareValue e (Some (JDate t)) = Some (prepare_object e (JDate t))"
| "prepareValue e (Some (JArr xs)) = Some (prepare_object e (JArr xs))"
| "prepareValue e (Some (JObj ms)) = Some (prepare_object e (JObj ms))"

fun sql_equal :: "'a option \<Rightarrow> 'a option \<Rightarrow> bool" where
  \<comment> \<open>\<open>column = $1\<close> in a \<open>WHERE\<close> clause: NULL is equal to nothing\<close>
  "sql_equal (Some a) (Some b) = (a = b)"
| "sql_equal None b = False"
| "sql_equal (Some a) None = False"

fun COALESCE :: "'a option \<Rightarrow> 'a option \<Rightarrow> 'a option" where
  "COALESCE None old = old"
| "COALESCE (Some v) old = Some v"

fun COALESCE_not_null :: "'a option \<Rightarrow> 'a \<Rightarrow> 'a" where
  \<comment> \<open>\<open>COALESCE\<close> whose second argument is a \<open>NOT NULL\<close> column\<close>
  "COALESCE_not_null None old = old"
| "COALESCE_not_null (Some v) old = v"

definition user_id :: "(string \<times> json) list \<Rightarrow> int option" where
  \<comment> \<open>\<open>req.user.id\<close> as a query parameter compared with the column \<open>id\<close>\<close>
  "user_id claims = (case map_of claims ''id'' of Some (JNum n) \<Rightarrow> Some n | _ \<Rightarrow> None)"

section \<open>The marketplace server (dangun_01)\<close>

record dangun_01_user =
  d_id :: int
  d_username :: jstring
  d_password :: jstring
  d_nickname :: jstring
  d_location :: "jstring option"
  d_profile_image :: "jstring option"
  d_created_at :: nat

definition dangun_secret :: "env \<Rightarrow> jstring" where
  "dangun_secret e = JWT_SECRET (js ''dangun-01-secret-key'') e"

definition dangun_claims :: "dangun_01_user \<Rightarrow> (string \<times> json) list" where
  \<comment> \<open>\<open>{ id: user.id, username: user.username, nickname: user.nickname }\<close>\<close>
  "dangun_claims u =
     [(''id'', JNum (d_id u)), (''username'', JStr (d_username u)), (''nickname'', JStr (d_nickname u))]"

definition dangun_token :: "env \<Rightarrow> nat \<Rightarrow> dangun_01_user \<Rightarrow> jstring" where
  \<comment> \<open>\<open>jwt.sign({ id, username, nickname }, JWT_SECRET, { expiresIn: '7d' })\<close>\<close>
  "dangun_token e now u = jwt_sign e (dangun_claims u) (dangun_secret e) SEVEN_DAYS now"

definition dangun_insert ::
  "env \<Rightarrow> nat \<Rightarrow> jstring \<Rightarrow> jstring \<Rightarrow> jstring \<Rightarrow> dangun_01_user db \<Rightarrow> (db_error + dangun_01_user) \<times> dangun_01_user db" where
  \<comment> \<open>\<open>INSERT INTO dangun_01_users (username, password, nickname) VALUES ($1, $2, $3)\<close>\<close>
  "dangun_insert e now u h n db =
     (case (varchar e 50 u, varchar e 255 h, varchar e 50 n) of
        (Some u', Some h', Some n') \<Rightarrow>
          (let new_id = last_id db + 1; db1 = db\<lparr>last_id := new_id\<rparr> in
           if u' \<in> set (map d_username (users db)) then (Inl UniqueViolation, db1)
           else
             (let row = \<lparr>d_id = new_id, d_username = u', d_password = h', d_nickname = n',
                         d_location = Some DEFAULT_LOCATION, d_profile_image = None,
                         d_created_at = now\<rparr>
              in (Inr row, db1\<lparr>users := users db @ [row]\<rparr>)))
      | _ \<Rightarrow> (Inl OtherError, db))"

text \<open>
  Every handler reads the members of \<open>req.body\<close> by a destructuring inside its \<open>try\<close>
  block, which throws when \<open>req.body\<close> is \<open>undefined\<close>; the \<open>catch\<close> block answers 500.
  \<open>bcrypt.hash\<close> and \<open>bcrypt.compare\<close> reject an argument that is not a string, which
  ends in the same \<open>catch\<close>. A value that passes \<open>!x\<close> is never sent as NULL, so the
  username and the nickname that reach the \<open>INSERT\<close> are texts.
\<close>

definition dangun_register :: "env \<Rightarrow> nat \<Rightarrow> request \<Rightarrow> dangun_01_user db \<Rightarrow> response \<times> dangun_01_user db" where
  "dangun_register e now req db =
     (case body req of
        None \<Rightarrow> (failure 500 MSG_SERVER_ERROR, db)
      | Some ms \<Rightarrow>
          (let username = body_member ''username'' ms;
               password = body_member ''password'' ms;
               nickname = body_member ''nickname'' ms
           in
             if \<not> truthy_value username \<or> \<not> truthy_value password \<or> \<not> truthy_value nickname then
               (failure 400 MSG_FIELDS_REQUIRED, db)
             else
               (case (password, prepareValue e username, prepareValue e nickname) of
                  (Some (JStr p), Some u, Some n) \<Rightarrow>
                    (case dangun_insert e now u (bcrypt_hash e p) n db of
                       (Inr row, db') \<Rightarrow>
                         (success (JObj [(''token'', JStr (dangun_token e now row)),
                                         (''user'', JObj [(''id'', JNum (d_id row)),
                                                          (''username'', JStr (d_username row)),
                                                          (''nickname'', JStr (d_nickname row)),
                                                          (''location'', jnullable (d_location row))])]), db')
                     | (Inl UniqueViolation, db') \<Rightarrow> (failure 409 MSG_USERNAME_EXISTS, db')
                     | (Inl OtherError, db') \<Rightarrow> (failure 500 MSG_SERVER_ERROR, db'))
                | _ \<Rightarrow> (failure 500 MSG_SERVER_ERROR, db))))"

definition dangun_login :: "env \<Rightarrow> nat \<Rightarrow> request \<Rightarrow> dangun_01_user db \<Rightarrow> response \<times> dangun_01_user db" where
  "dangun_login e now req db =
     (case body req of
        None \<Rightarrow> (failure 500 MSG_SERVER_ERROR, db)
      | Some ms \<Rightarrow>
          (let username = body_member ''username'' ms;
               password = body_member ''password'' ms
           in
             if \<not> truthy_value username \<or> \<not> truthy_value password then
               (failure 400 MSG_CREDENTIALS_REQUIRED, db)
             else
               (case filter (\<lambda>r. sql_equal (Some (d_username r)) (prepareValue e username)) (users db) of
                  [] \<Rightarrow> (failure 401 MSG_BAD_CREDENTIALS, db)
                | row # _ \<Rightarrow>
                    (case password of
                       Some (JStr p) \<Rightarrow>
                         if \<not> bcrypt_compare e p (d_password row) then
                           (failure 401 MSG_BAD_CREDENTIALS, db)
                         else
                           (success (JObj [(''token'', JStr (dangun_token e now row)),
                                           (''user'', JObj [(''id'', JNum (d_id row)),
                                                            (''username'', JStr (d_username row)),
                                                            (''nickname'', JStr (d_nickname row)),
                                                            (''location'', jnullable (d_location row)),
                                                            (''profile_image'', jnullable (d_profile_image row))])]), db)
                     | _ \<Rightarrow> (failure 500 MSG_SERVER_ERROR, db)))))"

definition dangun_me :: "request \<Rightarrow> dangun_01_user db \<Rightarrow> response \<times> dangun_01_user db" where
  \<comment> \<open>the handler of \<open>GET /api/auth/me\<close>; reading \<open>req.user.id\<close> of an unset \<open>req.user\<close> throws\<close>
  "dangun_me req db =
     (case user req of
        None \<Rightarrow> (failure 500 MSG_SERVER_ERROR, db)
      | Some claims \<Rightarrow>
          (case filter (\<lambda>r. Some (d_id r) = user_id claims) (users db) of
             [] \<Rightarrow> (failure 404 MSG_USER_NOT_FOUND, db)
           | row # _ \<Rightarrow>
               (success (JObj [(''id'', JNum (d_id row)),
                               (''username'', JStr (d_username row)),
                               (''nickname'', JStr (d_nickname row)),
                               (''location'', jnullable (d_location row)),
                               (''profile_image'', jnullable (d_profile_image row)),
                               (''created_at'', JDate (d_created_at row))]), db)))"

definition dangun_profile_row ::
  "jstring option \<Rightarrow> jstring option \<Rightarrow> dangun_01_user \<Rightarrow> dangun_01_user" where
  \<comment> \<open>\<open>SET nickname = COALESCE($1, nickname), location = COALESCE($2, location)\<close> on one row\<close>
  "dangun_profile_row nick' loc' r =
     r\<lparr>d_nickname := COALESCE_not_null nick' (d_nickname r),
       d_location := COALESCE loc' (d_location r)\<rparr>"

definition dangun_update ::
  "env \<Rightarrow> int option \<Rightarrow> jstring option \<Rightarrow> jstring option \<Rightarrow> dangun_01_user db \<Rightarrow> db_error + (dangun_01_user list \<times> dangun_01_user db)" where
  \<comment> \<open>\<open>UPDATE dangun_01_users SET nickname = COALESCE($1, nickname), location = COALESCE($2, location)
      WHERE id = $3 RETURNING ...\<close>\<close>
  "dangun_update e uid nick loc db =
     (case (coerce e 50 nick, coerce e 100 loc) of
        (Some nick', Some loc') \<Rightarrow>
          (let us = map (\<lambda>r. if Some (d_id r) = uid then dangun_profile_row nick' loc' r else r)
                        (users db)
           in Inr (filter (\<lambda>r. Some (d_id r) = uid) us, db\<lparr>users := us\<rparr>))
      | _ \<Rightarrow> Inl OtherError)"

definition dangun_profile :: "env \<Rightarrow> request \<Rightarrow> dangun_01_user db \<Rightarrow> response \<times> dangun_01_user db" where
  \<comment> \<open>the handler of \<open>PUT /api/auth/profile\<close>\<close>
  "dangun_profile e req db =
     (case body req of
        None \<Rightarrow> (failure 500 MSG_SERVER_ERROR, db)
      | Some ms \<Rightarrow>
          (let nickname = body_member ''nickname'' ms;
               location = body_member ''location'' ms
           in
             (case user req of
                None \<Rightarrow> (failure 500 MSG_SERVER_ERROR, db)
              | Some claims \<Rightarrow>
                  (case dangun_update e (user_id claims) (prepareValue e nickname) (prepareValue e location) db of
                     Inl _ \<Rightarrow> (failure 500 MSG_SERVER_ERROR, db)
                   | Inr ([], db') \<Rightarrow> (success_no_data, db')
                   | Inr (row # _, db') \<Rightarrow>
                       (success (JObj [(''id'', JNum (d_id row)),
                                       (''username'', JStr (d_username row)),
                                       (''nickname'', JStr (d_nickname row)),
                                       (''location'', jnullable (d_location row)),
                                       (''profile_image'', jnullable (d_profile_image row))]), db')))))"

section \<open>The shop server with federated login (ecommerce_01)\<close>

record ecommerce_01_user =
  u_id :: int
  u_username :: "jstring option"
  u_password :: "jstring option"
  u_nickname :: jstring
  u_email :: "jstring option"
  u_phone :: "jstring option"
  u_profile_image :: "jstring option"
  u_kakao_id :: "jstring option"
  u_provider :: jstring
  u_created_at :: nat

definition ecommerce_secret :: "env \<Rightarrow> jstring" where
  "ecommerce_secret e = JWT_SECRET (js ''lueur-ecommerce-secret-key'') e"

definition token_claims :: "ecommerce_01_user \<Rightarrow> (string \<times> json) list" where
  \<comment> \<open>\<open>{ id: user.id, username: user.username, nickname: user.nickname, provider: user.provider }\<close>\<close>
  "token_claims u =
     [(''id'', JNum (u_id u)), (''username'', jnullable (u_username u)),
      (''nickname'', JStr (u_nickname u)), (''provider'', JStr (u_provider u))]"

definition generateToken :: "env \<Rightarrow> nat \<Rightarrow> ecommerce_01_user \<Rightarrow> jstring" where
  "generateToken e now u = jwt_sign e (token_claims u) (ecommerce_secret e) SEVEN_DAYS now"

definition sanitizeUser :: "ecommerce_01_user \<Rightarrow> json" where
  "sanitizeUser u =
     JObj [(''id'', JNum (u_id u)),
           (''username'', jnullable (u_username u)),
           (''nickname'', JStr (u_nickname u)),
           (''email'', jnullable (u_email u)),
           (''phone'', jnullable (u_phone u)),
           (''profile_image'', jnullable (u_profile_image u)),
           (''provider'', JStr (u_provider u)),
           (''created_at'', JDate (u_created_at u))]"

definition insert_local ::
  "env \<Rightarrow> nat \<Rightarrow> jstring \<Rightarrow> jstring \<Rightarrow> jstring \<Rightarrow> jstring option \<Rightarrow> jstring option \<Rightarrow>
   ecommerce_01_user db \<Rightarrow> (db_error + ecommerce_01_user) \<times> ecommerce_01_user db" where
  \<comment> \<open>\<open>INSERT INTO ecommerce_01_users (username, password, nickname, email, phone, provider)
      VALUES ($1, $2, $3, $4, $5, 'local') RETURNING *\<close>\<close>
  "insert_local e now u h n em ph db =
     (case (varchar e 50 u, varchar e 255 h, varchar e 50 n, coerce e 100 em, coerce e 20 ph) of
        (Some u', Some h', Some n', Some em', Some ph') \<Rightarrow>
          (let new_id = last_id db + 1; db1 = db\<lparr>last_id := new_id\<rparr> in
           if Some u' \<in> set (map u_username (users db)) then (Inl UniqueViolation, db1)
           else
             (let row = \<lparr>u_id = new_id, u_username = Some u', u_password = Some h',
                         u_nickname = n', u_email = em', u_phone = ph', u_profile_image = None,
                         u_kakao_id = None, u_provider = js ''local'', u_created_at = now\<rparr>
              in (Inr row, db1\<lparr>users := users db @ [row]\<rparr>)))
      | _ \<Rightarrow> (Inl OtherError, db))"

definition register :: "env \<Rightarrow> nat \<Rightarrow> request \<Rightarrow> ecommerce_01_user db \<Rightarrow> response \<times> ecommerce_01_user db" where
  "register e now req db =
     (case body req of
        None \<Rightarrow> (failure 500 MSG_SERVER_ERROR, db)
      | Some ms \<Rightarrow>
          (let username = body_member ''username'' ms;
               password = body_member ''password'' ms;
               nickname = body_member ''nickname'' ms;
               email = body_member ''email'' ms;
               phone = body_member ''phone'' ms
           in
             if \<not> truthy_value username \<or> \<not> truthy_value password \<or> \<not> truthy_value nickname then
               (failure 400 MSG_FIELDS_REQUIRED, db)
             else if (case password of None \<Rightarrow> False | Some v \<Rightarrow> length_below e v 6) then
               (failure 400 MSG_PASSWORD_TOO_SHORT, db)
             else
               (case (password, prepareValue e username, prepareValue e nickname) of
                  (Some (JStr p), Some u, Some n) \<Rightarrow>
                    (case insert_local e now u (bcrypt_hash e p) n
                            (prepareValue e (value_or_null email)) (prepareValue e (value_or_null phone)) db of
                       (Inr row, db') \<Rightarrow>
                         (success (JObj [(''token'', JStr (generateToken e now row)),
                                         (''user'', sanitizeUser row)]), db')
                     | (Inl UniqueViolation, db') \<Rightarrow> (failure 409 MSG_USERNAME_EXISTS, db')
                     | (Inl OtherError, db') \<Rightarrow> (failure 500 MSG_SERVER_ERROR, db'))
                | _ \<Rightarrow> (failure 500 MSG_SERVER_ERROR, db))))"

definition login :: "env \<Rightarrow> nat \<Rightarrow> request \<Rightarrow> ecommerce_01_user db \<Rightarrow> response \<times> ecommerce_01_user db" where
  \<comment> \<open>\<open>bcrypt.compare\<close> also rejects when the stored hash is NULL\<close>
  "login e now req db =
     (case body req of
        None \<Rightarrow> (failure 500 MSG_SERVER_ERROR, db)
      | Some ms \<Rightarrow>
          (let username = body_member ''username'' ms;
               password = body_member ''password'' ms
           in
             if \<not> truthy_value username \<or> \<not> truthy_value password then
               (failure 400 MSG_CREDENTIALS_REQUIRED, db)
             else
               (case filter (\<lambda>r. sql_equal (u_username r) (prepareValue e username)
                                   \<and> u_provider r = js ''local'') (users db) of
                  [] \<Rightarrow> (failure 401 MSG_BAD_CREDENTIALS, db)
                | row # _ \<Rightarrow>
                    (case (password, u_password row) of
                       (Some (JStr p), Some h) \<Rightarrow>
                         if \<not> bcrypt_compare e p h then (failure 401 MSG_BAD_CREDENTIALS, db)
                         else
                           (success (JObj [(''token'', JStr (generateToken e now row)),
                                           (''user'', sanitizeUser row)]), db)
                     | _ \<Rightarrow> (failure 500 MSG_SERVER_ERROR, db)))))"

definition me :: "request \<Rightarrow> ecommerce_01_user db \<Rightarrow> response \<times> ecommerce_01_user db" where
  "me req db =
     (case user req of
        None \<Rightarrow> (failure 500 MSG_SERVER_ERROR, db)
      | Some claims \<Rightarrow>
          (case filter (\<lambda>r. Some (u_id r) = user_id claims) (users db) of
             [] \<Rightarrow> (failure 404 MSG_USER_NOT_FOUND, db)
           | row # _ \<Rightarrow> (success (sanitizeUser row), db)))"

definition profile_row ::
  "jstring option \<Rightarrow> jstring option \<Rightarrow> jstring option \<Rightarrow> ecommerce_01_user \<Rightarrow> ecommerce_01_user" where
  \<comment> \<open>\<open>SET nickname = COALESCE($1, nickname), email = COALESCE($2, email),
      phone = COALESCE($3, phone)\<close> on one row\<close>
  "profile_row nick' em' ph' r =
     r\<lparr>u_nickname := COALESCE_not_null nick' (u_nickname r),
       u_email := COALESCE em' (u_email r),
       u_phone := COALESCE ph' (u_phone r)\<rparr>"

definition update_profile ::
  "env \<Rightarrow> int option \<Rightarrow> jstring option \<Rightarrow> jstring option \<Rightarrow> jstring option \<Rightarrow>
   ecommerce_01_user db \<Rightarrow> db_error + (ecommerce_01_user list \<times> ecommerce_01_user db)" where
  \<comment> \<open>\<open>UPDATE ecommerce_01_users SET nickname = COALESCE($1, nickname), email = COALESCE($2, email),
      phone = COALESCE($3, phone) WHERE id = $4 RETURNING *\<close>\<close>
  "update_profile e uid nick em ph db =
     (case (coerce e 50 nick, coerce e 100 em, coerce e 20 ph) of
        (Some nick', Some em', Some ph') \<Rightarrow>
          (let us = map (\<lambda>r. if Some (u_id r) = uid then profile_row nick' em' ph' r else r)
                        (users db)
           in Inr (filter (\<lambda>r. Some (u_id r) = uid) us, db\<lparr>users := us\<rparr>))
      | _ \<Rightarrow> Inl OtherError)"

definition profile :: "env \<Rightarrow> request \<Rightarrow> ecommerce_01_user db \<Rightarrow> response \<times> ecommerce_01_user db" where
  \<comment> \<open>the handler of \<open>PUT /api/auth/profile\<close>; \<open>sanitizeUser(undefined)\<close> throws a \<open>TypeError\<close>,
      caught after the statement has run\<close>
  "profile e req db =
     (case body req of
        None \<Rightarrow> (failure 500 MSG_SERVER_ERROR, db)
      | Some ms \<Rightarrow>
          (let nickname = body_member ''nickname'' ms;
               email = body_member ''email'' ms;
               phone = body_member ''phone'' ms
           in
             (case user req of
                None \<Rightarrow> (failure 500 MSG_SERVER_ERROR, db)
              | Some claims \<Rightarrow>
                  (case update_profile e (user_id claims) (prepareValue e nickname) (prepareValue e email)
                          (prepareValue e phone) db of
                     Inl _ \<Rightarrow> (failure 500 MSG_SERVER_ERROR, db)
                   | Inr ([], db') \<Rightarrow> (failure 500 MSG_SERVER_ERROR, db')
                   | Inr (row # _, db') \<Rightarrow> (success (sanitizeUser row), db')))))"

subsection \<open>The Kakao callback\<close>

text \<open>
  The two calls to the identity provider are inputs of the handler: each either rejects
  (the request or the parsing of its body throws) or resolves to the members the handler
  reads. A member that is absent is \<open>None\<close>.
\<close>

datatype 'a fetched =
    Rejected
  | Resolved 'a

record tokenData =
  access_token :: "jstring option"
  error_description :: "jstring option"

record kakaoUser =
  kakao_user_id :: "int option"
  properties_nickname :: "jstring option"
  properties_profile_image :: "jstring option"
  kakao_account_email :: "jstring option"

definition error_redirect :: response where
  \<comment> \<open>the redirect of the \<open>catch\<close> block\<close>
  "error_redirect = Redirect (js ''/#/login?error='' @ KAKAO_LOGIN_ERROR)"

definition kakao_row ::
  "jstring \<Rightarrow> jstring option \<Rightarrow> jstring option \<Rightarrow> ecommerce_01_user \<Rightarrow> ecommerce_01_user" where
  \<comment> \<open>\<open>SET nickname = $1, profile_image = COALESCE($2, profile_image), email = COALESCE($3, email)\<close>
      on one row\<close>
  "kakao_row nick' img em' r =
     r\<lparr>u_nickname := nick',
       u_profile_image := COALESCE img (u_profile_image r),
       u_email := COALESCE em' (u_email r)\<rparr>"

definition update_kakao ::
  "env \<Rightarrow> jstring \<Rightarrow> jstring option \<Rightarrow> jstring option \<Rightarrow> jstring \<Rightarrow>
   ecommerce_01_user db \<Rightarrow> db_error + (ecommerce_01_user list \<times> ecommerce_01_user db)" where
  \<comment> \<open>\<open>UPDATE ecommerce_01_users SET nickname = $1, profile_image = COALESCE($2, profile_image),
      email = COALESCE($3, email) WHERE kakao_id = $4 RETURNING *\<close>\<close>
  "update_kakao e nick img em kid db =
     (case (varchar e 50 nick, coerce e 100 em) of
        (Some nick', Some em') \<Rightarrow>
          (let us = map (\<lambda>r. if u_kakao_id r = Some kid then kakao_row nick' img em' r else r)
                        (users db)
           in Inr (filter (\<lambda>r. u_kakao_id r = Some kid) us, db\<lparr>users := us\<rparr>))
      | _ \<Rightarrow> Inl OtherError)"

definition insert_kakao ::
  "env \<Rightarrow> nat \<Rightarrow> jstring \<Rightarrow> jstring option \<Rightarrow> jstring option \<Rightarrow> jstring \<Rightarrow>
   ecommerce_01_user db \<Rightarrow> (db_error + ecommerce_01_user) \<times> ecommerce_01_user db" where
  \<comment> \<open>\<open>INSERT INTO ecommerce_01_users (nickname, email, profile_image, kakao_id, provider)
      VALUES ($1, $2, $3, $4, 'kakao') RETURNING *\<close>\<close>
  "insert_kakao e now nick em img kid db =
     (case (varchar e 50 nick, coerce e 100 em, varchar e 100 kid) of
        (Some nick', Some em', Some kid') \<Rightarrow>
          (let new_id = last_id db + 1; db1 = db\<lparr>last_id := new_id\<rparr> in
           if Some kid' \<in> set (map u_kakao_id (users db)) then (Inl UniqueViolation, db1)
           else
             (let row = \<lparr>u_id = new_id, u_username = None, u_password = None,
                         u_nickname = nick', u_email = em', u_phone = None, u_profile_image = img,
                         u_kakao_id = Some kid', u_provider = js ''kakao'', u_created_at = now\<rparr>
              in (Inr row, db1\<lparr>users := users db @ [row]\<rparr>)))
      | _ \<Rightarrow> (Inl OtherError, db))"

definition kakao_callback ::
  "env \<Rightarrow> nat \<Rightarrow> request \<Rightarrow> tokenData fetched \<Rightarrow> kakaoUser fetched \<Rightarrow>
   ecommerce_01_user db \<Rightarrow> response \<times> ecommerce_01_user db" where
  "kakao_callback e now req tokenRes userRes db =
     (if \<not> truthy (code req) then (Redirect (js ''/#/login?error='' @ KAKAO_AUTH_FAILED), db)
      else
        (case tokenRes of
           Rejected \<Rightarrow> (error_redirect, db)
         | Resolved td \<Rightarrow>
             if \<not> truthy (access_token td) then
               (case encodeURIComponent e (or_else (error_description td) KAKAO_TOKEN_FAILED) of
                  None \<Rightarrow> (error_redirect, db)
                | Some m \<Rightarrow> (Redirect (js ''/#/login?error='' @ m), db))
             else
               (case userRes of
                  Rejected \<Rightarrow> (error_redirect, db)
                | Resolved ku \<Rightarrow>
                    (let kakaoId = String (kakao_user_id ku);
                         kakaoNickname = or_else (properties_nickname ku) KAKAO_DEFAULT_NICKNAME;
                         kakaoEmail = or_null (kakao_account_email ku);
                         kakaoProfileImage = or_null (properties_profile_image ku)
                     in
                       if list_ex (\<lambda>r. u_kakao_id r = Some kakaoId) (users db) then
                         (case update_kakao e kakaoNickname kakaoProfileImage kakaoEmail kakaoId db of
                            Inr (row # _, db') \<Rightarrow>
                              (Redirect (js ''/#/kakao-callback?token='' @ generateToken e now row), db')
                          | Inr ([], db') \<Rightarrow> (error_redirect, db')
                          | Inl _ \<Rightarrow> (error_redirect, db))
                       else
                         (case insert_kakao e now kakaoNickname kakaoEmail kakaoProfileImage kakaoId db of
                            (Inr row, db') \<Rightarrow>
                              (Redirect (js ''/#/kakao-callback?token='' @ generateToken e now row), db')
                          | (Inl _, db') \<Rightarrow> (error_redirect, db'))))))"

section \<open>The servers as state machines\<close>

text \<open>
  The routes of the authentication layer of each server, and a run of the server over a
  list of timed requests. The store is the only state that a request leaves behind, and
  no other route of the servers writes the users table.
\<close>

datatype call =
    Register request
  | Login request
  | Me request
  | Profile request
  | KakaoCallback request "tokenData fetched" "kakaoUser fetched"

fun serve :: "env \<Rightarrow> nat \<Rightarrow> call \<Rightarrow> ecommerce_01_user db \<Rightarrow> response \<times> ecommerce_01_user db" where
  "serve e now (Register req) db = register e now req db"
| "serve e now (Login req) db = login e now req db"
| "serve e now (Me req) db = protected (ecommerce_secret e) e now me req db"
| "serve e now (Profile req) db = protected (ecommerce_secret e) e now (profile e) req db"
| "serve e now (KakaoCallback req tokenRes userRes) db = kakao_callback e now req tokenRes userRes db"

fun serve_all :: "env \<Rightarrow> (nat \<times> call) list \<Rightarrow> ecommerce_01_user db \<Rightarrow> ecommerce_01_user db" where
  "serve_all e [] db = db"
| "serve_all e ((now, c) # cs) db = serve_all e cs (snd (serve e now c db))"

datatype dangun_call =
    DangunRegister request
  | DangunLogin request
  | DangunMe request
  | DangunProfile request

fun dangun_serve :: "env \<Rightarrow> nat \<Rightarrow> dangun_call \<Rightarrow> dangun_01_user db \<Rightarrow> response \<times> dangun_01_user db" where
  "dangun_serve e now (DangunRegister req) db = dangun_register e now req db"
| "dangun_serve e now (DangunLogin req) db = dangun_login e now req db"
| "dangun_serve e now (DangunMe req) db = protected (dangun_secret e) e now dangun_me req db"
| "dangun_serve e now (DangunProfile req) db = protected (dangun_secret e) e now (dangun_profile e) req db"

fun dangun_serve_all :: "env \<Rightarrow> (nat \<times> dangun_call) list \<Rightarrow> dangun_01_user db \<Rightarrow> dangun_01_user db" where
  "dangun_serve_all e [] db = db"
| "dangun_serve_all e ((now, c) # cs) db = dangun_serve_all e cs (snd (dangun_serve e now c db))"

section \<open>A concrete environment\<close>

text \<open>
  An environment on which the model can be run: columns accept a string up to their
  width, a hash is the password behind a fixed prefix, and the token codec writes every
  token of the marketplace server as \<open>market.jwt\<close> and every other token as \<open>shop.jwt\<close>;
  it reads the two texts as the tokens issued at time 1000 to the user \<open>bob\<close> of the
  marketplace server and to the user \<open>alice\<close> of the shop server. An array or an object
  is sent to the store as the text \<open>{}\<close>, and no \<open>length\<close> member that is a string, a date
  or an array compares below a number.
\<close>

definition alice :: ecommerce_01_user where
  "alice = \<lparr>u_id = 1, u_username = Some (js ''alice''), u_password = Some (js ''hash:secret1''),
            u_nickname = js ''Alice'', u_email = None, u_phone = None, u_profile_image = None,
            u_kakao_id = None, u_provider = js ''local'', u_created_at = 1000\<rparr>"

definition alice_jwt :: jwt where
  "alice_jwt = \<lparr>jwt_payload = [(''id'', JNum 1), (''username'', JStr (js ''alice'')),
                               (''nickname'', JStr (js ''Alice'')), (''provider'', JStr (js ''local''))],
                jwt_key = js ''lueur-ecommerce-secret-key'', jwt_iat = 1000, jwt_exp = 605800\<rparr>"

definition bob :: dangun_01_user where
  "bob = \<lparr>d_id = 1, d_username = js ''bob'', d_password = js ''hash:hunter2'',
          d_nickname = js ''Bob'', d_location = Some (js ''Seoul''), d_profile_image = None,
          d_created_at = 1000\<rparr>"

definition bob_jwt :: jwt where
  "bob_jwt = \<lparr>jwt_payload = [(''id'', JNum 1), (''username'', JStr (js ''bob'')),
                             (''nickname'', JStr (js ''Bob''))],
              jwt_key = js ''dangun-01-secret-key'', jwt_iat = 1000, jwt_exp = 605800\<rparr>"

definition example_env :: env where
  "example_env =
     \<lparr>env_JWT_SECRET = None,
      varchar = (\<lambda>n s. if length s \<le> n then Some s else None),
      bcrypt_hash = (\<lambda>p. js ''hash:'' @ p),
      bcrypt_compare = (\<lambda>p h. h = js ''hash:'' @ p),
      jwt_render = (\<lambda>t. if jwt_key t = js ''dangun-01-secret-key'' then js ''market.jwt'' else js ''shop.jwt''),
      jwt_parse = (\<lambda>s. if s = js ''shop.jwt'' then Some alice_jwt
                       else if s = js ''market.jwt'' then Some bob_jwt else None),
      encodeURIComponent = Some,
      prepare_object = (\<lambda>v. js ''{}''),
      less_than = (\<lambda>v n. False)\<rparr>"

definition empty_request :: request where
  \<comment> \<open>a request without header, body and query string\<close>
  "empty_request = \<lparr>authorization = None, body = None, code = None, user = None\<rparr>"

definition alice_claims :: "(string \<times> json) list" where
  "alice_claims = jwt_payload alice_jwt @ [(''iat'', JNum 1000), (''exp'', JNum 605800)]"

section \<open>What a response discloses\<close>

text \<open>\<open>mentions k v\<close>: some object inside the JSON value \<open>v\<close>, at any depth, has a member
  named \<open>k\<close>.\<close>

fun mentions :: "string \<Rightarrow> json \<Rightarrow> bool" where
  "mentions k (JObj ms) = (\<exists>m\<in>set ms. fst m = k \<or> mentions k (snd m))"
| "mentions k JNull = False"
| "mentions k (JBool b) = False"
| "mentions k (JNum i) = False"
| "mentions k (JStr s) = False"
| "mentions k (JDate t) = False"
| "mentions k (JArr xs) = (\<exists>x\<in>set xs. mentions k x)"

fun discloses :: "string \<Rightarrow> response \<Rightarrow> bool" where
  "discloses k (Json n b) = mentions k b"
| "discloses k (Redirect url) = False"

definition bob_claims :: "(string \<times> json) list" where
  "bob_claims = jwt_payload bob_jwt @ [(''iat'', JNum 1000), (''exp'', JNum 605800)]"

text \<open>A user of the identity provider, and the row of the shop server created for them at
  time 3000 in a store that holds \<open>alice\<close>.\<close>

definition dana :: kakaoUser where
  "dana = \<lparr>kakao_user_id = Some 4242, properties_nickname = Some (js ''Dana''),
           properties_profile_image = None, kakao_account_email = None\<rparr>"

definition dana_row :: ecommerce_01_user where
  "dana_row = \<lparr>u_id = 2, u_username = None, u_password = None, u_nickname = js ''Dana'',
               u_email = None, u_phone = None, u_profile_image = None,
               u_kakao_id = Some (js ''4242''), u_provider = js ''kakao'', u_created_at = 3000\<rparr>"

definition kakao_request :: request where
  "kakao_request = empty_request\<lparr>code := Some (js ''authorization-code'')\<rparr>"

definition kakao_granted :: tokenData where
  "kakao_granted = \<lparr>access_token = Some (js ''access-token''), error_description = None\<rparr>"

text \<open>The body with which the provider answers a profile request that it refuses, such as
  \<open>{ "msg": "this access token does not exist", "code": -401 }\<close>: it parses, and none of the
  members the handler reads is present.\<close>

definition kakao_refusal :: kakaoUser where
  "kakao_refusal = \<lparr>kakao_user_id = None, properties_nickname = None,
                    properties_profile_image = None, kakao_account_email = None\<rparr>"

text \<open>A registration on the shop server, and the row it stores at time 2000 in a store
  that holds \<open>alice\<close>.\<close>

definition carol_request :: request where
  "carol_request = empty_request\<lparr>body := Some [(''username'', JStr (js ''carol'')),
                                                (''password'', JStr (js ''secret1'')),
                                                (''nickname'', JStr (js ''Carol''))]\<rparr>"

definition carol_row :: ecommerce_01_user where
  "carol_row = \<lparr>u_id = 2, u_username = Some (js ''carol''), u_password = Some (js ''hash:secret1''),
                u_nickname = js ''Carol'', u_email = None, u_phone = None, u_profile_image = None,
                u_kakao_id = None, u_provider = js ''local'', u_created_at = 2000\<rparr>"

definition carol_dangun_row :: dangun_01_user where
  "carol_dangun_row = \<lparr>d_id = 2, d_username = js ''carol'', d_password = js ''hash:secret1'',
                       d_nickname = js ''Carol'', d_location = Some DEFAULT_LOCATION,
                       d_profile_image = None, d_created_at = 2000\<rparr>"

section \<open>A codec for tokens\<close>

text \<open>
  A token codec on which the model can be run, standing for the compact serialisation of
  \<open>jsonwebtoken\<close>. A token is written as the program of a small stack machine that
  rebuilds it, and the program as decimal numbers, each followed by a full stop.
\<close>

datatype item =
    Value json
  | Unit "16 word"
  | Letter char
  | Name string

fun emit :: "json \<Rightarrow> (nat \<times> nat) list" where
  "emit JNull = [(0, 0)]"
| "emit (JBool b) = [(1, if b then 1 else 0)]"
| "emit (JNum i) = [(if i < 0 then 3 else 2, nat \<bar>i\<bar>)]"
| "emit (JStr s) = map (\<lambda>w. (4, unat w)) s @ [(5, length s)]"
| "emit (JDate t) = [(6, t)]"
| "emit (JArr xs) = concat (map emit xs) @ [(7, length xs)]"
| "emit (JObj ms) =
     concat (map (\<lambda>m. map (\<lambda>c. (8, of_char c)) (fst m) @ (9, length (fst m)) # emit (snd m)) ms)
     @ [(10, length ms)]"

fun pop_units :: "nat \<Rightarrow> item list \<Rightarrow> (jstring \<times> item list) option" where
  "pop_units 0 st = Some ([], st)"
| "pop_units (Suc n) (Unit w # st) = map_option (\<lambda>(s, st'). (s @ [w], st')) (pop_units n st)"
| "pop_units (Suc n) st = None"

fun pop_letters :: "nat \<Rightarrow> item list \<Rightarrow> (string \<times> item list) option" where
  "pop_letters 0 st = Some ([], st)"
| "pop_letters (Suc n) (Letter c # st) = map_option (\<lambda>(s, st'). (s @ [c], st')) (pop_letters n st)"
| "pop_letters (Suc n) st = None"

fun pop_values :: "nat \<Rightarrow> item list \<Rightarrow> (json list \<times> item list) option" where
  "pop_values 0 st = Some ([], st)"
| "pop_values (Suc n) (Value v # st) = map_option (\<lambda>(vs, st'). (vs @ [v], st')) (pop_values n st)"
| "pop_values (Suc n) st = None"

fun pop_members :: "nat \<Rightarrow> item list \<Rightarrow> ((string \<times> json) list \<times> item list) option" where
  "pop_members 0 st = Some ([], st)"
| "pop_members (Suc n) (Value v # Name k # st) =
     map_option (\<lambda>(ms, st'). (ms @ [(k, v)], st')) (pop_members n st)"
| "pop_members (Suc n) st = None"

fun step :: "nat \<times> nat \<Rightarrow> item list \<Rightarrow> item list option" where
  "step (opc, x) st =
     (if opc = 0 then Some (Value JNull # st)
      else if opc = 1 then Some (Value (JBool (x \<noteq> 0)) # st)
      else if opc = 2 then Some (Value (JNum (int x)) # st)
      else if opc = 3 then Some (Value (JNum (- int x)) # st)
      else if opc = 4 then Some (Unit (of_nat x) # st)
      else if opc = 5 then map_option (\<lambda>(s, st'). Value (JStr s) # st') (pop_units x st)
      else if opc = 6 then Some (Value (JDate x) # st)
      else if opc = 7 then map_option (\<lambda>(vs, st'). Value (JArr vs) # st') (pop_values x st)
      else if opc = 8 then Some (Letter (char_of x) # st)
      else if opc = 9 then map_option (\<lambda>(k, st'). Name k # st') (pop_letters x st)
      else if opc = 10 then map_option (\<lambda>(ms, st'). Value (JObj ms) # st') (pop_members x st)
      else None)"

fun exec :: "(nat \<times> nat) list \<Rightarrow> item list \<Rightarrow> item list option" where
  "exec [] st = Some st"
| "exec (i # is) st = (case step i st of None \<Rightarrow> None | Some st' \<Rightarrow> exec is st')"

definition program_text :: "(nat \<times> nat) list \<Rightarrow> jstring" where
  "program_text prog = concat (map (\<lambda>i. digits (fst i) @ 0x2E # digits (snd i) @ [0x2E]) prog)"

definition number :: "jstring \<Rightarrow> nat" where
  "number s = foldl (\<lambda>n c. 10 * n + (unat c - 48)) 0 s"

fun pairs :: "nat list \<Rightarrow> (nat \<times> nat) list" where
  "pairs (a # b # r) = (a, b) # pairs r"
| "pairs r = []"

definition text_program :: "jstring \<Rightarrow> (nat \<times> nat) list" where
  "text_program s = pairs (map number (butlast (split 0x2E s)))"

definition jwt_json :: "jwt \<Rightarrow> json" where
  "jwt_json t = JArr [JObj (jwt_payload t), JStr (jwt_key t), JDate (jwt_iat t), JDate (jwt_exp t)]"

definition json_jwt :: "json \<Rightarrow> jwt option" where
  "json_jwt v =
     (case v of
        JArr [JObj p, JStr k, JDate i, JDate x] \<Rightarrow>
          Some \<lparr>jwt_payload = p, jwt_key = k, jwt_iat = i, jwt_exp = x\<rparr>
      | _ \<Rightarrow> None)"

definition jwt_text :: "jwt \<Rightarrow> jstring" where
  "jwt_text t = program_text (emit (jwt_json t))"

definition text_jwt :: "jstring \<Rightarrow> jwt option" where
  "text_jwt s = (case exec (text_program s) [] of Some [Value v] \<Rightarrow> json_jwt v | _ \<Rightarrow> None)"

definition codec_env :: env where
  \<comment> \<open>the concrete environment with this codec\<close>
  "codec_env = example_env\<lparr>jwt_render := jwt_text, jwt_parse := text_jwt\<rparr>"

section \<open>Requests with a body\<close>

definition json_request :: "(string \<times> json) list \<Rightarrow> request" where
  \<comment> \<open>a request whose body is the JSON object with the given members\<close>
  "json_request ms = empty_request\<lparr>body := Some ms\<rparr>"

text \<open>The claims that \<open>auth\<close> decodes from the tokens issued at time 2000 to \<open>carol\<close>, on the
  shop server and on the marketplace server.\<close>

definition carol_claims :: "(string \<times> json) list" where
  "carol_claims = token_claims carol_row @ [(''iat'', JNum 2000), (''exp'', JNum 606800)]"

definition carol_dangun_claims :: "(string \<times> json) list" where
  "carol_dangun_claims = dangun_claims carol_dangun_row @ [(''iat'', JNum 2000), (''exp'', JNum 606800)]"

text \<open>A concrete environment whose hashes begin with a salt, as those of \<open>bcryptjs\<close> do: the
  salt is two code units and a colon, and a password is verified by a hash with any salt.\<close>

definition salted_env :: env where
  "salted_env = example_env\<lparr>bcrypt_hash := (\<lambda>p. js ''s1:'' @ p),
                             bcrypt_compare := (\<lambda>p h. 3 \<le> length h \<and> drop 3 h = p)\<rparr>"

section \<open>Splitting the header\<close>

lemma split_not_Nil: "split sep s \<noteq> []"
  by (induction s) (auto split: list.splits)

lemma split_after_prefix:
  "startsWith h (p @ [sep]) \<Longrightarrow> sep \<notin> set p \<Longrightarrow> \<exists>t rest. split sep h = p # t # rest"
proof (induction p arbitrary: h)
  case Nil
  then obtain cs where "h = sep # cs" by (cases h) auto
  then show ?case using split_not_Nil [of sep cs] by (cases "split sep cs") auto
next
  case (Cons a p)
  then obtain cs where h: "h = a # cs" and "startsWith cs (p @ [sep])" by (cases h) auto
  then obtain t rest where "split sep cs = p # t # rest" using Cons by fastforce
  then show ?case using h Cons.prems by auto
qed

lemma bearer_token_present:
  assumes "startsWith h (js ''Bearer '')"
  shows "\<exists>t. bearer_token h = Some t"
proof -
  have "js ''Bearer '' = js ''Bearer'' @ [0x20]" by (simp add: js_def)
  moreover have "(0x20::16 word) \<notin> set (js ''Bearer'')" by (simp add: js_def)
  ultimately obtain t rest where "split 0x20 h = js ''Bearer'' # t # rest"
    using assms split_after_prefix by metis
  then show ?thesis by (simp add: bearer_token_def)
qed

lemma jwt_verify_fails:
  "token = [] \<or> jwt_parse e token = None
     \<or> (\<exists>t. jwt_parse e token = Some t \<and> (jwt_key t \<noteq> secret \<or> jwt_exp t \<le> now))
   \<Longrightarrow> jwt_verify e token secret now = None"
  by (auto simp: jwt_verify_def)

section \<open>The authorization gate\<close>

text \<open>
  Claim C1. On a bearer-protected route, a request whose \<open>Authorization\<close> header is absent
  or does not start with \<open>Bearer \<close> is answered with status 401 and the handler does not
  run: the answer and the store are the same for every handler. Otherwise the header
  presents a token; when its verification fails (empty or malformed text, another
  secret, expiry reached) the answer is again 401 without the handler, and when it
  succeeds the decoded claims are stored in \<open>req.user\<close> and the handler runs on that request.
\<close>

theorem auth_gate:
  fixes handler :: "request \<Rightarrow> 'db \<Rightarrow> response \<times> 'db"
  shows
    "(authorization req = None \<or> (\<exists>h. authorization req = Some h \<and> \<not> startsWith h (js ''Bearer ''))
        \<longrightarrow> auth secret e now req = Responded (failure 401 MSG_LOGIN_REQUIRED)
          \<and> protected secret e now handler req db = (failure 401 MSG_LOGIN_REQUIRED, db))
     \<and> (\<forall>h. authorization req = Some h \<and> startsWith h (js ''Bearer '') \<longrightarrow>
          (\<exists>token. bearer_token h = Some token
             \<and> (token = [] \<or> jwt_parse e token = None
                  \<or> (\<exists>t. jwt_parse e token = Some t \<and> (jwt_key t \<noteq> secret \<or> jwt_exp t \<le> now))
                \<longrightarrow> jwt_verify e token secret now = None)
             \<and> (jwt_verify e token secret now = None
                \<longrightarrow> auth secret e now req = Responded (failure 401 MSG_INVALID_TOKEN)
                  \<and> protected secret e now handler req db = (failure 401 MSG_INVALID_TOKEN, db))
             \<and> (\<forall>claims. jwt_verify e token secret now = Some claims
                \<longrightarrow> auth secret e now req = Next (req\<lparr>user := Some claims\<rparr>)
                  \<and> protected secret e now handler req db = handler (req\<lparr>user := Some claims\<rparr>) db)))"
proof (intro conjI allI impI)
  assume a: "authorization req = None \<or> (\<exists>h. authorization req = Some h \<and> \<not> startsWith h (js ''Bearer ''))"
  then show r: "auth secret e now req = Responded (failure 401 MSG_LOGIN_REQUIRED)"
    by (auto simp: auth_def)
  then show "protected secret e now handler req db = (failure 401 MSG_LOGIN_REQUIRED, db)"
    by (simp add: protected_def)
next
  fix h
  assume h: "authorization req = Some h \<and> startsWith h (js ''Bearer '')"
  then have ne: "h \<noteq> []" by (auto simp: js_def)
  from h obtain token where t: "bearer_token h = Some token"
    using bearer_token_present by blast
  have fails: "token = [] \<or> jwt_parse e token = None
                  \<or> (\<exists>t. jwt_parse e token = Some t \<and> (jwt_key t \<noteq> secret \<or> jwt_exp t \<le> now))
                \<longrightarrow> jwt_verify e token secret now = None"
    by (rule impI) (rule jwt_verify_fails)
  have none: "jwt_verify e token secret now = None
                \<longrightarrow> auth secret e now req = Responded (failure 401 MSG_INVALID_TOKEN)
                  \<and> protected secret e now handler req db = (failure 401 MSG_INVALID_TOKEN, db)"
    using h ne t by (simp add: auth_def protected_def)
  have some: "\<forall>claims. jwt_verify e token secret now = Some claims
                \<longrightarrow> auth secret e now req = Next (req\<lparr>user := Some claims\<rparr>)
                  \<and> protected secret e now handler req db = handler (req\<lparr>user := Some claims\<rparr>) db"
    using h ne t by (simp add: auth_def protected_def)
  show "\<exists>token. bearer_token h = Some token
             \<and> (token = [] \<or> jwt_parse e token = None
                  \<or> (\<exists>t. jwt_parse e token = Some t \<and> (jwt_key t \<noteq> secret \<or> jwt_exp t \<le> now))
                \<longrightarrow> jwt_verify e token secret now = None)
             \<and> (jwt_verify e token secret now = None
                \<longrightarrow> auth secret e now req = Responded (failure 401 MSG_INVALID_TOKEN)
                  \<and> protected secret e now handler req db = (failure 401 MSG_INVALID_TOKEN, db))
             \<and> (\<forall>claims. jwt_verify e token secret now = Some claims
                \<longrightarrow> auth secret e now req = Next (req\<lparr>user := Some claims\<rparr>)
                  \<and> protected secret e now handler req db = handler (req\<lparr>user := Some claims\<rparr>) db)"
    using t fails none some by (intro exI [of _ token] conjI)
qed

lemma example_verify:
  "jwt_verify example_env (js ''shop.jwt'') (ecommerce_secret example_env) 2000 = Some alice_claims"
  by (simp add: jwt_verify_def example_env_def ecommerce_secret_def JWT_SECRET_def alice_jwt_def
      alice_claims_def js_def)

lemma example_verify_late:
  "jwt_verify example_env (js ''shop.jwt'') (ecommerce_secret example_env) 700000 = None"
  by (simp add: jwt_verify_def example_env_def ecommerce_secret_def JWT_SECRET_def alice_jwt_def js_def)

lemma example_bearer_token: "bearer_token (js ''Bearer shop.jwt'') = Some (js ''shop.jwt'')"
  by (simp add: bearer_token_def js_def)

lemma example_prefix:
  "startsWith (js ''Bearer shop.jwt'') (js ''Bearer '')"
  "\<not> startsWith (js ''Basic shop.jwt'') (js ''Bearer '')"
  by (simp_all add: js_def)

lemma example_me:
  "me (empty_request\<lparr>authorization := Some (js ''Bearer shop.jwt''), user := Some alice_claims\<rparr>)
      \<lparr>users = [alice], last_id = 1\<rparr>
   = (success (sanitizeUser alice), \<lparr>users = [alice], last_id = 1\<rparr>)"
  by (simp add: me_def user_id_def alice_claims_def alice_jwt_def alice_def)

theorem auth_gate_witness:
  "protected (ecommerce_secret example_env) example_env 2000 me empty_request \<lparr>users = [alice], last_id = 1\<rparr>
     = (failure 401 MSG_LOGIN_REQUIRED, \<lparr>users = [alice], last_id = 1\<rparr>)
   \<and> protected (ecommerce_secret example_env) example_env 2000 me
        (empty_request\<lparr>authorization := Some (js ''Basic shop.jwt'')\<rparr>) \<lparr>users = [alice], last_id = 1\<rparr>
     = (failure 401 MSG_LOGIN_REQUIRED, \<lparr>users = [alice], last_id = 1\<rparr>)
   \<and> protected (ecommerce_secret example_env) example_env 700000 me
        (empty_request\<lparr>authorization := Some (js ''Bearer shop.jwt'')\<rparr>) \<lparr>users = [alice], last_id = 1\<rparr>
     = (failure 401 MSG_INVALID_TOKEN, \<lparr>users = [alice], last_id = 1\<rparr>)
   \<and> protected (ecommerce_secret example_env) example_env 2000 me
        (empty_request\<lparr>authorization := Some (js ''Bearer shop.jwt'')\<rparr>) \<lparr>users = [alice], last_id = 1\<rparr>
     = (success (sanitizeUser alice), \<lparr>users = [alice], last_id = 1\<rparr>)"
proof -
  let ?s = "ecommerce_secret example_env"
  let ?db = "\<lparr>users = [alice], last_id = 1\<rparr> :: ecommerce_01_user db"
  let ?basic = "empty_request\<lparr>authorization := Some (js ''Basic shop.jwt'')\<rparr>"
  let ?bearer = "empty_request\<lparr>authorization := Some (js ''Bearer shop.jwt'')\<rparr>"
  have 1: "protected ?s example_env 2000 me empty_request ?db = (failure 401 MSG_LOGIN_REQUIRED, ?db)"
    using auth_gate [of empty_request ?s example_env 2000 me ?db]
    by (simp add: empty_request_def)
  have 2: "protected ?s example_env 2000 me ?basic ?db = (failure 401 MSG_LOGIN_REQUIRED, ?db)"
    using auth_gate [of ?basic ?s example_env 2000 me ?db] example_prefix
    by simp
  have 3: "protected ?s example_env 700000 me ?bearer ?db = (failure 401 MSG_INVALID_TOKEN, ?db)"
    using auth_gate [of ?bearer ?s example_env 700000 me ?db] example_prefix example_bearer_token
      example_verify_late
    by simp
  have a: "protected ?s example_env 2000 me ?bearer ?db = me (?bearer\<lparr>user := Some alice_claims\<rparr>) ?db"
    using auth_gate [of ?bearer ?s example_env 2000 me ?db] example_prefix example_bearer_token
      example_verify
    by simp
  have 4: "protected ?s example_env 2000 me ?bearer ?db = (success (sanitizeUser alice), ?db)"
    by (rule trans [OF a example_me])
  show ?thesis by (intro conjI) (rule 1, rule 2, rule 3, rule 4)
qed

lemma split_without_separator: "sep \<notin> set s \<Longrightarrow> split sep s = [s]"
  by (induction s) auto

lemma split_append_separator:
  "sep \<notin> set p \<Longrightarrow> split sep (p @ sep # s) = p # split sep s"
  by (induction p) auto

lemma bearer_token_of_header:
  assumes "0x20 \<notin> set tok"
  shows "bearer_token (js ''Bearer '' @ tok) = Some tok"
proof -
  have "js ''Bearer '' @ tok = js ''Bearer'' @ 0x20 # tok" by (simp add: js_def)
  moreover have "(0x20::16 word) \<notin> set (js ''Bearer'')" by (simp add: js_def)
  ultimately have "split 0x20 (js ''Bearer '' @ tok) = js ''Bearer'' # split 0x20 tok"
    using split_append_separator by metis
  then show ?thesis using assms by (simp add: bearer_token_def split_without_separator)
qed

lemma startsWith_append: "startsWith (p @ s) p"
  by (induction p) auto

lemma auth_bearer:
  assumes "0x20 \<notin> set tok"
  shows "auth secret e now (req\<lparr>authorization := Some (js ''Bearer '' @ tok)\<rparr>) =
           (case jwt_verify e tok secret now of
              None \<Rightarrow> Responded (failure 401 MSG_INVALID_TOKEN)
            | Some claims \<Rightarrow> Next (req\<lparr>authorization := Some (js ''Bearer '' @ tok), user := Some claims\<rparr>))"
proof -
  have "js ''Bearer '' \<noteq> []" by (simp add: js_def)
  then show ?thesis
    using bearer_token_of_header [OF assms] startsWith_append [of "js ''Bearer ''" tok]
    by (simp add: auth_def split: option.splits)
qed

section \<open>The validity window of a token\<close>

lemma jwt_verify_render:
  assumes "jwt_parse e (jwt_render e t) = Some t" "jwt_render e t \<noteq> []"
  shows "jwt_verify e (jwt_render e t) secret now =
           (if jwt_key t = secret \<and> now < jwt_exp t
            then Some (jwt_payload t @ [(''iat'', JNum (int (jwt_iat t))), (''exp'', JNum (int (jwt_exp t)))])
            else None)"
  using assms by (simp add: jwt_verify_def)

lemma jwt_verify_sign:
  assumes "\<forall>t. jwt_parse e (jwt_render e t) = Some t \<and> jwt_render e t \<noteq> [] \<and> 0x20 \<notin> set (jwt_render e t)"
  shows "jwt_verify e (jwt_sign e payload key ttl T) secret now =
           (if key = secret \<and> now < T + ttl
            then Some (payload @ [(''iat'', JNum (int T)), (''exp'', JNum (int (T + ttl)))])
            else None)"
proof -
  have "jwt_parse e (jwt_render e (jwt_issue payload key ttl T)) = Some (jwt_issue payload key ttl T)"
    and "jwt_render e (jwt_issue payload key ttl T) \<noteq> []"
    using assms by blast+
  then have "jwt_verify e (jwt_render e (jwt_issue payload key ttl T)) secret now =
           (if jwt_key (jwt_issue payload key ttl T) = secret \<and> now < jwt_exp (jwt_issue payload key ttl T)
            then Some (jwt_payload (jwt_issue payload key ttl T)
                         @ [(''iat'', JNum (int (jwt_iat (jwt_issue payload key ttl T)))),
                            (''exp'', JNum (int (jwt_exp (jwt_issue payload key ttl T))))])
            else None)"
    by (rule jwt_verify_render)
  then show ?thesis
    by (simp add: jwt_sign_def jwt_issue_def)
qed

lemma auth_sign:
  assumes "\<forall>t. jwt_parse e (jwt_render e t) = Some t \<and> jwt_render e t \<noteq> [] \<and> 0x20 \<notin> set (jwt_render e t)"
  shows "auth secret e now (req\<lparr>authorization := Some (js ''Bearer '' @ jwt_sign e payload key ttl T)\<rparr>) =
           (if key = secret \<and> now < T + ttl
            then Next (req\<lparr>authorization := Some (js ''Bearer '' @ jwt_sign e payload key ttl T),
                            user := Some (payload @ [(''iat'', JNum (int T)), (''exp'', JNum (int (T + ttl)))])\<rparr>)
            else Responded (failure 401 MSG_INVALID_TOKEN))"
proof -
  have "0x20 \<notin> set (jwt_sign e payload key ttl T)"
    using assms by (simp add: jwt_sign_def)
  then show ?thesis
    by (simp add: auth_bearer jwt_verify_sign [OF assms])
qed

text \<open>
  Claim C5. Let the token codec be faithful: the text of a token is not empty, has no
  space, and parses back to the token. Then the token that either server issues at time
  \<open>T\<close> is accepted by \<open>verify\<close> under the process secret exactly at the times before
  \<open>T + 7 days\<close>, with the claims it was issued for: it is accepted at \<open>T + 6 days\<close>, where
  the gate passes the request on with these claims, and refused at \<open>T + 8 days\<close>, where the
  gate answers 401. A token signed with another secret is refused at every time. For
  any codec, \<open>verify\<close> fails on a text that does not parse and on a token whose secret is
  not the one given.
\<close>

theorem token_validity_window:
  "((\<forall>t. jwt_parse e (jwt_render e t) = Some t \<and> jwt_render e t \<noteq> [] \<and> 0x20 \<notin> set (jwt_render e t))
    \<longrightarrow> (\<forall>now. jwt_verify e (generateToken e T u) (ecommerce_secret e) now =
                  (if now < T + 7 * DAY
                   then Some (token_claims u @ [(''iat'', JNum (int T)), (''exp'', JNum (int (T + 7 * DAY)))])
                   else None))
        \<and> jwt_verify e (generateToken e T u) (ecommerce_secret e) (T + 6 * DAY) \<noteq> None
        \<and> jwt_verify e (generateToken e T u) (ecommerce_secret e) (T + 8 * DAY) = None
        \<and> auth (ecommerce_secret e) e (T + 6 * DAY)
              (req\<lparr>authorization := Some (js ''Bearer '' @ generateToken e T u)\<rparr>)
            = Next (req\<lparr>authorization := Some (js ''Bearer '' @ generateToken e T u),
                        user := Some (token_claims u @ [(''iat'', JNum (int T)),
                                                        (''exp'', JNum (int (T + 7 * DAY)))])\<rparr>)
        \<and> auth (ecommerce_secret e) e (T + 8 * DAY)
              (req\<lparr>authorization := Some (js ''Bearer '' @ generateToken e T u)\<rparr>)
            = Responded (failure 401 MSG_INVALID_TOKEN)
        \<and> (\<forall>now. jwt_verify e (dangun_token e T d) (dangun_secret e) now =
                  (if now < T + 7 * DAY
                   then Some (dangun_claims d @ [(''iat'', JNum (int T)), (''exp'', JNum (int (T + 7 * DAY)))])
                   else None))
        \<and> jwt_verify e (dangun_token e T d) (dangun_secret e) (T + 6 * DAY) \<noteq> None
        \<and> jwt_verify e (dangun_token e T d) (dangun_secret e) (T + 8 * DAY) = None
        \<and> auth (dangun_secret e) e (T + 6 * DAY)
              (req\<lparr>authorization := Some (js ''Bearer '' @ dangun_token e T d)\<rparr>)
            = Next (req\<lparr>authorization := Some (js ''Bearer '' @ dangun_token e T d),
                        user := Some (dangun_claims d @ [(''iat'', JNum (int T)),
                                                         (''exp'', JNum (int (T + 7 * DAY)))])\<rparr>)
        \<and> auth (dangun_secret e) e (T + 8 * DAY)
              (req\<lparr>authorization := Some (js ''Bearer '' @ dangun_token e T d)\<rparr>)
            = Responded (failure 401 MSG_INVALID_TOKEN)
        \<and> (\<forall>payload key ttl secret now. key \<noteq> secret
              \<longrightarrow> jwt_verify e (jwt_sign e payload key ttl T) secret now = None))
   \<and> (\<forall>tok secret now. jwt_parse e tok = None \<longrightarrow> jwt_verify e tok secret now = None)
   \<and> (\<forall>tok t secret now. jwt_parse e tok = Some t \<and> jwt_key t \<noteq> secret
         \<longrightarrow> jwt_verify e tok secret now = None)"
proof (intro conjI impI)
  assume codec: "\<forall>t. jwt_parse e (jwt_render e t) = Some t \<and> jwt_render e t \<noteq> [] \<and> 0x20 \<notin> set (jwt_render e t)"
  have seven: "SEVEN_DAYS = 7 * DAY" by (simp add: SEVEN_DAYS_def DAY_def)
  note v = jwt_verify_sign [OF codec]
  note a = auth_sign [OF codec]
  show "\<forall>now. jwt_verify e (generateToken e T u) (ecommerce_secret e) now =
                  (if now < T + 7 * DAY
                   then Some (token_claims u @ [(''iat'', JNum (int T)), (''exp'', JNum (int (T + 7 * DAY)))])
                   else None)"
    by (simp add: generateToken_def v seven)
  show "jwt_verify e (generateToken e T u) (ecommerce_secret e) (T + 6 * DAY) \<noteq> None"
    by (simp add: generateToken_def v seven DAY_def)
  show "jwt_verify e (generateToken e T u) (ecommerce_secret e) (T + 8 * DAY) = None"
    by (simp add: generateToken_def v seven DAY_def)
  show "auth (ecommerce_secret e) e (T + 6 * DAY)
              (req\<lparr>authorization := Some (js ''Bearer '' @ generateToken e T u)\<rparr>)
            = Next (req\<lparr>authorization := Some (js ''Bearer '' @ generateToken e T u),
                        user := Some (token_claims u @ [(''iat'', JNum (int T)),
                                                        (''exp'', JNum (int (T + 7 * DAY)))])\<rparr>)"
    by (simp add: generateToken_def a seven DAY_def)
  show "auth (ecommerce_secret e) e (T + 8 * DAY)
              (req\<lparr>authorization := Some (js ''Bearer '' @ generateToken e T u)\<rparr>)
            = Responded (failure 401 MSG_INVALID_TOKEN)"
    by (simp add: generateToken_def a seven DAY_def)
  show "\<forall>now. jwt_verify e (dangun_token e T d) (dangun_secret e) now =
                  (if now < T + 7 * DAY
                   then Some (dangun_claims d @ [(''iat'', JNum (int T)), (''exp'', JNum (int (T + 7 * DAY)))])
                   else None)"
    by (simp add: dangun_token_def v seven)
  show "jwt_verify e (dangun_token e T d) (dangun_secret e) (T + 6 * DAY) \<noteq> None"
    by (simp add: dangun_token_def v seven DAY_def)
  show "jwt_verify e (dangun_token e T d) (dangun_secret e) (T + 8 * DAY) = None"
    by (simp add: dangun_token_def v seven DAY_def)
  show "auth (dangun_secret e) e (T + 6 * DAY)
              (req\<lparr>authorization := Some (js ''Bearer '' @ dangun_token e T d)\<rparr>)
            = Next (req\<lparr>authorization := Some (js ''Bearer '' @ dangun_token e T d),
                        user := Some (dangun_claims d @ [(''iat'', JNum (int T)),
                                                         (''exp'', JNum (int (T + 7 * DAY)))])\<rparr>)"
    by (simp add: dangun_token_def a seven DAY_def)
  show "auth (dangun_secret e) e (T + 8 * DAY)
              (req\<lparr>authorization := Some (js ''Bearer '' @ dangun_token e T d)\<rparr>)
            = Responded (failure 401 MSG_INVALID_TOKEN)"
    by (simp add: dangun_token_def a seven DAY_def)
  show "\<forall>payload key ttl secret now. key \<noteq> secret
              \<longrightarrow> jwt_verify e (jwt_sign e payload key ttl T) secret now = None"
    by (simp add: v)
next
  show "\<forall>tok secret now. jwt_parse e tok = None \<longrightarrow> jwt_verify e tok secret now = None"
    by (simp add: jwt_verify_def)
  show "\<forall>tok t secret now. jwt_parse e tok = Some t \<and> jwt_key t \<noteq> secret
         \<longrightarrow> jwt_verify e tok secret now = None"
    by (simp add: jwt_verify_def)
qed

subsection \<open>The codec of the concrete environment is faithful\<close>

lemma pop_units_push: "pop_units (length s) (rev (map Unit s) @ st) = Some (s, st)"
  by (induction s rule: rev_induct) auto

lemma pop_letters_push: "pop_letters (length s) (rev (map Letter s) @ st) = Some (s, st)"
  by (induction s rule: rev_induct) auto

lemma pop_values_push: "pop_values (length s) (rev (map Value s) @ st) = Some (s, st)"
  by (induction s rule: rev_induct) auto

lemma pop_members_push:
  "pop_members (length ms) (concat (rev (map (\<lambda>m. [Value (snd m), Name (fst m)]) ms)) @ st) = Some (ms, st)"
  by (induction ms rule: rev_induct) auto

lemma exec_units: "exec (map (\<lambda>w. (4, unat w)) s @ r) st = exec r (rev (map Unit s) @ st)"
  by (induction s arbitrary: st) auto

lemma exec_letters: "exec (map (\<lambda>c. (8, of_char c)) s @ r) st = exec r (rev (map Letter s) @ st)"
  by (induction s arbitrary: st) auto

lemma exec_values:
  assumes "\<And>x r st. x \<in> set xs \<Longrightarrow> exec (emit x @ r) st = exec r (Value x # st)"
  shows "exec (concat (map emit xs) @ r) st = exec r (rev (map Value xs) @ st)"
  using assms by (induction xs arbitrary: st) auto

lemma exec_members:
  assumes "\<And>m r st. m \<in> set ms \<Longrightarrow> exec (emit (snd m) @ r) st = exec r (Value (snd m) # st)"
  shows "exec (concat (map (\<lambda>m. map (\<lambda>c. (8, of_char c)) (fst m) @ (9, length (fst m)) # emit (snd m)) ms) @ r) st
           = exec r (concat (rev (map (\<lambda>m. [Value (snd m), Name (fst m)]) ms)) @ st)"
  using assms
proof (induction ms arbitrary: st)
  case Nil
  then show ?case by simp
next
  case (Cons m ms)
  have "exec (map (\<lambda>c. (8, of_char c)) (fst m) @ (9, length (fst m)) # emit (snd m) @ r') st
          = exec r' (Value (snd m) # Name (fst m) # st)" for r' st
    using Cons.prems [of m] by (simp add: exec_letters pop_letters_push)
  then show ?case using Cons by simp
qed

lemma exec_emit: "exec (emit v @ r) st = exec r (Value v # st)"
proof (induction v arbitrary: r st)
  case (JStr s)
  show ?case by (simp add: exec_units pop_units_push)
next
  case (JArr xs)
  then show ?case by (simp add: exec_values pop_values_push)
next
  case (JObj ms)
  have "exec (emit (snd m) @ r) st = exec r (Value (snd m) # st)" if "m \<in> set ms" for m r st
    using JObj that by (cases m) auto
  then show ?case by (simp add: exec_members pop_members_push)
qed auto


lemma digit_unit: "d < 10 \<Longrightarrow> unat (of_nat (48 + d) :: 16 word) = 48 + d"
  by (simp add: unat_of_nat del: of_nat_add)

lemma digits_units: "c \<in> set (digits n) \<Longrightarrow> 48 \<le> unat c \<and> unat c < 58"
proof (induction n rule: digits.induct)
  case (1 n)
  show ?case
  proof (cases "n < 10")
    case True
    with 1(2) have "c = of_nat (48 + n)" by (subst (asm) digits.simps) simp
    then show ?thesis using digit_unit [OF True] True by simp
  next
    case False
    with 1(2) have "c \<in> set (digits (n div 10)) \<or> c = of_nat (48 + n mod 10)"
      by (subst (asm) digits.simps) auto
    moreover have "unat (of_nat (48 + n mod 10) :: 16 word) = 48 + n mod 10"
      by (rule digit_unit) simp
    ultimately show ?thesis using 1(1) [OF False] by auto
  qed
qed

lemma digits_no_dot: "(0x2E :: 16 word) \<notin> set (digits n)"
  using digits_units [of "0x2E" n] by auto

lemma digits_no_space: "(0x20 :: 16 word) \<notin> set (digits n)"
  using digits_units [of "0x20" n] by auto

lemma number_snoc: "number (s @ [c]) = 10 * number s + (unat c - 48)"
  by (simp add: number_def)

lemma number_digits: "number (digits n) = n"
proof (induction n rule: digits.induct)
  case (1 n)
  show ?case
  proof (cases "n < 10")
    case True
    then show ?thesis using digit_unit [OF True] by (subst digits.simps) (simp add: number_def)
  next
    case False
    have "unat (of_nat (48 + n mod 10) :: 16 word) = 48 + n mod 10"
      by (rule digit_unit) simp
    with False 1 show ?thesis by (subst digits.simps) (simp add: number_snoc)
  qed
qed

lemma split_program_text:
  "split 0x2E (program_text prog) = concat (map (\<lambda>i. [digits (fst i), digits (snd i)]) prog) @ [[]]"
proof (induction prog)
  case Nil
  then show ?case by (simp add: program_text_def)
next
  case (Cons i prog)
  have "program_text (i # prog) = digits (fst i) @ 0x2E # (digits (snd i) @ 0x2E # program_text prog)"
    by (simp add: program_text_def)
  then show ?case
    using Cons by (simp add: split_append_separator digits_no_dot)
qed

lemma pairs_numbers:
  "pairs (map number (concat (map (\<lambda>i. [digits (fst i), digits (snd i)]) prog))) = prog"
  by (induction prog) (auto simp: number_digits)

lemma text_program_text: "text_program (program_text prog) = prog"
  by (simp add: text_program_def split_program_text pairs_numbers)

lemma program_text_no_space: "(0x20 :: 16 word) \<notin> set (program_text prog)"
  by (induction prog) (auto simp: program_text_def digits_no_space)

lemma emit_not_Nil: "emit v \<noteq> []"
  by (cases v) auto

lemma program_text_not_Nil: "prog \<noteq> [] \<Longrightarrow> program_text prog \<noteq> []"
  by (cases prog) (auto simp: program_text_def)

lemma json_jwt_json: "json_jwt (jwt_json t) = Some t"
  by (simp add: json_jwt_def jwt_json_def)

lemma text_jwt_text: "text_jwt (jwt_text t) = Some t"
proof -
  have "exec (emit (jwt_json t) @ []) [] = exec [] [Value (jwt_json t)]"
    by (rule exec_emit)
  then show ?thesis
    by (simp add: text_jwt_def jwt_text_def text_program_text json_jwt_json)
qed

lemma codec_env_faithful:
  "\<forall>t. jwt_parse codec_env (jwt_render codec_env t) = Some t \<and> jwt_render codec_env t \<noteq> []
        \<and> 0x20 \<notin> set (jwt_render codec_env t)"
proof -
  have "jwt_text t \<noteq> []" "0x20 \<notin> set (jwt_text t)" for t
    by (simp_all add: jwt_text_def program_text_no_space program_text_not_Nil emit_not_Nil)
  then show ?thesis
    by (simp add: codec_env_def text_jwt_text)
qed

lemma codec_env_secrets:
  "ecommerce_secret codec_env = js ''lueur-ecommerce-secret-key''"
  "dangun_secret codec_env = js ''dangun-01-secret-key''"
  by (simp_all add: ecommerce_secret_def dangun_secret_def JWT_SECRET_def codec_env_def example_env_def
      js_def)

theorem token_validity_window_witness:
  "jwt_verify codec_env (generateToken codec_env 1000 alice) (js ''lueur-ecommerce-secret-key'')
       (1000 + 6 * DAY)
     = Some [(''id'', JNum 1), (''username'', JStr (js ''alice'')), (''nickname'', JStr (js ''Alice'')),
             (''provider'', JStr (js ''local'')), (''iat'', JNum 1000), (''exp'', JNum 605800)]
   \<and> jwt_verify codec_env (generateToken codec_env 1000 alice) (js ''lueur-ecommerce-secret-key'')
       (1000 + 8 * DAY) = None
   \<and> jwt_verify codec_env (dangun_token codec_env 1000 bob) (js ''dangun-01-secret-key'')
       (1000 + 6 * DAY)
     = Some [(''id'', JNum 1), (''username'', JStr (js ''bob'')), (''nickname'', JStr (js ''Bob'')),
             (''iat'', JNum 1000), (''exp'', JNum 605800)]
   \<and> jwt_verify codec_env (dangun_token codec_env 1000 bob) (js ''dangun-01-secret-key'')
       (1000 + 8 * DAY) = None
   \<and> auth (js ''lueur-ecommerce-secret-key'') codec_env (1000 + 8 * DAY)
        (empty_request\<lparr>authorization := Some (js ''Bearer '' @ generateToken codec_env 1000 alice)\<rparr>)
      = Responded (failure 401 MSG_INVALID_TOKEN)
   \<and> jwt_verify codec_env (generateToken codec_env 1000 alice) (js ''dangun-01-secret-key'') 2000 = None
   \<and> jwt_verify codec_env (js ''not.a.token'') (js ''lueur-ecommerce-secret-key'') 2000 = None"
proof -
  note w = token_validity_window [where e = codec_env and T = 1000 and u = alice and d = bob
      and req = empty_request]
  have malformed: "jwt_parse codec_env (js ''not.a.token'') = None"
    by (simp add: codec_env_def text_jwt_def text_program_def number_def js_def)
  have ne: "js ''lueur-ecommerce-secret-key'' \<noteq> js ''dangun-01-secret-key''"
    by (simp add: js_def)
  have 1: "jwt_verify codec_env (generateToken codec_env 1000 alice) (js ''lueur-ecommerce-secret-key'')
       (1000 + 6 * DAY)
     = Some (token_claims alice @ [(''iat'', JNum (int 1000)), (''exp'', JNum (int (1000 + 7 * DAY)))])"
    using w codec_env_faithful by (simp add: codec_env_secrets DAY_def)
  have 2: "jwt_verify codec_env (generateToken codec_env 1000 alice) (js ''lueur-ecommerce-secret-key'')
       (1000 + 8 * DAY) = None"
    using w codec_env_faithful by (simp add: codec_env_secrets DAY_def)
  have 3: "jwt_verify codec_env (dangun_token codec_env 1000 bob) (js ''dangun-01-secret-key'')
       (1000 + 6 * DAY)
     = Some (dangun_claims bob @ [(''iat'', JNum (int 1000)), (''exp'', JNum (int (1000 + 7 * DAY)))])"
    using w codec_env_faithful by (simp add: codec_env_secrets DAY_def)
  have 4: "jwt_verify codec_env (dangun_token codec_env 1000 bob) (js ''dangun-01-secret-key'')
       (1000 + 8 * DAY) = None"
    using w codec_env_faithful by (simp add: codec_env_secrets DAY_def)
  have 5: "auth (js ''lueur-ecommerce-secret-key'') codec_env (1000 + 8 * DAY)
        (empty_request\<lparr>authorization := Some (js ''Bearer '' @ generateToken codec_env 1000 alice)\<rparr>)
      = Responded (failure 401 MSG_INVALID_TOKEN)"
    using w codec_env_faithful by (simp add: codec_env_secrets DAY_def)
  have 6: "jwt_verify codec_env (generateToken codec_env 1000 alice) (js ''dangun-01-secret-key'') 2000 = None"
    using w codec_env_faithful ne by (simp add: generateToken_def codec_env_secrets)
  have 7: "jwt_verify codec_env (js ''not.a.token'') (js ''lueur-ecommerce-secret-key'') 2000 = None"
    using w malformed by blast
  show ?thesis
    by (simp only: 1 2 3 4 5 6 7) (simp add: token_claims_def dangun_claims_def alice_def bob_def DAY_def)
qed

section \<open>Login\<close>

lemma truthy_value_prepared: "truthy_value x \<Longrightarrow> \<exists>s. prepareValue e x = Some s"
proof (cases x)
  case None
  then show "truthy_value x \<Longrightarrow> ?thesis" by simp
next
  case (Some v)
  then show "truthy_value x \<Longrightarrow> ?thesis" by (cases v) auto
qed

lemma login_body:
  assumes "body r = Some ms"
  shows "login e now r db =
     (if \<not> truthy_value (body_member ''username'' ms) \<or> \<not> truthy_value (body_member ''password'' ms) then
        (failure 400 MSG_CREDENTIALS_REQUIRED, db)
      else
        (case filter (\<lambda>r. sql_equal (u_username r) (prepareValue e (body_member ''username'' ms))
                            \<and> u_provider r = js ''local'') (users db) of
           [] \<Rightarrow> (failure 401 MSG_BAD_CREDENTIALS, db)
         | row # _ \<Rightarrow>
             (case (body_member ''password'' ms, u_password row) of
                (Some (JStr p), Some h) \<Rightarrow>
                  if \<not> bcrypt_compare e p h then (failure 401 MSG_BAD_CREDENTIALS, db)
                  else
                    (success (JObj [(''token'', JStr (generateToken e now row)),
                                    (''user'', sanitizeUser row)]), db)
              | _ \<Rightarrow> (failure 500 MSG_SERVER_ERROR, db))))"
  using assms by (simp add: login_def Let_def)

lemma dangun_login_body:
  assumes "body r = Some ms"
  shows "dangun_login e now r db =
     (if \<not> truthy_value (body_member ''username'' ms) \<or> \<not> truthy_value (body_member ''password'' ms) then
        (failure 400 MSG_CREDENTIALS_REQUIRED, db)
      else
        (case filter (\<lambda>r. sql_equal (Some (d_username r)) (prepareValue e (body_member ''username'' ms)))
                (users db) of
           [] \<Rightarrow> (failure 401 MSG_BAD_CREDENTIALS, db)
         | row # _ \<Rightarrow>
             (case body_member ''password'' ms of
                Some (JStr p) \<Rightarrow>
                  if \<not> bcrypt_compare e p (d_password row) then
                    (failure 401 MSG_BAD_CREDENTIALS, db)
                  else
                    (success (JObj [(''token'', JStr (dangun_token e now row)),
                                    (''user'', JObj [(''id'', JNum (d_id row)),
                                                     (''username'', JStr (d_username row)),
                                                     (''nickname'', JStr (d_nickname row)),
                                                     (''location'', jnullable (d_location row)),
                                                     (''profile_image'', jnullable (d_profile_image row))])]), db)
              | _ \<Rightarrow> (failure 500 MSG_SERVER_ERROR, db))))"
  using assms by (simp add: dangun_login_def Let_def)








section \<open>Validation at registration\<close>

lemma failure_status: "failure n m = failure n' m' \<longleftrightarrow> n = n' \<and> m = m'"
  by (auto simp: failure_def)

lemma success_not_failure: "success d \<noteq> failure n m"
  by (simp add: success_def failure_def)

lemma register_body:
  assumes "body r = Some ms"
  shows "register e now r db =
     (if \<not> truthy_value (body_member ''username'' ms) \<or> \<not> truthy_value (body_member ''password'' ms)
          \<or> \<not> truthy_value (body_member ''nickname'' ms) then
        (failure 400 MSG_FIELDS_REQUIRED, db)
      else if (case body_member ''password'' ms of None \<Rightarrow> False | Some v \<Rightarrow> length_below e v 6) then
        (failure 400 MSG_PASSWORD_TOO_SHORT, db)
      else
        (case (body_member ''password'' ms, prepareValue e (body_member ''username'' ms),
               prepareValue e (body_member ''nickname'' ms)) of
           (Some (JStr p), Some u, Some n) \<Rightarrow>
             (case insert_local e now u (bcrypt_hash e p) n
                     (prepareValue e (value_or_null (body_member ''email'' ms)))
                     (prepareValue e (value_or_null (body_member ''phone'' ms))) db of
                (Inr row, db') \<Rightarrow>
                  (success (JObj [(''token'', JStr (generateToken e now row)),
                                  (''user'', sanitizeUser row)]), db')
              | (Inl UniqueViolation, db') \<Rightarrow> (failure 409 MSG_USERNAME_EXISTS, db')
              | (Inl OtherError, db') \<Rightarrow> (failure 500 MSG_SERVER_ERROR, db'))
         | _ \<Rightarrow> (failure 500 MSG_SERVER_ERROR, db)))"
  using assms by (simp add: register_def Let_def)

lemma dangun_register_body:
  assumes "body r = Some ms"
  shows "dangun_register e now r db =
     (if \<not> truthy_value (body_member ''username'' ms) \<or> \<not> truthy_value (body_member ''password'' ms)
          \<or> \<not> truthy_value (body_member ''nickname'' ms) then
        (failure 400 MSG_FIELDS_REQUIRED, db)
      else
        (case (body_member ''password'' ms, prepareValue e (body_member ''username'' ms),
               prepareValue e (body_member ''nickname'' ms)) of
           (Some (JStr p), Some u, Some n) \<Rightarrow>
             (case dangun_insert e now u (bcrypt_hash e p) n db of
                (Inr row, db') \<Rightarrow>
                  (success (JObj [(''token'', JStr (dangun_token e now row)),
                                  (''user'', JObj [(''id'', JNum (d_id row)),
                                                   (''username'', JStr (d_username row)),
                                                   (''nickname'', JStr (d_nickname row)),
                                                   (''location'', jnullable (d_location row))])]), db')
              | (Inl UniqueViolation, db') \<Rightarrow> (failure 409 MSG_USERNAME_EXISTS, db')
              | (Inl OtherError, db') \<Rightarrow> (failure 500 MSG_SERVER_ERROR, db'))
         | _ \<Rightarrow> (failure 500 MSG_SERVER_ERROR, db)))"
  using assms by (simp add: dangun_register_def Let_def)

lemma register_cases:
  "register e now r db = (failure 500 MSG_SERVER_ERROR, db)
   \<or> register e now r db = (failure 400 MSG_FIELDS_REQUIRED, db)
   \<or> register e now r db = (failure 400 MSG_PASSWORD_TOO_SHORT, db)
   \<or> (\<exists>ms u p n. body r = Some ms
         \<and> truthy_value (body_member ''username'' ms) \<and> prepareValue e (body_member ''username'' ms) = Some u
         \<and> body_member ''password'' ms = Some (JStr p) \<and> 6 \<le> length p
         \<and> truthy_value (body_member ''nickname'' ms) \<and> prepareValue e (body_member ''nickname'' ms) = Some n
         \<and> register e now r db =
             (case insert_local e now u (bcrypt_hash e p) n
                     (prepareValue e (value_or_null (body_member ''email'' ms)))
                     (prepareValue e (value_or_null (body_member ''phone'' ms))) db of
                (Inr row, db') \<Rightarrow>
                  (success (JObj [(''token'', JStr (generateToken e now row)),
                                  (''user'', sanitizeUser row)]), db')
              | (Inl UniqueViolation, db') \<Rightarrow> (failure 409 MSG_USERNAME_EXISTS, db')
              | (Inl OtherError, db') \<Rightarrow> (failure 500 MSG_SERVER_ERROR, db')))"
proof (cases "body r")
  case None
  then show ?thesis by (simp add: register_def)
next
  case (Some ms)
  note reg = register_body [OF Some, of e now db]
  show ?thesis
  proof (cases "truthy_value (body_member ''username'' ms) \<and> truthy_value (body_member ''password'' ms)
                 \<and> truthy_value (body_member ''nickname'' ms)")
    case False
    then show ?thesis using reg by auto
  next
    case True
    then obtain u n where un: "prepareValue e (body_member ''username'' ms) = Some u"
      "prepareValue e (body_member ''nickname'' ms) = Some n"
      using truthy_value_prepared by blast
    show ?thesis
    proof (cases "\<exists>p. body_member ''password'' ms = Some (JStr p)")
      case False
      from True obtain pv where pv: "body_member ''password'' ms = Some pv"
        by (cases "body_member ''password'' ms") auto
      with False have "\<And>p. pv \<noteq> JStr p" by auto
      then show ?thesis using reg pv True un by (cases pv) auto
    next
      case string: True
      then obtain p where p: "body_member ''password'' ms = Some (JStr p)" by blast
      show ?thesis
      proof (cases "length p < 6")
        case True
        then show ?thesis using reg p by simp
      next
        case False
        then have "6 \<le> length p" by simp
        moreover have "register e now r db =
             (case insert_local e now u (bcrypt_hash e p) n
                     (prepareValue e (value_or_null (body_member ''email'' ms)))
                     (prepareValue e (value_or_null (body_member ''phone'' ms))) db of
                (Inr row, db') \<Rightarrow>
                  (success (JObj [(''token'', JStr (generateToken e now row)),
                                  (''user'', sanitizeUser row)]), db')
              | (Inl UniqueViolation, db') \<Rightarrow> (failure 409 MSG_USERNAME_EXISTS, db')
              | (Inl OtherError, db') \<Rightarrow> (failure 500 MSG_SERVER_ERROR, db'))"
          using reg p un True False by simp
        ultimately show ?thesis using Some True p un by blast
      qed
    qed
  qed
qed

lemma dangun_register_cases:
  "dangun_register e now r db = (failure 500 MSG_SERVER_ERROR, db)
   \<or> dangun_register e now r db = (failure 400 MSG_FIELDS_REQUIRED, db)
   \<or> (\<exists>ms u p n. body r = Some ms
         \<and> truthy_value (body_member ''username'' ms) \<and> prepareValue e (body_member ''username'' ms) = Some u
         \<and> body_member ''password'' ms = Some (JStr p) \<and> p \<noteq> []
         \<and> truthy_value (body_member ''nickname'' ms) \<and> prepareValue e (body_member ''nickname'' ms) = Some n
         \<and> dangun_register e now r db =
             (case dangun_insert e now u (bcrypt_hash e p) n db of
                (Inr row, db') \<Rightarrow>
                  (success (JObj [(''token'', JStr (dangun_token e now row)),
                                  (''user'', JObj [(''id'', JNum (d_id row)),
                                                   (''username'', JStr (d_username row)),
                                                   (''nickname'', JStr (d_nickname row)),
                                                   (''location'', jnullable (d_location row))])]), db')
              | (Inl UniqueViolation, db') \<Rightarrow> (failure 409 MSG_USERNAME_EXISTS, db')
              | (Inl OtherError, db') \<Rightarrow> (failure 500 MSG_SERVER_ERROR, db')))"
proof (cases "body r")
  case None
  then show ?thesis by (simp add: dangun_register_def)
next
  case (Some ms)
  note reg = dangun_register_body [OF Some, of e now db]
  show ?thesis
  proof (cases "truthy_value (body_member ''username'' ms) \<and> truthy_value (body_member ''password'' ms)
                 \<and> truthy_value (body_member ''nickname'' ms)")
    case False
    then show ?thesis using reg by auto
  next
    case True
    then obtain u n where un: "prepareValue e (body_member ''username'' ms) = Some u"
      "prepareValue e (body_member ''nickname'' ms) = Some n"
      using truthy_value_prepared by blast
    show ?thesis
    proof (cases "\<exists>p. body_member ''password'' ms = Some (JStr p)")
      case False
      from True obtain pv where pv: "body_member ''password'' ms = Some pv"
        by (cases "body_member ''password'' ms") auto
      with False have "\<And>p. pv \<noteq> JStr p" by auto
      then show ?thesis using reg pv True un by (cases pv) auto
    next
      case string: True
      then obtain p where p: "body_member ''password'' ms = Some (JStr p)" by blast
      with True have "p \<noteq> []" by simp
      moreover have "dangun_register e now r db =
             (case dangun_insert e now u (bcrypt_hash e p) n db of
                (Inr row, db') \<Rightarrow>
                  (success (JObj [(''token'', JStr (dangun_token e now row)),
                                  (''user'', JObj [(''id'', JNum (d_id row)),
                                                   (''username'', JStr (d_username row)),
                                                   (''nickname'', JStr (d_nickname row)),
                                                   (''location'', jnullable (d_location row))])]), db')
              | (Inl UniqueViolation, db') \<Rightarrow> (failure 409 MSG_USERNAME_EXISTS, db')
              | (Inl OtherError, db') \<Rightarrow> (failure 500 MSG_SERVER_ERROR, db'))"
        using reg p un True by simp
      ultimately show ?thesis using Some True p un by blast
    qed
  qed
qed

lemma snd_case_insert:
  "snd (case x of (Inr row, db') \<Rightarrow> (f row, db')
        | (Inl UniqueViolation, db') \<Rightarrow> (a, db')
        | (Inl OtherError, db') \<Rightarrow> (b, db')) = snd x"
  by (auto split: prod.splits sum.splits db_error.splits)

lemma register_passes:
  assumes "body r = Some ms"
    and "truthy_value (body_member ''username'' ms)" "prepareValue e (body_member ''username'' ms) = Some u"
    and "truthy_value (body_member ''nickname'' ms)" "prepareValue e (body_member ''nickname'' ms) = Some n"
    and "body_member ''password'' ms = Some (JStr p)" "6 \<le> length p"
  shows "register e now r db =
           (case insert_local e now u (bcrypt_hash e p) n
                     (prepareValue e (value_or_null (body_member ''email'' ms)))
                     (prepareValue e (value_or_null (body_member ''phone'' ms))) db of
                (Inr row, db') \<Rightarrow>
                  (success (JObj [(''token'', JStr (generateToken e now row)),
                                  (''user'', sanitizeUser row)]), db')
              | (Inl UniqueViolation, db') \<Rightarrow> (failure 409 MSG_USERNAME_EXISTS, db')
              | (Inl OtherError, db') \<Rightarrow> (failure 500 MSG_SERVER_ERROR, db'))"
proof -
  from assms(7) have "p \<noteq> []" "\<not> length p < 6" by auto
  with assms(2-6) show ?thesis by (simp add: register_body [OF assms(1)])
qed

lemma dangun_register_passes:
  assumes "body r = Some ms"
    and "truthy_value (body_member ''username'' ms)" "prepareValue e (body_member ''username'' ms) = Some u"
    and "truthy_value (body_member ''nickname'' ms)" "prepareValue e (body_member ''nickname'' ms) = Some n"
    and "body_member ''password'' ms = Some (JStr p)" "p \<noteq> []"
  shows "dangun_register e now r db =
           (case dangun_insert e now u (bcrypt_hash e p) n db of
                (Inr row, db') \<Rightarrow>
                  (success (JObj [(''token'', JStr (dangun_token e now row)),
                                  (''user'', JObj [(''id'', JNum (d_id row)),
                                                   (''username'', JStr (d_username row)),
                                                   (''nickname'', JStr (d_nickname row)),
                                                   (''location'', jnullable (d_location row))])]), db')
              | (Inl UniqueViolation, db') \<Rightarrow> (failure 409 MSG_USERNAME_EXISTS, db')
              | (Inl OtherError, db') \<Rightarrow> (failure 500 MSG_SERVER_ERROR, db'))"
  using assms(2-7) by (simp add: dangun_register_body [OF assms(1)])

lemma case_insert_not_400:
  "fst (case x of (Inr row, db') \<Rightarrow> (success (f row), db')
        | (Inl UniqueViolation, db') \<Rightarrow> (failure 409 a, db')
        | (Inl OtherError, db') \<Rightarrow> (failure 500 b, db')) \<noteq> failure 400 m"
  by (auto simp: success_not_failure failure_status split: prod.splits sum.splits db_error.splits)

lemma register_reached:
  assumes "snd (register e now r db) \<noteq> db \<or> (\<exists>v. fst (register e now r db) = success v)
           \<or> fst (register e now r db) = failure 409 MSG_USERNAME_EXISTS"
  shows "\<exists>ms p. body r = Some ms \<and> truthy_value (body_member ''username'' ms)
           \<and> truthy_value (body_member ''nickname'' ms)
           \<and> body_member ''password'' ms = Some (JStr p) \<and> 6 \<le> length p"
  using register_cases [of e now r db] assms
  by (elim disjE exE conjE) (auto simp: success_not_failure [symmetric] failure_status)

lemma dangun_register_reached:
  assumes "snd (dangun_register e now r db) \<noteq> db \<or> (\<exists>v. fst (dangun_register e now r db) = success v)
           \<or> fst (dangun_register e now r db) = failure 409 MSG_USERNAME_EXISTS"
  shows "\<exists>ms p. body r = Some ms \<and> truthy_value (body_member ''username'' ms)
           \<and> truthy_value (body_member ''nickname'' ms)
           \<and> body_member ''password'' ms = Some (JStr p) \<and> p \<noteq> []"
  using dangun_register_cases [of e now r db] assms
  by (elim disjE exE conjE) (auto simp: success_not_failure [symmetric] failure_status)

text \<open>
  Claim C3, as amended. Let the request have a JSON body. Both servers answer a
  registration with status 400, and leave the store untouched, when username, password
  or nickname is missing (absent, \<open>null\<close> or another value that \<open>!x\<close> takes for missing,
  such as the empty string). The shop server also answers 400 when the password is a
  string of fewer than 6 code units, and only a request that passes both checks reaches
  \<open>bcrypt.hash\<close> and the \<open>INSERT\<close>: its store is then the one the \<open>INSERT\<close> leaves, its
  answer is not a 400, and no other request changes the store, is answered with
  success or is answered with 409. The marketplace server has no minimum length: every
  request with the three members present and a string for password reaches the
  \<open>INSERT\<close>.
\<close>

theorem register_validation:
  "(body r = Some ms
      \<and> (\<not> truthy_value (body_member ''username'' ms) \<or> \<not> truthy_value (body_member ''password'' ms)
         \<or> \<not> truthy_value (body_member ''nickname'' ms))
      \<longrightarrow> register e now r db = (failure 400 MSG_FIELDS_REQUIRED, db)
        \<and> dangun_register e now r dd = (failure 400 MSG_FIELDS_REQUIRED, dd))
   \<and> (body r = Some ms
      \<and> truthy_value (body_member ''username'' ms) \<and> truthy_value (body_member ''nickname'' ms)
      \<and> body_member ''password'' ms = Some (JStr p) \<and> p \<noteq> [] \<and> length p < 6
      \<longrightarrow> register e now r db = (failure 400 MSG_PASSWORD_TOO_SHORT, db))
   \<and> (body r = Some ms
      \<and> truthy_value (body_member ''username'' ms) \<and> prepareValue e (body_member ''username'' ms) = Some u
      \<and> truthy_value (body_member ''nickname'' ms) \<and> prepareValue e (body_member ''nickname'' ms) = Some n
      \<and> body_member ''password'' ms = Some (JStr p) \<and> 6 \<le> length p
      \<longrightarrow> snd (register e now r db)
            = snd (insert_local e now u (bcrypt_hash e p) n
                     (prepareValue e (value_or_null (body_member ''email'' ms)))
                     (prepareValue e (value_or_null (body_member ''phone'' ms))) db)
        \<and> (\<forall>m. fst (register e now r db) \<noteq> failure 400 m))
   \<and> (snd (register e now r db) \<noteq> db \<or> (\<exists>v. fst (register e now r db) = success v)
        \<or> fst (register e now r db) = failure 409 MSG_USERNAME_EXISTS
      \<longrightarrow> (\<exists>ms' p'. body r = Some ms' \<and> truthy_value (body_member ''username'' ms')
             \<and> truthy_value (body_member ''nickname'' ms')
             \<and> body_member ''password'' ms' = Some (JStr p') \<and> 6 \<le> length p'))
   \<and> (body r = Some ms
      \<and> truthy_value (body_member ''username'' ms) \<and> prepareValue e (body_member ''username'' ms) = Some u
      \<and> truthy_value (body_member ''nickname'' ms) \<and> prepareValue e (body_member ''nickname'' ms) = Some n
      \<and> body_member ''password'' ms = Some (JStr p) \<and> p \<noteq> []
      \<longrightarrow> snd (dangun_register e now r dd) = snd (dangun_insert e now u (bcrypt_hash e p) n dd)
        \<and> (\<forall>m. fst (dangun_register e now r dd) \<noteq> failure 400 m))
   \<and> (snd (dangun_register e now r dd) \<noteq> dd \<or> (\<exists>v. fst (dangun_register e now r dd) = success v)
        \<or> fst (dangun_register e now r dd) = failure 409 MSG_USERNAME_EXISTS
      \<longrightarrow> (\<exists>ms' p'. body r = Some ms' \<and> truthy_value (body_member ''username'' ms')
             \<and> truthy_value (body_member ''nickname'' ms')
             \<and> body_member ''password'' ms' = Some (JStr p') \<and> p' \<noteq> []))"
proof (intro conjI impI allI)
  assume a: "body r = Some ms
      \<and> (\<not> truthy_value (body_member ''username'' ms) \<or> \<not> truthy_value (body_member ''password'' ms)
         \<or> \<not> truthy_value (body_member ''nickname'' ms))"
  then have b: "body r = Some ms" by simp
  from a show "register e now r db = (failure 400 MSG_FIELDS_REQUIRED, db)"
    by (auto simp: register_body [OF b])
  from a show "dangun_register e now r dd = (failure 400 MSG_FIELDS_REQUIRED, dd)"
    by (auto simp: dangun_register_body [OF b])
next
  assume a: "body r = Some ms
      \<and> truthy_value (body_member ''username'' ms) \<and> truthy_value (body_member ''nickname'' ms)
      \<and> body_member ''password'' ms = Some (JStr p) \<and> p \<noteq> [] \<and> length p < 6"
  then have b: "body r = Some ms" by simp
  from a show "register e now r db = (failure 400 MSG_PASSWORD_TOO_SHORT, db)"
    by (simp add: register_body [OF b])
next
  assume a: "body r = Some ms
      \<and> truthy_value (body_member ''username'' ms) \<and> prepareValue e (body_member ''username'' ms) = Some u
      \<and> truthy_value (body_member ''nickname'' ms) \<and> prepareValue e (body_member ''nickname'' ms) = Some n
      \<and> body_member ''password'' ms = Some (JStr p) \<and> 6 \<le> length p"
  then have f: "body r = Some ms"
    "truthy_value (body_member ''username'' ms)" "prepareValue e (body_member ''username'' ms) = Some u"
    "truthy_value (body_member ''nickname'' ms)" "prepareValue e (body_member ''nickname'' ms) = Some n"
    "body_member ''password'' ms = Some (JStr p)" "6 \<le> length p"
    by blast+
  have reg: "register e now r db =
           (case insert_local e now u (bcrypt_hash e p) n
                     (prepareValue e (value_or_null (body_member ''email'' ms)))
                     (prepareValue e (value_or_null (body_member ''phone'' ms))) db of
                (Inr row, db') \<Rightarrow>
                  (success (JObj [(''token'', JStr (generateToken e now row)),
                                  (''user'', sanitizeUser row)]), db')
              | (Inl UniqueViolation, db') \<Rightarrow> (failure 409 MSG_USERNAME_EXISTS, db')
              | (Inl OtherError, db') \<Rightarrow> (failure 500 MSG_SERVER_ERROR, db'))"
    by (rule register_passes [OF f])
  show "snd (register e now r db)
            = snd (insert_local e now u (bcrypt_hash e p) n
                     (prepareValue e (value_or_null (body_member ''email'' ms)))
                     (prepareValue e (value_or_null (body_member ''phone'' ms))) db)"
    by (simp only: reg snd_case_insert)
  fix m
  show "fst (register e now r db) \<noteq> failure 400 m"
    by (simp only: reg) (rule case_insert_not_400)
next
  assume "snd (register e now r db) \<noteq> db \<or> (\<exists>v. fst (register e now r db) = success v)
        \<or> fst (register e now r db) = failure 409 MSG_USERNAME_EXISTS"
  then show "\<exists>ms' p'. body r = Some ms' \<and> truthy_value (body_member ''username'' ms')
             \<and> truthy_value (body_member ''nickname'' ms')
             \<and> body_member ''password'' ms' = Some (JStr p') \<and> 6 \<le> length p'"
    by (rule register_reached)
next
  assume a: "body r = Some ms
      \<and> truthy_value (body_member ''username'' ms) \<and> prepareValue e (body_member ''username'' ms) = Some u
      \<and> truthy_value (body_member ''nickname'' ms) \<and> prepareValue e (body_member ''nickname'' ms) = Some n
      \<and> body_member ''password'' ms = Some (JStr p) \<and> p \<noteq> []"
  then have f: "body r = Some ms"
    "truthy_value (body_member ''username'' ms)" "prepareValue e (body_member ''username'' ms) = Some u"
    "truthy_value (body_member ''nickname'' ms)" "prepareValue e (body_member ''nickname'' ms) = Some n"
    "body_member ''password'' ms = Some (JStr p)" "p \<noteq> []"
    by blast+
  have reg: "dangun_register e now r dd =
           (case dangun_insert e now u (bcrypt_hash e p) n dd of
                (Inr row, db') \<Rightarrow>
                  (success (JObj [(''token'', JStr (dangun_token e now row)),
                                  (''user'', JObj [(''id'', JNum (d_id row)),
                                                   (''username'', JStr (d_username row)),
                                                   (''nickname'', JStr (d_nickname row)),
                                                   (''location'', jnullable (d_location row))])]), db')
              | (Inl UniqueViolation, db') \<Rightarrow> (failure 409 MSG_USERNAME_EXISTS, db')
              | (Inl OtherError, db') \<Rightarrow> (failure 500 MSG_SERVER_ERROR, db'))"
    by (rule dangun_register_passes [OF f])
  show "snd (dangun_register e now r dd) = snd (dangun_insert e now u (bcrypt_hash e p) n dd)"
    by (simp only: reg snd_case_insert)
  fix m
  show "fst (dangun_register e now r dd) \<noteq> failure 400 m"
    by (simp only: reg) (rule case_insert_not_400)
next
  assume "snd (dangun_register e now r dd) \<noteq> dd \<or> (\<exists>v. fst (dangun_register e now r dd) = success v)
        \<or> fst (dangun_register e now r dd) = failure 409 MSG_USERNAME_EXISTS"
  then show "\<exists>ms' p'. body r = Some ms' \<and> truthy_value (body_member ''username'' ms')
             \<and> truthy_value (body_member ''nickname'' ms')
             \<and> body_member ''password'' ms' = Some (JStr p') \<and> p' \<noteq> []"
    by (rule dangun_register_reached)
qed

lemma example_register_carol:
  "register example_env 2000 carol_request \<lparr>users = [alice], last_id = 1\<rparr>
   = (success (JObj [(''token'', JStr (js ''shop.jwt'')), (''user'', sanitizeUser carol_row)]),
      \<lparr>users = [alice, carol_row], last_id = 2\<rparr>)"
  by (simp add: register_def carol_request_def empty_request_def body_member_def value_or_null_def
      insert_local_def Let_def example_env_def alice_def carol_row_def generateToken_def jwt_sign_def
      jwt_issue_def ecommerce_secret_def JWT_SECRET_def js_def)

lemma example_dangun_register_carol:
  "dangun_register example_env 2000 carol_request \<lparr>users = [bob], last_id = 1\<rparr>
   = (success (JObj [(''token'', JStr (js ''market.jwt'')),
                     (''user'', JObj [(''id'', JNum 2), (''username'', JStr (js ''carol'')),
                                      (''nickname'', JStr (js ''Carol'')),
                                      (''location'', JStr DEFAULT_LOCATION)])]),
      \<lparr>users = [bob, carol_dangun_row], last_id = 2\<rparr>)"
  by (simp add: dangun_register_def carol_request_def empty_request_def body_member_def
      dangun_insert_def Let_def example_env_def bob_def carol_dangun_row_def dangun_token_def
      jwt_sign_def jwt_issue_def dangun_secret_def JWT_SECRET_def js_def)

theorem register_validation_witness:
  "register example_env 2000
        (json_request [(''username'', JStr (js ''carol'')), (''password'', JStr (js ''secret1''))])
        \<lparr>users = [alice], last_id = 1\<rparr>
     = (failure 400 MSG_FIELDS_REQUIRED, \<lparr>users = [alice], last_id = 1\<rparr>)
   \<and> dangun_register example_env 2000
        (json_request [(''username'', JStr (js ''carol'')), (''password'', JStr (js ''secret1'')),
                       (''nickname'', JNull)])
        \<lparr>users = [bob], last_id = 1\<rparr>
     = (failure 400 MSG_FIELDS_REQUIRED, \<lparr>users = [bob], last_id = 1\<rparr>)
   \<and> register example_env 2000
        (json_request [(''username'', JStr (js ''carol'')), (''password'', JStr (js ''abc'')),
                       (''nickname'', JStr (js ''Carol''))])
        \<lparr>users = [alice], last_id = 1\<rparr>
     = (failure 400 MSG_PASSWORD_TOO_SHORT, \<lparr>users = [alice], last_id = 1\<rparr>)
   \<and> snd (register example_env 2000 carol_request \<lparr>users = [alice], last_id = 1\<rparr>)
     = \<lparr>users = [alice, carol_row], last_id = 2\<rparr>
   \<and> snd (dangun_register example_env 2000 carol_request \<lparr>users = [bob], last_id = 1\<rparr>)
     = \<lparr>users = [bob, carol_dangun_row], last_id = 2\<rparr>
   \<and> (\<exists>ms p. body carol_request = Some ms \<and> body_member ''password'' ms = Some (JStr p) \<and> 6 \<le> length p)"
proof -
  let ?db = "\<lparr>users = [alice], last_id = 1\<rparr> :: ecommerce_01_user db"
  let ?dd = "\<lparr>users = [bob], last_id = 1\<rparr> :: dangun_01_user db"
  let ?m0 = "[(''username'', JStr (js ''carol'')), (''password'', JStr (js ''secret1''))]"
  let ?mn = "[(''username'', JStr (js ''carol'')), (''password'', JStr (js ''secret1'')),
              (''nickname'', JNull)]"
  let ?m1 = "[(''username'', JStr (js ''carol'')), (''password'', JStr (js ''abc'')),
              (''nickname'', JStr (js ''Carol''))]"
  let ?m2 = "[(''username'', JStr (js ''carol'')), (''password'', JStr (js ''secret1'')),
              (''nickname'', JStr (js ''Carol''))]"
  have 0: "body (json_request ?m0) = Some ?m0 \<and> \<not> truthy_value (body_member ''nickname'' ?m0)"
    "body (json_request ?mn) = Some ?mn \<and> \<not> truthy_value (body_member ''nickname'' ?mn)"
    by (simp_all add: json_request_def body_member_def)
  have 1: "body (json_request ?m1) = Some ?m1
            \<and> truthy_value (body_member ''username'' ?m1) \<and> truthy_value (body_member ''nickname'' ?m1)
            \<and> body_member ''password'' ?m1 = Some (JStr (js ''abc''))
            \<and> js ''abc'' \<noteq> [] \<and> length (js ''abc'') < 6"
    by (simp add: json_request_def body_member_def js_def)
  have 2: "body carol_request = Some ?m2
            \<and> truthy_value (body_member ''username'' ?m2)
            \<and> prepareValue example_env (body_member ''username'' ?m2) = Some (js ''carol'')
            \<and> truthy_value (body_member ''nickname'' ?m2)
            \<and> prepareValue example_env (body_member ''nickname'' ?m2) = Some (js ''Carol'')
            \<and> body_member ''password'' ?m2 = Some (JStr (js ''secret1''))
            \<and> 6 \<le> length (js ''secret1'') \<and> js ''secret1'' \<noteq> []"
    by (simp add: carol_request_def body_member_def js_def)
  have a: "register example_env 2000 (json_request ?m0) ?db = (failure 400 MSG_FIELDS_REQUIRED, ?db)"
    using register_validation [where r = "json_request ?m0" and ms = ?m0 and e = example_env
        and now = 2000 and db = ?db] 0(1)
    by blast
  have a': "dangun_register example_env 2000 (json_request ?mn) ?dd = (failure 400 MSG_FIELDS_REQUIRED, ?dd)"
    using register_validation [where r = "json_request ?mn" and ms = ?mn and e = example_env
        and now = 2000 and dd = ?dd] 0(2)
    by blast
  have b: "register example_env 2000 (json_request ?m1) ?db = (failure 400 MSG_PASSWORD_TOO_SHORT, ?db)"
    using register_validation [where r = "json_request ?m1" and ms = ?m1 and e = example_env
        and now = 2000 and db = ?db and p = "js ''abc''"] 1
    by blast
  note t = register_validation [where r = carol_request and ms = ?m2 and e = example_env
        and now = 2000 and db = ?db and dd = ?dd and p = "js ''secret1''" and u = "js ''carol''"
        and n = "js ''Carol''"]
  have c: "snd (register example_env 2000 carol_request ?db)
             = snd (insert_local example_env 2000 (js ''carol'') (bcrypt_hash example_env (js ''secret1''))
                      (js ''Carol'') (prepareValue example_env (value_or_null (body_member ''email'' ?m2)))
                      (prepareValue example_env (value_or_null (body_member ''phone'' ?m2))) ?db)"
    using t 2 by blast
  have d: "snd (dangun_register example_env 2000 carol_request ?dd)
             = snd (dangun_insert example_env 2000 (js ''carol'') (bcrypt_hash example_env (js ''secret1''))
                      (js ''Carol'') ?dd)"
    using t 2 by blast
  have "\<exists>v. fst (register example_env 2000 carol_request ?db) = success v"
    by (rule exI [of _ "JObj [(''token'', JStr (js ''shop.jwt'')), (''user'', sanitizeUser carol_row)]"])
      (simp add: example_register_carol)
  with t have g: "\<exists>ms' p'. body carol_request = Some ms' \<and> truthy_value (body_member ''username'' ms')
             \<and> truthy_value (body_member ''nickname'' ms')
             \<and> body_member ''password'' ms' = Some (JStr p') \<and> 6 \<le> length p'"
    by blast
  have c': "snd (insert_local example_env 2000 (js ''carol'') (bcrypt_hash example_env (js ''secret1''))
                      (js ''Carol'') (prepareValue example_env (value_or_null (body_member ''email'' ?m2)))
                      (prepareValue example_env (value_or_null (body_member ''phone'' ?m2))) ?db)
              = \<lparr>users = [alice, carol_row], last_id = 2\<rparr>"
    by (simp add: insert_local_def Let_def example_env_def alice_def carol_row_def body_member_def
        value_or_null_def js_def)
  have d': "snd (dangun_insert example_env 2000 (js ''carol'') (bcrypt_hash example_env (js ''secret1''))
                      (js ''Carol'') ?dd)
              = \<lparr>users = [bob, carol_dangun_row], last_id = 2\<rparr>"
    by (simp add: dangun_insert_def Let_def example_env_def bob_def carol_dangun_row_def js_def)
  from g have g': "\<exists>ms p. body carol_request = Some ms \<and> body_member ''password'' ms = Some (JStr p)
                     \<and> 6 \<le> length p"
    by blast
  from a a' b c d c' d' g' show ?thesis by simp
qed

text \<open>
  Claim C3 as stated fails on the marketplace server: a registration with the password
  \<open>abc\<close>, of 3 code units, is answered with success and the user is stored.
\<close>

theorem register_short_password_counterexample:
  "length (js ''abc'') < 6
   \<and> dangun_register example_env 2000
        (json_request [(''username'', JStr (js ''carol'')), (''password'', JStr (js ''abc'')),
                       (''nickname'', JStr (js ''Carol''))])
        \<lparr>users = [], last_id = 0\<rparr>
     = (success (JObj [(''token'', JStr (js ''market.jwt'')),
                       (''user'', JObj [(''id'', JNum 1), (''username'', JStr (js ''carol'')),
                                        (''nickname'', JStr (js ''Carol'')),
                                        (''location'', JStr DEFAULT_LOCATION)])]),
        \<lparr>users = [\<lparr>d_id = 1, d_username = js ''carol'', d_password = js ''hash:abc'',
                    d_nickname = js ''Carol'', d_location = Some DEFAULT_LOCATION,
                    d_profile_image = None, d_created_at = 2000\<rparr>],
         last_id = 1\<rparr>)"
  by (simp add: dangun_register_def dangun_insert_def Let_def dangun_token_def jwt_sign_def jwt_issue_def
      dangun_secret_def JWT_SECRET_def example_env_def json_request_def empty_request_def
      body_member_def js_def)

section \<open>Profile update\<close>

lemma profile_body:
  assumes "body req = Some ms" "user req = Some claims"
  shows "profile e req db =
           (case update_profile e (user_id claims) (prepareValue e (body_member ''nickname'' ms))
                   (prepareValue e (body_member ''email'' ms)) (prepareValue e (body_member ''phone'' ms)) db of
              Inl _ \<Rightarrow> (failure 500 MSG_SERVER_ERROR, db)
            | Inr ([], db') \<Rightarrow> (failure 500 MSG_SERVER_ERROR, db')
            | Inr (row # _, db') \<Rightarrow> (success (sanitizeUser row), db'))"
  using assms by (simp add: profile_def Let_def)

lemma dangun_profile_body:
  assumes "body req = Some ms" "user req = Some claims"
  shows "dangun_profile e req db =
           (case dangun_update e (user_id claims) (prepareValue e (body_member ''nickname'' ms))
                   (prepareValue e (body_member ''location'' ms)) db of
              Inl _ \<Rightarrow> (failure 500 MSG_SERVER_ERROR, db)
            | Inr ([], db') \<Rightarrow> (success_no_data, db')
            | Inr (row # _, db') \<Rightarrow>
                (success (JObj [(''id'', JNum (d_id row)),
                                (''username'', JStr (d_username row)),
                                (''nickname'', JStr (d_nickname row)),
                                (''location'', jnullable (d_location row)),
                                (''profile_image'', jnullable (d_profile_image row))]), db'))"
  using assms by (simp add: dangun_profile_def Let_def)

lemma profile_not_run:
  "body req = None \<or> user req = None \<Longrightarrow> profile e req db = (failure 500 MSG_SERVER_ERROR, db)"
  by (auto simp: profile_def Let_def split: option.splits)

lemma dangun_profile_not_run:
  "body req = None \<or> user req = None \<Longrightarrow> dangun_profile e req db = (failure 500 MSG_SERVER_ERROR, db)"
  by (auto simp: dangun_profile_def Let_def split: option.splits)

lemma profile_refused:
  assumes "body req = Some ms"
    and "coerce e 50 (prepareValue e (body_member ''nickname'' ms)) = None
         \<or> coerce e 100 (prepareValue e (body_member ''email'' ms)) = None
         \<or> coerce e 20 (prepareValue e (body_member ''phone'' ms)) = None"
  shows "profile e req db = (failure 500 MSG_SERVER_ERROR, db)"
proof (cases "user req")
  case None
  then show ?thesis by (simp add: profile_not_run)
next
  case (Some claims)
  from assms(2) have "update_profile e (user_id claims) (prepareValue e (body_member ''nickname'' ms))
                   (prepareValue e (body_member ''email'' ms)) (prepareValue e (body_member ''phone'' ms)) db
                 = Inl OtherError"
    by (auto simp: update_profile_def split: option.splits)
  then show ?thesis by (simp add: profile_body [OF assms(1) Some])
qed

lemma dangun_profile_refused:
  assumes "body req = Some ms"
    and "coerce e 50 (prepareValue e (body_member ''nickname'' ms)) = None
         \<or> coerce e 100 (prepareValue e (body_member ''location'' ms)) = None"
  shows "dangun_profile e req db = (failure 500 MSG_SERVER_ERROR, db)"
proof (cases "user req")
  case None
  then show ?thesis by (simp add: dangun_profile_not_run)
next
  case (Some claims)
  from assms(2) have "dangun_update e (user_id claims) (prepareValue e (body_member ''nickname'' ms))
                   (prepareValue e (body_member ''location'' ms)) db
                 = Inl OtherError"
    by (auto simp: dangun_update_def split: option.splits)
  then show ?thesis by (simp add: dangun_profile_body [OF assms(1) Some])
qed

lemma update_profile_accepted:
  assumes "coerce e 50 nick = Some nick'" "coerce e 100 em = Some em'" "coerce e 20 ph = Some ph'"
  shows "update_profile e uid nick em ph db =
           Inr (filter (\<lambda>r. Some (u_id r) = uid)
                  (map (\<lambda>r. if Some (u_id r) = uid then profile_row nick' em' ph' r else r) (users db)),
                db\<lparr>users := map (\<lambda>r. if Some (u_id r) = uid then profile_row nick' em' ph' r else r)
                                (users db)\<rparr>)"
  using assms by (simp add: update_profile_def Let_def)

lemma dangun_update_accepted:
  assumes "coerce e 50 nick = Some nick'" "coerce e 100 loc = Some loc'"
  shows "dangun_update e uid nick loc db =
           Inr (filter (\<lambda>r. Some (d_id r) = uid)
                  (map (\<lambda>r. if Some (d_id r) = uid then dangun_profile_row nick' loc' r else r) (users db)),
                db\<lparr>users := map (\<lambda>r. if Some (d_id r) = uid then dangun_profile_row nick' loc' r else r)
                                (users db)\<rparr>)"
  using assms by (simp add: dangun_update_def Let_def)

lemma profile_store:
  "snd (profile e req db) = db
   \<or> (\<exists>ms claims nick' em' ph'. body req = Some ms \<and> user req = Some claims
        \<and> coerce e 50 (prepareValue e (body_member ''nickname'' ms)) = Some nick'
        \<and> coerce e 100 (prepareValue e (body_member ''email'' ms)) = Some em'
        \<and> coerce e 20 (prepareValue e (body_member ''phone'' ms)) = Some ph'
        \<and> snd (profile e req db)
            = db\<lparr>users := map (\<lambda>r. if Some (u_id r) = user_id claims then profile_row nick' em' ph' r else r)
                              (users db)\<rparr>)"
proof (cases "body req = None \<or> user req = None")
  case True
  then show ?thesis by (simp add: profile_not_run)
next
  case False
  then obtain ms claims where b: "body req = Some ms" "user req = Some claims" by auto
  show ?thesis
  proof (cases "coerce e 50 (prepareValue e (body_member ''nickname'' ms)) = None
         \<or> coerce e 100 (prepareValue e (body_member ''email'' ms)) = None
         \<or> coerce e 20 (prepareValue e (body_member ''phone'' ms)) = None")
    case True
    then show ?thesis by (simp add: profile_refused [OF b(1)])
  next
    case False
    then obtain nick' em' ph' where c:
      "coerce e 50 (prepareValue e (body_member ''nickname'' ms)) = Some nick'"
      "coerce e 100 (prepareValue e (body_member ''email'' ms)) = Some em'"
      "coerce e 20 (prepareValue e (body_member ''phone'' ms)) = Some ph'"
      by auto
    have "snd (profile e req db)
            = db\<lparr>users := map (\<lambda>r. if Some (u_id r) = user_id claims then profile_row nick' em' ph' r else r)
                              (users db)\<rparr>"
      by (simp add: profile_body [OF b] update_profile_accepted [OF c] split: list.splits)
    with b c show ?thesis by blast
  qed
qed

lemma dangun_profile_store:
  "snd (dangun_profile e req db) = db
   \<or> (\<exists>ms claims nick' loc'. body req = Some ms \<and> user req = Some claims
        \<and> coerce e 50 (prepareValue e (body_member ''nickname'' ms)) = Some nick'
        \<and> coerce e 100 (prepareValue e (body_member ''location'' ms)) = Some loc'
        \<and> snd (dangun_profile e req db)
            = db\<lparr>users := map (\<lambda>r. if Some (d_id r) = user_id claims then dangun_profile_row nick' loc' r else r)
                              (users db)\<rparr>)"
proof (cases "body req = None \<or> user req = None")
  case True
  then show ?thesis by (simp add: dangun_profile_not_run)
next
  case False
  then obtain ms claims where b: "body req = Some ms" "user req = Some claims" by auto
  show ?thesis
  proof (cases "coerce e 50 (prepareValue e (body_member ''nickname'' ms)) = None
         \<or> coerce e 100 (prepareValue e (body_member ''location'' ms)) = None")
    case True
    then show ?thesis by (simp add: dangun_profile_refused [OF b(1)])
  next
    case False
    then obtain nick' loc' where c:
      "coerce e 50 (prepareValue e (body_member ''nickname'' ms)) = Some nick'"
      "coerce e 100 (prepareValue e (body_member ''location'' ms)) = Some loc'"
      by auto
    have "snd (dangun_profile e req db)
            = db\<lparr>users := map (\<lambda>r. if Some (d_id r) = user_id claims then dangun_profile_row nick' loc' r else r)
                              (users db)\<rparr>"
      by (simp add: dangun_profile_body [OF b] dangun_update_accepted [OF c] split: list.splits)
    with b c show ?thesis by blast
  qed
qed

lemma profile_answer:
  assumes "body req = Some ms" "user req = Some claims"
    and "coerce e 50 (prepareValue e (body_member ''nickname'' ms)) = Some nick'"
    and "coerce e 100 (prepareValue e (body_member ''email'' ms)) = Some em'"
    and "coerce e 20 (prepareValue e (body_member ''phone'' ms)) = Some ph'"
    and "filter (\<lambda>r. Some (u_id r) = user_id claims) (users db) = r # rest"
  shows "profile e req db
           = (success (sanitizeUser (profile_row nick' em' ph' r)),
              db\<lparr>users := map (\<lambda>r. if Some (u_id r) = user_id claims then profile_row nick' em' ph' r else r)
                              (users db)\<rparr>)"
proof -
  let ?P = "\<lambda>r. Some (u_id r) = user_id claims"
  let ?upd = "\<lambda>r. if Some (u_id r) = user_id claims then profile_row nick' em' ph' r else r"
  have "filter ?P (map ?upd (users db)) = map ?upd (filter (?P \<circ> ?upd) (users db))"
    by (simp only: filter_map)
  moreover have "?P \<circ> ?upd = ?P"
    by (auto simp: fun_eq_iff profile_row_def)
  moreover have "Some (u_id r) = user_id claims"
    using Cons_eq_filterD [OF assms(6) [symmetric]] by blast
  ultimately have "filter ?P (map ?upd (users db)) = profile_row nick' em' ph' r # map ?upd rest"
    using assms(6) by simp
  then show ?thesis
    by (simp add: profile_body [OF assms(1,2)] update_profile_accepted [OF assms(3-5)])
qed

lemma dangun_profile_answer:
  assumes "body req = Some ms" "user req = Some claims"
    and "coerce e 50 (prepareValue e (body_member ''nickname'' ms)) = Some nick'"
    and "coerce e 100 (prepareValue e (body_member ''location'' ms)) = Some loc'"
    and "filter (\<lambda>r. Some (d_id r) = user_id claims) (users db) = r # rest"
  shows "dangun_profile e req db
           = (success (JObj [(''id'', JNum (d_id r)),
                             (''username'', JStr (d_username r)),
                             (''nickname'', JStr (COALESCE_not_null nick' (d_nickname r))),
                             (''location'', jnullable (COALESCE loc' (d_location r))),
                             (''profile_image'', jnullable (d_profile_image r))]),
              db\<lparr>users := map (\<lambda>r. if Some (d_id r) = user_id claims then dangun_profile_row nick' loc' r else r)
                              (users db)\<rparr>)"
proof -
  let ?P = "\<lambda>r. Some (d_id r) = user_id claims"
  let ?upd = "\<lambda>r. if Some (d_id r) = user_id claims then dangun_profile_row nick' loc' r else r"
  have "filter ?P (map ?upd (users db)) = map ?upd (filter (?P \<circ> ?upd) (users db))"
    by (simp only: filter_map)
  moreover have "?P \<circ> ?upd = ?P"
    by (auto simp: fun_eq_iff dangun_profile_row_def)
  moreover have "Some (d_id r) = user_id claims"
    using Cons_eq_filterD [OF assms(5) [symmetric]] by blast
  ultimately have "filter ?P (map ?upd (users db)) = dangun_profile_row nick' loc' r # map ?upd rest"
    using assms(5) by simp
  then show ?thesis
    by (simp add: dangun_profile_body [OF assms(1,2)] dangun_update_accepted [OF assms(3,4)])
      (simp add: dangun_profile_row_def)
qed

lemma filter_other_rows:
  assumes "\<And>r. P r \<Longrightarrow> P (g r)"
  shows "filter (\<lambda>r. \<not> P r) (map (\<lambda>r. if P r then g r else r) xs) = filter (\<lambda>r. \<not> P r) xs"
  using assms by (induction xs) auto

lemma profile_frame:
  "map u_id (users (snd (profile e req db))) = map u_id (users db)
   \<and> map u_username (users (snd (profile e req db))) = map u_username (users db)
   \<and> map u_password (users (snd (profile e req db))) = map u_password (users db)
   \<and> map u_profile_image (users (snd (profile e req db))) = map u_profile_image (users db)
   \<and> map u_kakao_id (users (snd (profile e req db))) = map u_kakao_id (users db)
   \<and> map u_provider (users (snd (profile e req db))) = map u_provider (users db)
   \<and> map u_created_at (users (snd (profile e req db))) = map u_created_at (users db)
   \<and> last_id (snd (profile e req db)) = last_id db
   \<and> (body req = Some ms \<and> prepareValue e (body_member ''nickname'' ms) = None
        \<longrightarrow> map u_nickname (users (snd (profile e req db))) = map u_nickname (users db))
   \<and> (body req = Some ms \<and> prepareValue e (body_member ''email'' ms) = None
        \<longrightarrow> map u_email (users (snd (profile e req db))) = map u_email (users db))
   \<and> (body req = Some ms \<and> prepareValue e (body_member ''phone'' ms) = None
        \<longrightarrow> map u_phone (users (snd (profile e req db))) = map u_phone (users db))
   \<and> (\<forall>claims. user req = Some claims \<longrightarrow>
          filter (\<lambda>r. Some (u_id r) \<noteq> user_id claims) (users (snd (profile e req db)))
          = filter (\<lambda>r. Some (u_id r) \<noteq> user_id claims) (users db))"
proof -
  consider "snd (profile e req db) = db"
    | ms' claims nick' em' ph' where "body req = Some ms'" "user req = Some claims"
        "coerce e 50 (prepareValue e (body_member ''nickname'' ms')) = Some nick'"
        "coerce e 100 (prepareValue e (body_member ''email'' ms')) = Some em'"
        "coerce e 20 (prepareValue e (body_member ''phone'' ms')) = Some ph'"
        "snd (profile e req db)
            = db\<lparr>users := map (\<lambda>r. if Some (u_id r) = user_id claims then profile_row nick' em' ph' r else r)
                              (users db)\<rparr>"
    using profile_store [of e req db] by blast
  then show ?thesis
  proof cases
    case 1
    then show ?thesis by simp
  next
    case 2
    let ?P = "\<lambda>r. Some (u_id r) = user_id claims"
    have others: "filter (\<lambda>r. \<not> ?P r) (map (\<lambda>r. if ?P r then profile_row nick' em' ph' r else r) (users db))
                    = filter (\<lambda>r. \<not> ?P r) (users db)"
      by (rule filter_other_rows) (simp add: profile_row_def)
    have n: "body req = Some ms \<and> prepareValue e (body_member ''nickname'' ms) = None \<Longrightarrow> nick' = None"
      and m: "body req = Some ms \<and> prepareValue e (body_member ''email'' ms) = None \<Longrightarrow> em' = None"
      and p: "body req = Some ms \<and> prepareValue e (body_member ''phone'' ms) = None \<Longrightarrow> ph' = None"
      using 2(1,3-5) by auto
    show ?thesis
      using others n m p by (auto simp: 2(2,6) profile_row_def)
  qed
qed

lemma profile_applies:
  "body req = Some ms \<and> user req = Some claims
     \<and> coerce e 50 (prepareValue e (body_member ''nickname'' ms)) \<noteq> None
     \<and> coerce e 100 (prepareValue e (body_member ''email'' ms)) \<noteq> None
     \<and> coerce e 20 (prepareValue e (body_member ''phone'' ms)) \<noteq> None
   \<longrightarrow> (\<forall>r\<in>set (users (snd (profile e req db))). Some (u_id r) = user_id claims \<longrightarrow>
          (\<forall>x. prepareValue e (body_member ''nickname'' ms) = Some x \<longrightarrow> varchar e 50 x = Some (u_nickname r))
          \<and> (\<forall>x. prepareValue e (body_member ''email'' ms) = Some x
                \<longrightarrow> map_option Some (varchar e 100 x) = Some (u_email r))
          \<and> (\<forall>x. prepareValue e (body_member ''phone'' ms) = Some x
                \<longrightarrow> map_option Some (varchar e 20 x) = Some (u_phone r)))"
proof
  assume a: "body req = Some ms \<and> user req = Some claims
     \<and> coerce e 50 (prepareValue e (body_member ''nickname'' ms)) \<noteq> None
     \<and> coerce e 100 (prepareValue e (body_member ''email'' ms)) \<noteq> None
     \<and> coerce e 20 (prepareValue e (body_member ''phone'' ms)) \<noteq> None"
  then obtain nick' em' ph' where c:
      "coerce e 50 (prepareValue e (body_member ''nickname'' ms)) = Some nick'"
      "coerce e 100 (prepareValue e (body_member ''email'' ms)) = Some em'"
      "coerce e 20 (prepareValue e (body_member ''phone'' ms)) = Some ph'"
    by auto
  from a have b: "body req = Some ms" "user req = Some claims" by simp_all
  have s: "snd (profile e req db)
            = db\<lparr>users := map (\<lambda>r. if Some (u_id r) = user_id claims then profile_row nick' em' ph' r else r)
                              (users db)\<rparr>"
    by (simp add: profile_body [OF b] update_profile_accepted [OF c] split: list.splits)
  show "\<forall>r\<in>set (users (snd (profile e req db))). Some (u_id r) = user_id claims \<longrightarrow>
          (\<forall>x. prepareValue e (body_member ''nickname'' ms) = Some x \<longrightarrow> varchar e 50 x = Some (u_nickname r))
          \<and> (\<forall>x. prepareValue e (body_member ''email'' ms) = Some x
                \<longrightarrow> map_option Some (varchar e 100 x) = Some (u_email r))
          \<and> (\<forall>x. prepareValue e (body_member ''phone'' ms) = Some x
                \<longrightarrow> map_option Some (varchar e 20 x) = Some (u_phone r))"
    using c by (auto simp: s profile_row_def)
qed

lemma profile_nickname_only:
  "body req = Some ms \<and> user req = Some claims
     \<and> prepareValue e (body_member ''nickname'' ms) = Some x
     \<and> prepareValue e (body_member ''email'' ms) = None
     \<and> prepareValue e (body_member ''phone'' ms) = None
     \<and> varchar e 50 x = Some x'
     \<and> filter (\<lambda>r. Some (u_id r) = user_id claims) (users db) = r # rest
   \<longrightarrow> profile e req db
         = (success (sanitizeUser (r\<lparr>u_nickname := x'\<rparr>)),
            db\<lparr>users := map (\<lambda>r. if Some (u_id r) = user_id claims then r\<lparr>u_nickname := x'\<rparr> else r)
                            (users db)\<rparr>)"
proof
  assume a: "body req = Some ms \<and> user req = Some claims
     \<and> prepareValue e (body_member ''nickname'' ms) = Some x
     \<and> prepareValue e (body_member ''email'' ms) = None
     \<and> prepareValue e (body_member ''phone'' ms) = None
     \<and> varchar e 50 x = Some x'
     \<and> filter (\<lambda>r. Some (u_id r) = user_id claims) (users db) = r # rest"
  then have b: "body req = Some ms" "user req = Some claims"
    and c: "coerce e 50 (prepareValue e (body_member ''nickname'' ms)) = Some (Some x')"
      "coerce e 100 (prepareValue e (body_member ''email'' ms)) = Some None"
      "coerce e 20 (prepareValue e (body_member ''phone'' ms)) = Some None"
    and f: "filter (\<lambda>r. Some (u_id r) = user_id claims) (users db) = r # rest"
    by simp_all
  have row: "profile_row (Some x') None None = (\<lambda>r. r\<lparr>u_nickname := x'\<rparr>)"
    by (simp add: fun_eq_iff profile_row_def)
  show "profile e req db
         = (success (sanitizeUser (r\<lparr>u_nickname := x'\<rparr>)),
            db\<lparr>users := map (\<lambda>r. if Some (u_id r) = user_id claims then r\<lparr>u_nickname := x'\<rparr> else r)
                            (users db)\<rparr>)"
    using profile_answer [OF b c f] by (simp add: row)
qed

lemma dangun_profile_frame:
  "map d_id (users (snd (dangun_profile e req dd))) = map d_id (users dd)
   \<and> map d_username (users (snd (dangun_profile e req dd))) = map d_username (users dd)
   \<and> map d_password (users (snd (dangun_profile e req dd))) = map d_password (users dd)
   \<and> map d_profile_image (users (snd (dangun_profile e req dd))) = map d_profile_image (users dd)
   \<and> map d_created_at (users (snd (dangun_profile e req dd))) = map d_created_at (users dd)
   \<and> last_id (snd (dangun_profile e req dd)) = last_id dd
   \<and> (body req = Some ms \<and> prepareValue e (body_member ''nickname'' ms) = None
        \<longrightarrow> map d_nickname (users (snd (dangun_profile e req dd))) = map d_nickname (users dd))
   \<and> (body req = Some ms \<and> prepareValue e (body_member ''location'' ms) = None
        \<longrightarrow> map d_location (users (snd (dangun_profile e req dd))) = map d_location (users dd))
   \<and> (\<forall>claims. user req = Some claims \<longrightarrow>
          filter (\<lambda>r. Some (d_id r) \<noteq> user_id claims) (users (snd (dangun_profile e req dd)))
          = filter (\<lambda>r. Some (d_id r) \<noteq> user_id claims) (users dd))"
proof -
  consider "snd (dangun_profile e req dd) = dd"
    | ms' claims nick' loc' where "body req = Some ms'" "user req = Some claims"
        "coerce e 50 (prepareValue e (body_member ''nickname'' ms')) = Some nick'"
        "coerce e 100 (prepareValue e (body_member ''location'' ms')) = Some loc'"
        "snd (dangun_profile e req dd)
            = dd\<lparr>users := map (\<lambda>r. if Some (d_id r) = user_id claims then dangun_profile_row nick' loc' r else r)
                              (users dd)\<rparr>"
    using dangun_profile_store [of e req dd] by blast
  then show ?thesis
  proof cases
    case 1
    then show ?thesis by simp
  next
    case 2
    let ?P = "\<lambda>r. Some (d_id r) = user_id claims"
    have others: "filter (\<lambda>r. \<not> ?P r) (map (\<lambda>r. if ?P r then dangun_profile_row nick' loc' r else r) (users dd))
                    = filter (\<lambda>r. \<not> ?P r) (users dd)"
      by (rule filter_other_rows) (simp add: dangun_profile_row_def)
    have n: "body req = Some ms \<and> prepareValue e (body_member ''nickname'' ms) = None \<Longrightarrow> nick' = None"
      and l: "body req = Some ms \<and> prepareValue e (body_member ''location'' ms) = None \<Longrightarrow> loc' = None"
      using 2(1,3,4) by auto
    show ?thesis
      using others n l by (auto simp: 2(2,5) dangun_profile_row_def)
  qed
qed

lemma dangun_profile_applies:
  "body req = Some ms \<and> user req = Some claims
     \<and> coerce e 50 (prepareValue e (body_member ''nickname'' ms)) \<noteq> None
     \<and> coerce e 100 (prepareValue e (body_member ''location'' ms)) \<noteq> None
   \<longrightarrow> (\<forall>r\<in>set (users (snd (dangun_profile e req dd))). Some (d_id r) = user_id claims \<longrightarrow>
          (\<forall>x. prepareValue e (body_member ''nickname'' ms) = Some x \<longrightarrow> varchar e 50 x = Some (d_nickname r))
          \<and> (\<forall>x. prepareValue e (body_member ''location'' ms) = Some x
                \<longrightarrow> map_option Some (varchar e 100 x) = Some (d_location r)))"
proof
  assume a: "body req = Some ms \<and> user req = Some claims
     \<and> coerce e 50 (prepareValue e (body_member ''nickname'' ms)) \<noteq> None
     \<and> coerce e 100 (prepareValue e (body_member ''location'' ms)) \<noteq> None"
  then obtain nick' loc' where c:
      "coerce e 50 (prepareValue e (body_member ''nickname'' ms)) = Some nick'"
      "coerce e 100 (prepareValue e (body_member ''location'' ms)) = Some loc'"
    by auto
  from a have b: "body req = Some ms" "user req = Some claims" by simp_all
  have s: "snd (dangun_profile e req dd)
            = dd\<lparr>users := map (\<lambda>r. if Some (d_id r) = user_id claims then dangun_profile_row nick' loc' r else r)
                              (users dd)\<rparr>"
    by (simp add: dangun_profile_body [OF b] dangun_update_accepted [OF c] split: list.splits)
  show "\<forall>r\<in>set (users (snd (dangun_profile e req dd))). Some (d_id r) = user_id claims \<longrightarrow>
          (\<forall>x. prepareValue e (body_member ''nickname'' ms) = Some x \<longrightarrow> varchar e 50 x = Some (d_nickname r))
          \<and> (\<forall>x. prepareValue e (body_member ''location'' ms) = Some x
                \<longrightarrow> map_option Some (varchar e 100 x) = Some (d_location r))"
    using c by (auto simp: s dangun_profile_row_def)
qed

lemma dangun_profile_nickname_only:
  "body req = Some ms \<and> user req = Some claims
     \<and> prepareValue e (body_member ''nickname'' ms) = Some x
     \<and> prepareValue e (body_member ''location'' ms) = None
     \<and> varchar e 50 x = Some x'
     \<and> filter (\<lambda>r. Some (d_id r) = user_id claims) (users dd) = d # drest
   \<longrightarrow> dangun_profile e req dd
         = (success (JObj [(''id'', JNum (d_id d)),
                           (''username'', JStr (d_username d)),
                           (''nickname'', JStr x'),
                           (''location'', jnullable (d_location d)),
                           (''profile_image'', jnullable (d_profile_image d))]),
            dd\<lparr>users := map (\<lambda>r. if Some (d_id r) = user_id claims then r\<lparr>d_nickname := x'\<rparr> else r)
                            (users dd)\<rparr>)"
proof
  assume a: "body req = Some ms \<and> user req = Some claims
     \<and> prepareValue e (body_member ''nickname'' ms) = Some x
     \<and> prepareValue e (body_member ''location'' ms) = None
     \<and> varchar e 50 x = Some x'
     \<and> filter (\<lambda>r. Some (d_id r) = user_id claims) (users dd) = d # drest"
  then have b: "body req = Some ms" "user req = Some claims"
    and c: "coerce e 50 (prepareValue e (body_member ''nickname'' ms)) = Some (Some x')"
      "coerce e 100 (prepareValue e (body_member ''location'' ms)) = Some None"
    and f: "filter (\<lambda>r. Some (d_id r) = user_id claims) (users dd) = d # drest"
    by simp_all
  have row: "dangun_profile_row (Some x') None = (\<lambda>r. r\<lparr>d_nickname := x'\<rparr>)"
    by (simp add: fun_eq_iff dangun_profile_row_def)
  show "dangun_profile e req dd
         = (success (JObj [(''id'', JNum (d_id d)),
                           (''username'', JStr (d_username d)),
                           (''nickname'', JStr x'),
                           (''location'', jnullable (d_location d)),
                           (''profile_image'', jnullable (d_profile_image d))]),
            dd\<lparr>users := map (\<lambda>r. if Some (d_id r) = user_id claims then r\<lparr>d_nickname := x'\<rparr> else r)
                            (users dd)\<rparr>)"
    using dangun_profile_answer [OF b c f] by (simp add: row)
qed

lemma profile_refuses:
  "body req = Some ms
     \<and> (coerce e 50 (prepareValue e (body_member ''nickname'' ms)) = None
        \<or> coerce e 100 (prepareValue e (body_member ''email'' ms)) = None
        \<or> coerce e 20 (prepareValue e (body_member ''phone'' ms)) = None)
   \<longrightarrow> profile e req db = (failure 500 MSG_SERVER_ERROR, db)"
  using profile_refused by blast

lemma dangun_profile_refuses:
  "body req = Some ms
     \<and> (coerce e 50 (prepareValue e (body_member ''nickname'' ms)) = None
        \<or> coerce e 100 (prepareValue e (body_member ''location'' ms)) = None)
   \<longrightarrow> dangun_profile e req dd = (failure 500 MSG_SERVER_ERROR, dd)"
  using dangun_profile_refused by blast

text \<open>
  Claim C7, as amended. On both servers the profile update writes only the members that
  are supplied. Whatever the request, no row changes its id, username, password hash,
  profile image, creation time (or, on the shop server, its provider and Kakao id); a
  member that is omitted or \<open>null\<close> leaves its column as it was in every row; and the rows
  of the other users are not changed. When the supplied members fit their columns,
  every row of the caller holds the stored form of each supplied member. In particular
  a request with only a nickname that fits its column changes, in the caller's row,
  the nickname and nothing else, and the answer is the view of that row. When a
  supplied member does not fit its column, the answer is 500 and nothing is changed.
\<close>

theorem profile_update_coalesce:
  "(map u_id (users (snd (profile e req db))) = map u_id (users db)
   \<and> map u_username (users (snd (profile e req db))) = map u_username (users db)
   \<and> map u_password (users (snd (profile e req db))) = map u_password (users db)
   \<and> map u_profile_image (users (snd (profile e req db))) = map u_profile_image (users db)
   \<and> map u_kakao_id (users (snd (profile e req db))) = map u_kakao_id (users db)
   \<and> map u_provider (users (snd (profile e req db))) = map u_provider (users db)
   \<and> map u_created_at (users (snd (profile e req db))) = map u_created_at (users db)
   \<and> last_id (snd (profile e req db)) = last_id db
   \<and> (body req = Some ms \<and> prepareValue e (body_member ''nickname'' ms) = None
        \<longrightarrow> map u_nickname (users (snd (profile e req db))) = map u_nickname (users db))
   \<and> (body req = Some ms \<and> prepareValue e (body_member ''email'' ms) = None
        \<longrightarrow> map u_email (users (snd (profile e req db))) = map u_email (users db))
   \<and> (body req = Some ms \<and> prepareValue e (body_member ''phone'' ms) = None
        \<longrightarrow> map u_phone (users (snd (profile e req db))) = map u_phone (users db))
   \<and> (\<forall>claims. user req = Some claims \<longrightarrow>
          filter (\<lambda>r. Some (u_id r) \<noteq> user_id claims) (users (snd (profile e req db)))
          = filter (\<lambda>r. Some (u_id r) \<noteq> user_id claims) (users db)))
   \<and> (body req = Some ms \<and> user req = Some claims
     \<and> coerce e 50 (prepareValue e (body_member ''nickname'' ms)) \<noteq> None
     \<and> coerce e 100 (prepareValue e (body_member ''email'' ms)) \<noteq> None
     \<and> coerce e 20 (prepareValue e (body_member ''phone'' ms)) \<noteq> None
   \<longrightarrow> (\<forall>r\<in>set (users (snd (profile e req db))). Some (u_id r) = user_id claims \<longrightarrow>
          (\<forall>x. prepareValue e (body_member ''nickname'' ms) = Some x \<longrightarrow> varchar e 50 x = Some (u_nickname r))
          \<and> (\<forall>x. prepareValue e (body_member ''email'' ms) = Some x
                \<longrightarrow> map_option Some (varchar e 100 x) = Some (u_email r))
          \<and> (\<forall>x. prepareValue e (body_member ''phone'' ms) = Some x
                \<longrightarrow> map_option Some (varchar e 20 x) = Some (u_phone r))))
   \<and> (body req = Some ms
     \<and> (coerce e 50 (prepareValue e (body_member ''nickname'' ms)) = None
        \<or> coerce e 100 (prepareValue e (body_member ''email'' ms)) = None
        \<or> coerce e 20 (prepareValue e (body_member ''phone'' ms)) = None)
   \<longrightarrow> profile e req db = (failure 500 MSG_SERVER_ERROR, db))
   \<and> (body req = Some ms \<and> user req = Some claims
     \<and> prepareValue e (body_member ''nickname'' ms) = Some x
     \<and> prepareValue e (body_member ''email'' ms) = None
     \<and> prepareValue e (body_member ''phone'' ms) = None
     \<and> varchar e 50 x = Some x'
     \<and> filter (\<lambda>r. Some (u_id r) = user_id claims) (users db) = r # rest
   \<longrightarrow> profile e req db
         = (success (sanitizeUser (r\<lparr>u_nickname := x'\<rparr>)),
            db\<lparr>users := map (\<lambda>r. if Some (u_id r) = user_id claims then r\<lparr>u_nickname := x'\<rparr> else r)
                            (users db)\<rparr>))
   \<and> (map d_id (users (snd (dangun_profile e req dd))) = map d_id (users dd)
   \<and> map d_username (users (snd (dangun_profile e req dd))) = map d_username (users dd)
   \<and> map d_password (users (snd (dangun_profile e req dd))) = map d_password (users dd)
   \<and> map d_profile_image (users (snd (dangun_profile e req dd))) = map d_profile_image (users dd)
   \<and> map d_created_at (users (snd (dangun_profile e req dd))) = map d_created_at (users dd)
   \<and> last_id (snd (dangun_profile e req dd)) = last_id dd
   \<and> (body req = Some ms \<and> prepareValue e (body_member ''nickname'' ms) = None
        \<longrightarrow> map d_nickname (users (snd (dangun_profile e req dd))) = map d_nickname (users dd))
   \<and> (body req = Some ms \<and> prepareValue e (body_member ''location'' ms) = None
        \<longrightarrow> map d_location (users (snd (dangun_profile e req dd))) = map d_location (users dd))
   \<and> (\<forall>claims. user req = Some claims \<longrightarrow>
          filter (\<lambda>r. Some (d_id r) \<noteq> user_id claims) (users (snd (dangun_profile e req dd)))
          = filter (\<lambda>r. Some (d_id r) \<noteq> user_id claims) (users dd)))
   \<and> (body req = Some ms \<and> user req = Some claims
     \<and> coerce e 50 (prepareValue e (body_member ''nickname'' ms)) \<noteq> None
     \<and> coerce e 100 (prepareValue e (body_member ''location'' ms)) \<noteq> None
   \<longrightarrow> (\<forall>r\<in>set (users (snd (dangun_profile e req dd))). Some (d_id r) = user_id claims \<longrightarrow>
          (\<forall>x. prepareValue e (body_member ''nickname'' ms) = Some x \<longrightarrow> varchar e 50 x = Some (d_nickname r))
          \<and> (\<forall>x. prepareValue e (body_member ''location'' ms) = Some x
                \<longrightarrow> map_option Some (varchar e 100 x) = Some (d_location r))))
   \<and> (body req = Some ms
     \<and> (coerce e 50 (prepareValue e (body_member ''nickname'' ms)) = None
        \<or> coerce e 100 (prepareValue e (body_member ''location'' ms)) = None)
   \<longrightarrow> dangun_profile e req dd = (failure 500 MSG_SERVER_ERROR, dd))
   \<and> (body req = Some ms \<and> user req = Some claims
     \<and> prepareValue e (body_member ''nickname'' ms) = Some x
     \<and> prepareValue e (body_member ''location'' ms) = None
     \<and> varchar e 50 x = Some x'
     \<and> filter (\<lambda>r. Some (d_id r) = user_id claims) (users dd) = d # drest
   \<longrightarrow> dangun_profile e req dd
         = (success (JObj [(''id'', JNum (d_id d)),
                           (''username'', JStr (d_username d)),
                           (''nickname'', JStr x'),
                           (''location'', jnullable (d_location d)),
                           (''profile_image'', jnullable (d_profile_image d))]),
            dd\<lparr>users := map (\<lambda>r. if Some (d_id r) = user_id claims then r\<lparr>d_nickname := x'\<rparr> else r)
                            (users dd)\<rparr>))"
  by (rule conjI [OF profile_frame conjI [OF profile_applies conjI [OF profile_refuses
        conjI [OF profile_nickname_only conjI [OF dangun_profile_frame conjI [OF dangun_profile_applies
        conjI [OF dangun_profile_refuses dangun_profile_nickname_only]]]]]]])

lemma example_carol_claims:
  "user_id carol_claims = Some 2" "user_id carol_dangun_claims = Some 2"
  by (simp_all add: user_id_def carol_claims_def carol_dangun_claims_def token_claims_def
      dangun_claims_def carol_row_def carol_dangun_row_def)

theorem profile_update_coalesce_witness:
  "profile example_env (json_request [(''nickname'', JStr (js ''X''))]\<lparr>user := Some carol_claims\<rparr>)
      \<lparr>users = [alice, carol_row], last_id = 2\<rparr>
     = (success (sanitizeUser (carol_row\<lparr>u_nickname := js ''X''\<rparr>)),
        \<lparr>users = [alice, carol_row\<lparr>u_nickname := js ''X''\<rparr>], last_id = 2\<rparr>)
   \<and> dangun_profile example_env
        (json_request [(''nickname'', JStr (js ''X'')), (''location'', JNull)]\<lparr>user := Some carol_dangun_claims\<rparr>)
        \<lparr>users = [bob, carol_dangun_row], last_id = 2\<rparr>
     = (success (JObj [(''id'', JNum 2), (''username'', JStr (js ''carol'')), (''nickname'', JStr (js ''X'')),
                       (''location'', JStr DEFAULT_LOCATION), (''profile_image'', JNull)]),
        \<lparr>users = [bob, carol_dangun_row\<lparr>d_nickname := js ''X''\<rparr>], last_id = 2\<rparr>)
   \<and> map u_username (users (snd (profile example_env
          (json_request [(''nickname'', JStr (js ''X''))]\<lparr>user := Some carol_claims\<rparr>)
          \<lparr>users = [alice, carol_row], last_id = 2\<rparr>))) = [Some (js ''alice''), Some (js ''carol'')]
   \<and> map u_nickname (users (snd (profile example_env
          (json_request [(''email'', JStr (js ''carol@example.com''))]\<lparr>user := Some carol_claims\<rparr>)
          \<lparr>users = [alice, carol_row], last_id = 2\<rparr>))) = [js ''Alice'', js ''Carol'']
   \<and> profile example_env
        (json_request [(''nickname'', JStr (replicate 51 0x78))]\<lparr>user := Some carol_claims\<rparr>)
        \<lparr>users = [alice, carol_row], last_id = 2\<rparr>
     = (failure 500 MSG_SERVER_ERROR, \<lparr>users = [alice, carol_row], last_id = 2\<rparr>)
   \<and> dangun_profile example_env
        (json_request [(''location'', JStr (replicate 101 0x78))]\<lparr>user := Some carol_dangun_claims\<rparr>)
        \<lparr>users = [bob, carol_dangun_row], last_id = 2\<rparr>
     = (failure 500 MSG_SERVER_ERROR, \<lparr>users = [bob, carol_dangun_row], last_id = 2\<rparr>)"
proof -
  let ?mx = "[(''nickname'', JStr (js ''X''))]"
  let ?md = "[(''nickname'', JStr (js ''X'')), (''location'', JNull)]"
  let ?me = "[(''email'', JStr (js ''carol@example.com''))]"
  let ?ml = "[(''nickname'', JStr (replicate 51 (0x78 :: 16 word)))]"
  let ?mll = "[(''location'', JStr (replicate 101 (0x78 :: 16 word)))]"
  let ?rc = "json_request ?mx\<lparr>user := Some carol_claims\<rparr>"
  let ?rd = "json_request ?md\<lparr>user := Some carol_dangun_claims\<rparr>"
  let ?re = "json_request ?me\<lparr>user := Some carol_claims\<rparr>"
  let ?rl = "json_request ?ml\<lparr>user := Some carol_claims\<rparr>"
  let ?rll = "json_request ?mll\<lparr>user := Some carol_dangun_claims\<rparr>"
  let ?db = "\<lparr>users = [alice, carol_row], last_id = 2\<rparr> :: ecommerce_01_user db"
  let ?dd = "\<lparr>users = [bob, carol_dangun_row], last_id = 2\<rparr> :: dangun_01_user db"
  note t = profile_update_coalesce [where e = example_env and req = ?rc and ms = ?mx and db = ?db
      and claims = carol_claims and x = "js ''X''" and x' = "js ''X''" and r = carol_row and rest = "[]"]
  note td = profile_update_coalesce [where e = example_env and req = ?rd and ms = ?md and dd = ?dd
      and claims = carol_dangun_claims and x = "js ''X''" and x' = "js ''X''" and d = carol_dangun_row
      and drest = "[]"]
  note te = profile_update_coalesce [where e = example_env and req = ?re and ms = ?me and db = ?db]
  note tl = profile_update_coalesce [where e = example_env and req = ?rl and ms = ?ml and db = ?db]
  note tll = profile_update_coalesce [where e = example_env and req = ?rll and ms = ?mll and dd = ?dd]
  have fits: "varchar example_env 50 (js ''X'') = Some (js ''X'')"
    by (simp add: example_env_def js_def)
  have hc: "body ?rc = Some ?mx \<and> user ?rc = Some carol_claims
            \<and> prepareValue example_env (body_member ''nickname'' ?mx) = Some (js ''X'')
            \<and> prepareValue example_env (body_member ''email'' ?mx) = None
            \<and> prepareValue example_env (body_member ''phone'' ?mx) = None
            \<and> filter (\<lambda>r. Some (u_id r) = user_id carol_claims) (users ?db) = carol_row # []"
    by (simp add: json_request_def body_member_def example_carol_claims) (simp add: alice_def carol_row_def)
  have hd: "body ?rd = Some ?md \<and> user ?rd = Some carol_dangun_claims
            \<and> prepareValue example_env (body_member ''nickname'' ?md) = Some (js ''X'')
            \<and> prepareValue example_env (body_member ''location'' ?md) = None
            \<and> filter (\<lambda>r. Some (d_id r) = user_id carol_dangun_claims) (users ?dd) = carol_dangun_row # []"
    by (simp add: json_request_def body_member_def example_carol_claims) (simp add: bob_def carol_dangun_row_def)
  have he: "body ?re = Some ?me \<and> prepareValue example_env (body_member ''nickname'' ?me) = None"
    by (simp add: json_request_def body_member_def)
  have hl: "body ?rl = Some ?ml \<and> coerce example_env 50 (prepareValue example_env (body_member ''nickname'' ?ml)) = None"
    by (simp add: json_request_def body_member_def example_env_def)
  have hll: "body ?rll = Some ?mll
             \<and> coerce example_env 100 (prepareValue example_env (body_member ''location'' ?mll)) = None"
    by (simp add: json_request_def body_member_def example_env_def)
  from t hc fits have a: "profile example_env ?rc ?db
         = (success (sanitizeUser (carol_row\<lparr>u_nickname := js ''X''\<rparr>)),
            ?db\<lparr>users := map (\<lambda>r. if Some (u_id r) = user_id carol_claims then r\<lparr>u_nickname := js ''X''\<rparr> else r)
                            (users ?db)\<rparr>)"
    by blast
  from td hd fits have b: "dangun_profile example_env ?rd ?dd
         = (success (JObj [(''id'', JNum (d_id carol_dangun_row)),
                           (''username'', JStr (d_username carol_dangun_row)),
                           (''nickname'', JStr (js ''X'')),
                           (''location'', jnullable (d_location carol_dangun_row)),
                           (''profile_image'', jnullable (d_profile_image carol_dangun_row))]),
            ?dd\<lparr>users := map (\<lambda>r. if Some (d_id r) = user_id carol_dangun_claims then r\<lparr>d_nickname := js ''X''\<rparr> else r)
                            (users ?dd)\<rparr>)"
    by blast
  from t have c: "map u_username (users (snd (profile example_env ?rc ?db))) = map u_username (users ?db)"
    by blast
  from te he have d: "map u_nickname (users (snd (profile example_env ?re ?db))) = map u_nickname (users ?db)"
    by blast
  from tl hl have f: "profile example_env ?rl ?db = (failure 500 MSG_SERVER_ERROR, ?db)"
    by blast
  from tll hll have g: "dangun_profile example_env ?rll ?dd = (failure 500 MSG_SERVER_ERROR, ?dd)"
    by blast
  have a': "profile example_env ?rc ?db
     = (success (sanitizeUser (carol_row\<lparr>u_nickname := js ''X''\<rparr>)),
        \<lparr>users = [alice, carol_row\<lparr>u_nickname := js ''X''\<rparr>], last_id = 2\<rparr>)"
    by (simp add: a example_carol_claims) (simp add: alice_def carol_row_def)
  have b': "dangun_profile example_env ?rd ?dd
     = (success (JObj [(''id'', JNum 2), (''username'', JStr (js ''carol'')), (''nickname'', JStr (js ''X'')),
                       (''location'', JStr DEFAULT_LOCATION), (''profile_image'', JNull)]),
        \<lparr>users = [bob, carol_dangun_row\<lparr>d_nickname := js ''X''\<rparr>], last_id = 2\<rparr>)"
    by (simp add: b example_carol_claims) (simp add: bob_def carol_dangun_row_def)
  have c': "map u_username (users (snd (profile example_env ?rc ?db))) = [Some (js ''alice''), Some (js ''carol'')]"
    by (simp add: c) (simp add: alice_def carol_row_def)
  have d': "map u_nickname (users (snd (profile example_env ?re ?db))) = [js ''Alice'', js ''Carol'']"
    by (simp add: d) (simp add: alice_def carol_row_def)
  show ?thesis
    by (intro conjI) (rule a', rule b', rule c', rule d', rule f, rule g)
qed

text \<open>
  Claim C7 as stated fails for a nickname that the column refuses. The nickname column
  holds 50 characters; the user \<open>alice\<close> of the shop server, and the user \<open>bob\<close> of the
  marketplace server, present their token and a nickname of 51 code units: the answer
  is 500 and the nickname is not changed.
\<close>

theorem profile_update_refused_counterexample:
  "protected (ecommerce_secret example_env) example_env 2000 (profile example_env)
      (json_request [(''nickname'', JStr (replicate 51 0x78))]
         \<lparr>authorization := Some (js ''Bearer shop.jwt'')\<rparr>)
      \<lparr>users = [alice, carol_row], last_id = 2\<rparr>
     = (failure 500 MSG_SERVER_ERROR, \<lparr>users = [alice, carol_row], last_id = 2\<rparr>)
   \<and> map u_nickname (users (snd (protected (ecommerce_secret example_env) example_env 2000
        (profile example_env)
        (json_request [(''nickname'', JStr (replicate 51 0x78))]
           \<lparr>authorization := Some (js ''Bearer shop.jwt'')\<rparr>)
        \<lparr>users = [alice, carol_row], last_id = 2\<rparr>)))
     = [js ''Alice'', js ''Carol'']
   \<and> protected (dangun_secret example_env) example_env 2000 (dangun_profile example_env)
      (json_request [(''nickname'', JStr (replicate 51 0x78))]
         \<lparr>authorization := Some (js ''Bearer market.jwt'')\<rparr>)
      \<lparr>users = [bob, carol_dangun_row], last_id = 2\<rparr>
     = (failure 500 MSG_SERVER_ERROR, \<lparr>users = [bob, carol_dangun_row], last_id = 2\<rparr>)
   \<and> map d_nickname (users (snd (protected (dangun_secret example_env) example_env 2000
        (dangun_profile example_env)
        (json_request [(''nickname'', JStr (replicate 51 0x78))]
           \<lparr>authorization := Some (js ''Bearer market.jwt'')\<rparr>)
        \<lparr>users = [bob, carol_dangun_row], last_id = 2\<rparr>)))
     = [js ''Bob'', js ''Carol'']"
proof -
  have 1: "protected (ecommerce_secret example_env) example_env 2000 (profile example_env)
      (json_request [(''nickname'', JStr (replicate 51 0x78))]
         \<lparr>authorization := Some (js ''Bearer shop.jwt'')\<rparr>)
      \<lparr>users = [alice, carol_row], last_id = 2\<rparr>
     = (failure 500 MSG_SERVER_ERROR, \<lparr>users = [alice, carol_row], last_id = 2\<rparr>)"
    by (simp add: protected_def auth_def bearer_token_def jwt_verify_def example_env_def
        ecommerce_secret_def JWT_SECRET_def alice_jwt_def json_request_def empty_request_def
        profile_def update_profile_def body_member_def Let_def js_def)
  have 2: "protected (dangun_secret example_env) example_env 2000 (dangun_profile example_env)
      (json_request [(''nickname'', JStr (replicate 51 0x78))]
         \<lparr>authorization := Some (js ''Bearer market.jwt'')\<rparr>)
      \<lparr>users = [bob, carol_dangun_row], last_id = 2\<rparr>
     = (failure 500 MSG_SERVER_ERROR, \<lparr>users = [bob, carol_dangun_row], last_id = 2\<rparr>)"
    by (simp add: protected_def auth_def bearer_token_def jwt_verify_def example_env_def
        dangun_secret_def JWT_SECRET_def bob_jwt_def json_request_def empty_request_def
        dangun_profile_def dangun_update_def body_member_def Let_def js_def)
  show ?thesis
    by (simp only: 1 2) (simp add: alice_def carol_row_def bob_def carol_dangun_row_def)
qed

section \<open>Profile update for an identity that is gone\<close>

lemma dangun_update_missing:
  assumes "\<forall>row\<in>set (users db). Some (d_id row) \<noteq> uid"
    and "coerce e 50 nick \<noteq> None" "coerce e 100 loc \<noteq> None"
  shows "dangun_update e uid nick loc db = Inr ([], db)"
proof -
  have m: "map (\<lambda>r. if Some (d_id r) = uid then f r else r) (users db) = users db" for f
    using assms(1) by (simp add: map_idI)
  have f: "filter (\<lambda>r. Some (d_id r) = uid) (users db) = []"
    using assms(1) by (simp add: filter_empty_conv)
  from assms(2,3) obtain nick' loc' where "coerce e 50 nick = Some nick'" "coerce e 100 loc = Some loc'"
    by auto
  then show ?thesis
    by (simp add: dangun_update_accepted m f)
qed

lemma update_profile_missing:
  assumes "\<forall>row\<in>set (users db). Some (u_id row) \<noteq> uid"
  shows "update_profile e uid nick em ph db = Inl OtherError \<or> update_profile e uid nick em ph db = Inr ([], db)"
proof -
  have m: "map (\<lambda>r. if Some (u_id r) = uid then f r else r) (users db) = users db" for f
    using assms by (simp add: map_idI)
  have f: "filter (\<lambda>r. Some (u_id r) = uid) (users db) = []"
    using assms by (simp add: filter_empty_conv)
  show ?thesis
    by (simp add: update_profile_def Let_def m f split: option.splits)
qed

lemma dangun_profile_missing:
  assumes "user req = Some claims" "\<forall>row\<in>set (users dd). Some (d_id row) \<noteq> user_id claims"
  shows "dangun_profile e req dd =
           (if \<exists>ms. body req = Some ms
                 \<and> coerce e 50 (prepareValue e (body_member ''nickname'' ms)) \<noteq> None
                 \<and> coerce e 100 (prepareValue e (body_member ''location'' ms)) \<noteq> None
            then (success_no_data, dd) else (failure 500 MSG_SERVER_ERROR, dd))"
proof (cases "body req")
  case None
  then show ?thesis by (simp add: dangun_profile_not_run)
next
  case (Some ms)
  show ?thesis
  proof (cases "coerce e 50 (prepareValue e (body_member ''nickname'' ms)) \<noteq> None
                 \<and> coerce e 100 (prepareValue e (body_member ''location'' ms)) \<noteq> None")
    case True
    then have "dangun_update e (user_id claims) (prepareValue e (body_member ''nickname'' ms))
                 (prepareValue e (body_member ''location'' ms)) dd = Inr ([], dd)"
      using dangun_update_missing [OF assms(2)] by blast
    then show ?thesis using True Some by (simp add: dangun_profile_body [OF Some assms(1)])
  next
    case False
    then have "coerce e 50 (prepareValue e (body_member ''nickname'' ms)) = None
                 \<or> coerce e 100 (prepareValue e (body_member ''location'' ms)) = None"
      by simp
    then have "dangun_profile e req dd = (failure 500 MSG_SERVER_ERROR, dd)"
      by (rule dangun_profile_refused [OF Some])
    moreover have "\<not> (\<exists>ms. body req = Some ms
                 \<and> coerce e 50 (prepareValue e (body_member ''nickname'' ms)) \<noteq> None
                 \<and> coerce e 100 (prepareValue e (body_member ''location'' ms)) \<noteq> None)"
      using False Some by auto
    ultimately show ?thesis by (simp only: if_False)
  qed
qed

lemma profile_missing:
  assumes "user req = Some claims" "\<forall>row\<in>set (users db). Some (u_id row) \<noteq> user_id claims"
  shows "profile e req db = (failure 500 MSG_SERVER_ERROR, db)"
proof (cases "body req")
  case None
  then show ?thesis by (simp add: profile_not_run)
next
  case (Some ms)
  let ?res = "update_profile e (user_id claims) (prepareValue e (body_member ''nickname'' ms))
                   (prepareValue e (body_member ''email'' ms)) (prepareValue e (body_member ''phone'' ms)) db"
  have "?res = Inl OtherError \<or> ?res = Inr ([], db)"
    using update_profile_missing [OF assms(2)] by blast
  then show ?thesis by (auto simp: profile_body [OF Some assms(1)])
qed

text \<open>
  Claim C10, as amended. Let a request to \<open>PUT /api/auth/profile\<close> pass the gate with claims
  whose \<open>id\<close> is the \<open>id\<close> of no stored user. Neither server answers 404, and both leave
  the store as it was. The marketplace server answers with status 200 and the body
  \<open>{ success: true }\<close>, which has no \<open>data\<close>, when the request has a JSON body whose nickname
  and location fit their columns, and with the generic 500 when one of them does not
  fit (as it does when the request has no body). The shop server answers with status
  500 and the generic server error.
\<close>

theorem profile_update_of_missing_user:
  "(auth (dangun_secret e) e now req = Next (req\<lparr>user := Some claims\<rparr>)
      \<and> (\<forall>row\<in>set (users dd). Some (d_id row) \<noteq> user_id claims)
    \<longrightarrow> (\<forall>m. fst (protected (dangun_secret e) e now (dangun_profile e) req dd) \<noteq> failure 404 m)
        \<and> snd (protected (dangun_secret e) e now (dangun_profile e) req dd) = dd
        \<and> (body req = Some ms
             \<and> coerce e 50 (prepareValue e (body_member ''nickname'' ms)) \<noteq> None
             \<and> coerce e 100 (prepareValue e (body_member ''location'' ms)) \<noteq> None
            \<longrightarrow> protected (dangun_secret e) e now (dangun_profile e) req dd
                  = (Json 200 (JObj [(''success'', JBool True)]), dd))
        \<and> (body req = None
             \<or> (body req = Some ms
                  \<and> (coerce e 50 (prepareValue e (body_member ''nickname'' ms)) = None
                     \<or> coerce e 100 (prepareValue e (body_member ''location'' ms)) = None))
            \<longrightarrow> protected (dangun_secret e) e now (dangun_profile e) req dd
                  = (failure 500 MSG_SERVER_ERROR, dd)))
   \<and> (auth (ecommerce_secret e) e now req = Next (req\<lparr>user := Some claims\<rparr>)
      \<and> (\<forall>row\<in>set (users db). Some (u_id row) \<noteq> user_id claims)
    \<longrightarrow> protected (ecommerce_secret e) e now (profile e) req db = (failure 500 MSG_SERVER_ERROR, db))"
proof (intro conjI impI)
  assume a: "auth (dangun_secret e) e now req = Next (req\<lparr>user := Some claims\<rparr>)
      \<and> (\<forall>row\<in>set (users dd). Some (d_id row) \<noteq> user_id claims)"
  let ?req = "req\<lparr>user := Some claims\<rparr>"
  from a have p: "protected (dangun_secret e) e now (dangun_profile e) req dd = dangun_profile e ?req dd"
    by (simp add: protected_def)
  have u: "user ?req = Some claims" "body ?req = body req" by simp_all
  from a have none: "\<forall>row\<in>set (users dd). Some (d_id row) \<noteq> user_id claims" by simp
  note r = dangun_profile_missing [OF u(1) none, of e, unfolded u(2)]
  show "\<forall>m. fst (protected (dangun_secret e) e now (dangun_profile e) req dd) \<noteq> failure 404 m"
    by (simp add: p r failure_status) (simp add: success_no_data_def failure_def)
  show "snd (protected (dangun_secret e) e now (dangun_profile e) req dd) = dd"
    by (simp add: p r)
  {
    assume "body req = Some ms
             \<and> coerce e 50 (prepareValue e (body_member ''nickname'' ms)) \<noteq> None
             \<and> coerce e 100 (prepareValue e (body_member ''location'' ms)) \<noteq> None"
    then show "protected (dangun_secret e) e now (dangun_profile e) req dd
                  = (Json 200 (JObj [(''success'', JBool True)]), dd)"
      by (simp add: p r success_no_data_def)
  }
  {
    assume "body req = None
             \<or> (body req = Some ms
                  \<and> (coerce e 50 (prepareValue e (body_member ''nickname'' ms)) = None
                     \<or> coerce e 100 (prepareValue e (body_member ''location'' ms)) = None))"
    then show "protected (dangun_secret e) e now (dangun_profile e) req dd
                  = (failure 500 MSG_SERVER_ERROR, dd)"
      by (auto simp: p r)
  }
next
  assume a: "auth (ecommerce_secret e) e now req = Next (req\<lparr>user := Some claims\<rparr>)
      \<and> (\<forall>row\<in>set (users db). Some (u_id row) \<noteq> user_id claims)"
  then have p: "protected (ecommerce_secret e) e now (profile e) req db
                    = profile e (req\<lparr>user := Some claims\<rparr>) db"
    by (simp add: protected_def)
  from a show "protected (ecommerce_secret e) e now (profile e) req db = (failure 500 MSG_SERVER_ERROR, db)"
    by (simp add: p profile_missing)
qed

lemma example_auth_shop:
  "auth (ecommerce_secret example_env) example_env 2000 (req\<lparr>authorization := Some (js ''Bearer shop.jwt'')\<rparr>)
   = Next (req\<lparr>authorization := Some (js ''Bearer shop.jwt''), user := Some alice_claims\<rparr>)"
  by (simp add: auth_def bearer_token_def jwt_verify_def example_env_def ecommerce_secret_def
      JWT_SECRET_def alice_jwt_def alice_claims_def js_def)

lemma example_auth_market:
  "auth (dangun_secret example_env) example_env 2000 (req\<lparr>authorization := Some (js ''Bearer market.jwt'')\<rparr>)
   = Next (req\<lparr>authorization := Some (js ''Bearer market.jwt''), user := Some bob_claims\<rparr>)"
  by (simp add: auth_def bearer_token_def jwt_verify_def example_env_def dangun_secret_def
      JWT_SECRET_def bob_jwt_def bob_claims_def js_def)

lemma example_claims:
  "user_id alice_claims = Some 1" "user_id bob_claims = Some 1"
  by (simp_all add: user_id_def alice_claims_def bob_claims_def alice_jwt_def bob_jwt_def)

theorem profile_update_of_missing_user_witness:
  "protected (dangun_secret example_env) example_env 2000 (dangun_profile example_env)
     (json_request [(''nickname'', JStr (js ''Robert''))]\<lparr>authorization := Some (js ''Bearer market.jwt'')\<rparr>)
     \<lparr>users = [carol_dangun_row], last_id = 2\<rparr>
   = (Json 200 (JObj [(''success'', JBool True)]), \<lparr>users = [carol_dangun_row], last_id = 2\<rparr>)
   \<and> protected (dangun_secret example_env) example_env 2000 (dangun_profile example_env)
     (empty_request\<lparr>authorization := Some (js ''Bearer market.jwt'')\<rparr>)
     \<lparr>users = [carol_dangun_row], last_id = 2\<rparr>
   = (failure 500 MSG_SERVER_ERROR, \<lparr>users = [carol_dangun_row], last_id = 2\<rparr>)
   \<and> protected (ecommerce_secret example_env) example_env 2000 (profile example_env)
     (json_request [(''nickname'', JStr (js ''Alicia''))]\<lparr>authorization := Some (js ''Bearer shop.jwt'')\<rparr>)
     \<lparr>users = [carol_row, dana_row], last_id = 3\<rparr>
   = (failure 500 MSG_SERVER_ERROR, \<lparr>users = [carol_row, dana_row], last_id = 3\<rparr>)"
proof -
  let ?mm = "[(''nickname'', JStr (js ''Robert''))]"
  let ?rm = "json_request ?mm\<lparr>authorization := Some (js ''Bearer market.jwt'')\<rparr>"
  let ?r0 = "empty_request\<lparr>authorization := Some (js ''Bearer market.jwt'')\<rparr>"
  let ?rs = "json_request [(''nickname'', JStr (js ''Alicia''))]\<lparr>authorization := Some (js ''Bearer shop.jwt'')\<rparr>"
  let ?dd = "\<lparr>users = [carol_dangun_row], last_id = 2\<rparr> :: dangun_01_user db"
  let ?db = "\<lparr>users = [carol_row, dana_row], last_id = 3\<rparr> :: ecommerce_01_user db"
  have am: "auth (dangun_secret example_env) example_env 2000 ?rm = Next (?rm\<lparr>user := Some bob_claims\<rparr>)"
    "auth (dangun_secret example_env) example_env 2000 ?r0 = Next (?r0\<lparr>user := Some bob_claims\<rparr>)"
    using example_auth_market by simp_all
  have as: "auth (ecommerce_secret example_env) example_env 2000 ?rs = Next (?rs\<lparr>user := Some alice_claims\<rparr>)"
    using example_auth_shop by simp
  have fits: "body ?rm = Some ?mm
      \<and> coerce example_env 50 (prepareValue example_env (body_member ''nickname'' ?mm)) \<noteq> None
      \<and> coerce example_env 100 (prepareValue example_env (body_member ''location'' ?mm)) \<noteq> None"
    by (simp add: json_request_def body_member_def example_env_def js_def)
  have nobody: "body ?r0 = None"
    by (simp add: empty_request_def)
  have none: "\<forall>row\<in>set (users ?dd). Some (d_id row) \<noteq> user_id bob_claims"
    "\<forall>row\<in>set (users ?db). Some (u_id row) \<noteq> user_id alice_claims"
    by (simp_all add: example_claims carol_dangun_row_def carol_row_def dana_row_def)
  have 1: "protected (dangun_secret example_env) example_env 2000 (dangun_profile example_env) ?rm ?dd
             = (Json 200 (JObj [(''success'', JBool True)]), ?dd)"
    using profile_update_of_missing_user [where e = example_env and now = 2000 and req = ?rm
        and claims = bob_claims and dd = ?dd and ms = ?mm] am(1) none(1) fits
    by blast
  have 2: "protected (dangun_secret example_env) example_env 2000 (dangun_profile example_env) ?r0 ?dd
             = (failure 500 MSG_SERVER_ERROR, ?dd)"
    using profile_update_of_missing_user [where e = example_env and now = 2000 and req = ?r0
        and claims = bob_claims and dd = ?dd] am(2) none(1) nobody
    by blast
  have 3: "protected (ecommerce_secret example_env) example_env 2000 (profile example_env) ?rs ?db
             = (failure 500 MSG_SERVER_ERROR, ?db)"
    using profile_update_of_missing_user [where e = example_env and now = 2000 and req = ?rs
        and claims = alice_claims and db = ?db] as none(2)
    by blast
  show ?thesis by (intro conjI) (rule 1, rule 2, rule 3)
qed

text \<open>
  Claim C10 as stated fails on the marketplace server. The user \<open>bob\<close>, whose row is gone,
  presents a token that is still valid and a nickname of 51 code units, which the
  column refuses: the answer is the generic 500, not the success envelope. The answer
  is also 500 when the request has no body.
\<close>

theorem profile_update_of_missing_user_counterexample:
  "protected (dangun_secret example_env) example_env 2000 (dangun_profile example_env)
     (json_request [(''nickname'', JStr (replicate 51 0x78))]
        \<lparr>authorization := Some (js ''Bearer market.jwt'')\<rparr>)
     \<lparr>users = [carol_dangun_row], last_id = 2\<rparr>
   = (failure 500 MSG_SERVER_ERROR, \<lparr>users = [carol_dangun_row], last_id = 2\<rparr>)
   \<and> protected (dangun_secret example_env) example_env 2000 (dangun_profile example_env)
     (empty_request\<lparr>authorization := Some (js ''Bearer market.jwt'')\<rparr>)
     \<lparr>users = [carol_dangun_row], last_id = 2\<rparr>
   = (failure 500 MSG_SERVER_ERROR, \<lparr>users = [carol_dangun_row], last_id = 2\<rparr>)
   \<and> jwt_verify example_env (js ''market.jwt'') (dangun_secret example_env) 2000 = Some bob_claims
   \<and> user_id bob_claims = Some 1
   \<and> map d_id (users \<lparr>users = [carol_dangun_row], last_id = 2\<rparr>) = [2]
   \<and> failure 500 MSG_SERVER_ERROR \<noteq> Json 200 (JObj [(''success'', JBool True)])"
  by (simp add: protected_def auth_def bearer_token_def jwt_verify_def example_env_def
      dangun_secret_def JWT_SECRET_def bob_jwt_def bob_claims_def json_request_def empty_request_def
      dangun_profile_def dangun_update_def body_member_def Let_def user_id_def carol_dangun_row_def
      failure_def js_def)

section \<open>The user view\<close>

lemma mentions_jnullable: "\<not> mentions k (jnullable x)"
  by (cases x) auto

lemma failure_discloses: "discloses k (failure n m) \<longleftrightarrow> k = ''success'' \<or> k = ''message''"
  by (auto simp: failure_def)

lemma sanitizeUser_password: "\<not> mentions ''password'' (sanitizeUser u)"
  by (simp add: sanitizeUser_def mentions_jnullable)

lemma case_insert_discloses:
  assumes "\<And>row. \<not> discloses k (f row)" "\<not> discloses k a" "\<not> discloses k b"
  shows "\<not> discloses k (fst (case x of (Inr row, db') \<Rightarrow> (f row, db')
        | (Inl UniqueViolation, db') \<Rightarrow> (a, db')
        | (Inl OtherError, db') \<Rightarrow> (b, db')))"
  using assms by (auto split: prod.splits sum.splits db_error.splits)

lemma register_password: "\<not> discloses ''password'' (fst (register e now r db))"
  using register_cases [of e now r db]
  by (elim disjE exE conjE)
    (simp_all add: failure_discloses case_insert_discloses success_def sanitizeUser_password)

lemma dangun_register_password: "\<not> discloses ''password'' (fst (dangun_register e now r db))"
  using dangun_register_cases [of e now r db]
  by (elim disjE exE conjE)
    (simp_all add: failure_discloses case_insert_discloses success_def mentions_jnullable)

lemma login_password: "\<not> discloses ''password'' (fst (login e now r db))"
  by (simp add: login_def Let_def failure_discloses success_def sanitizeUser_password
      split: option.splits list.splits json.splits)

lemma dangun_login_password: "\<not> discloses ''password'' (fst (dangun_login e now r db))"
  by (simp add: dangun_login_def Let_def failure_discloses success_def mentions_jnullable
      split: option.splits list.splits json.splits)

lemma me_password: "\<not> discloses ''password'' (fst (me r db))"
  by (simp add: me_def failure_discloses success_def sanitizeUser_password
      split: option.splits list.splits)

lemma dangun_me_password: "\<not> discloses ''password'' (fst (dangun_me r db))"
  by (simp add: dangun_me_def failure_discloses success_def mentions_jnullable
      split: option.splits list.splits)

lemma profile_password: "\<not> discloses ''password'' (fst (profile e r db))"
  by (simp add: profile_def Let_def failure_discloses success_def sanitizeUser_password
      split: option.splits list.splits sum.splits prod.splits)

lemma dangun_profile_password: "\<not> discloses ''password'' (fst (dangun_profile e r db))"
  by (simp add: dangun_profile_def Let_def failure_discloses success_def success_no_data_def
      mentions_jnullable split: option.splits list.splits sum.splits prod.splits)

subsection \<open>No answer depends on a stored hash\<close>

lemma prepareValue_hash: "prepareValue (e\<lparr>bcrypt_hash := hf\<rparr>) x = prepareValue e x"
proof (cases x)
  case None
  then show ?thesis by simp
next
  case (Some v)
  then show ?thesis by (cases v) simp_all
qed

lemma length_below_hash: "length_below (e\<lparr>bcrypt_hash := hf\<rparr>) v n = length_below e v n"
  by (cases v) (simp_all split: option.splits json.splits)

lemma coerce_hash: "coerce (e\<lparr>bcrypt_hash := hf\<rparr>) n x = coerce e n x"
  by (cases x) simp_all

lemma insert_local_hash: "insert_local (e\<lparr>bcrypt_hash := hf\<rparr>) = insert_local e"
  by (simp add: fun_eq_iff insert_local_def coerce_hash)

lemma dangun_insert_hash: "dangun_insert (e\<lparr>bcrypt_hash := hf\<rparr>) = dangun_insert e"
  by (simp add: fun_eq_iff dangun_insert_def)

lemma generateToken_hash: "generateToken (e\<lparr>bcrypt_hash := hf\<rparr>) = generateToken e"
  by (simp add: fun_eq_iff generateToken_def jwt_sign_def ecommerce_secret_def JWT_SECRET_def)

lemma dangun_token_hash: "dangun_token (e\<lparr>bcrypt_hash := hf\<rparr>) = dangun_token e"
  by (simp add: fun_eq_iff dangun_token_def jwt_sign_def dangun_secret_def JWT_SECRET_def)

lemma generateToken_password: "generateToken e now (u\<lparr>u_password := h\<rparr>) = generateToken e now u"
  by (simp add: generateToken_def token_claims_def)

lemma dangun_token_password: "dangun_token e now (d\<lparr>d_password := h\<rparr>) = dangun_token e now d"
  by (simp add: dangun_token_def dangun_claims_def)

lemma sanitizeUser_stored: "sanitizeUser (u\<lparr>u_password := h\<rparr>) = sanitizeUser u"
  by (simp add: sanitizeUser_def)

lemma insert_local_answer:
  assumes "(varchar e 255 h1 = None) = (varchar e 255 h2 = None)"
  shows "fst (case insert_local e now u h1 n em ph (db\<lparr>users := map (\<lambda>row. row\<lparr>u_password := f row\<rparr>) (users db)\<rparr>) of
                (Inr row, db') \<Rightarrow>
                  (success (JObj [(''token'', JStr (generateToken e now row)),
                                  (''user'', sanitizeUser row)]), db')
              | (Inl UniqueViolation, db') \<Rightarrow> (failure 409 MSG_USERNAME_EXISTS, db')
              | (Inl OtherError, db') \<Rightarrow> (failure 500 MSG_SERVER_ERROR, db'))
         = fst (case insert_local e now u h2 n em ph db of
                (Inr row, db') \<Rightarrow>
                  (success (JObj [(''token'', JStr (generateToken e now row)),
                                  (''user'', sanitizeUser row)]), db')
              | (Inl UniqueViolation, db') \<Rightarrow> (failure 409 MSG_USERNAME_EXISTS, db')
              | (Inl OtherError, db') \<Rightarrow> (failure 500 MSG_SERVER_ERROR, db'))"
proof -
  have names: "map u_username (map (\<lambda>row. row\<lparr>u_password := f row\<rparr>) (users db)) = map u_username (users db)"
    by (simp add: o_def)
  obtain a b where h: "(varchar e 255 h1 = None \<and> varchar e 255 h2 = None)
                       \<or> (varchar e 255 h1 = Some a \<and> varchar e 255 h2 = Some b)"
    using assms by (cases "varchar e 255 h1"; cases "varchar e 255 h2") auto
  have names': "u_username ` (\<lambda>row. row\<lparr>u_password := f row\<rparr>) ` set (users db) = u_username ` set (users db)"
    by (simp add: image_image)
  from h show ?thesis
    by (auto simp: insert_local_def Let_def names' generateToken_def token_claims_def sanitizeUser_def
        split: option.splits)
qed

lemma dangun_insert_answer:
  assumes "(varchar e 255 h1 = None) = (varchar e 255 h2 = None)"
  shows "fst (case dangun_insert e now u h1 n (db\<lparr>users := map (\<lambda>row. row\<lparr>d_password := g row\<rparr>) (users db)\<rparr>) of
                (Inr row, db') \<Rightarrow>
                  (success (JObj [(''token'', JStr (dangun_token e now row)),
                                  (''user'', JObj [(''id'', JNum (d_id row)),
                                                   (''username'', JStr (d_username row)),
                                                   (''nickname'', JStr (d_nickname row)),
                                                   (''location'', jnullable (d_location row))])]), db')
              | (Inl UniqueViolation, db') \<Rightarrow> (failure 409 MSG_USERNAME_EXISTS, db')
              | (Inl OtherError, db') \<Rightarrow> (failure 500 MSG_SERVER_ERROR, db'))
         = fst (case dangun_insert e now u h2 n db of
                (Inr row, db') \<Rightarrow>
                  (success (JObj [(''token'', JStr (dangun_token e now row)),
                                  (''user'', JObj [(''id'', JNum (d_id row)),
                                                   (''username'', JStr (d_username row)),
                                                   (''nickname'', JStr (d_nickname row)),
                                                   (''location'', jnullable (d_location row))])]), db')
              | (Inl UniqueViolation, db') \<Rightarrow> (failure 409 MSG_USERNAME_EXISTS, db')
              | (Inl OtherError, db') \<Rightarrow> (failure 500 MSG_SERVER_ERROR, db'))"
proof -
  obtain a b where h: "(varchar e 255 h1 = None \<and> varchar e 255 h2 = None)
                       \<or> (varchar e 255 h1 = Some a \<and> varchar e 255 h2 = Some b)"
    using assms by (cases "varchar e 255 h1"; cases "varchar e 255 h2") auto
  have names': "d_username ` (\<lambda>row. row\<lparr>d_password := g row\<rparr>) ` set (users db) = d_username ` set (users db)"
    by (simp add: image_image)
  from h show ?thesis
    by (auto simp: dangun_insert_def Let_def names' dangun_token_def dangun_claims_def
        split: option.splits)
qed

lemma register_independent_of_hash:
  assumes "\<forall>ms p. body r = Some ms \<and> body_member ''password'' ms = Some (JStr p)
             \<longrightarrow> (varchar e 255 (hf p) = None) = (varchar e 255 (bcrypt_hash e p) = None)"
  shows "fst (register (e\<lparr>bcrypt_hash := hf\<rparr>) now r
                (db\<lparr>users := map (\<lambda>row. row\<lparr>u_password := f row\<rparr>) (users db)\<rparr>))
         = fst (register e now r db)"
proof (cases "body r")
  case None
  then show ?thesis by (simp add: register_def)
next
  case (Some ms)
  let ?e = "e\<lparr>bcrypt_hash := hf\<rparr>"
  let ?db = "db\<lparr>users := map (\<lambda>row. row\<lparr>u_password := f row\<rparr>) (users db)\<rparr>"
  note A = register_body [OF Some, of ?e now ?db, unfolded prepareValue_hash length_below_hash
      insert_local_hash generateToken_hash]
  note B = register_body [OF Some, of e now db]
  show ?thesis
  proof (cases "body_member ''password'' ms")
    case None
    then show ?thesis by (simp add: A B)
  next
    case pv: (Some pv)
    show ?thesis
    proof (cases "\<exists>p. pv = JStr p")
      case False
      then show ?thesis using pv by (cases pv) (simp_all add: A B)
    next
      case True
      then obtain p where p: "body_member ''password'' ms = Some (JStr p)" using pv by blast
      show ?thesis
      proof (cases "truthy_value (body_member ''username'' ms) \<and> truthy_value (body_member ''nickname'' ms)
                     \<and> p \<noteq> [] \<and> \<not> length p < 6")
        case False
        then show ?thesis using p by (auto simp: A B)
      next
        case ok: True
        then obtain u n where un: "prepareValue e (body_member ''username'' ms) = Some u"
          "prepareValue e (body_member ''nickname'' ms) = Some n"
          using truthy_value_prepared by blast
        have "(varchar e 255 (hf p) = None) = (varchar e 255 (bcrypt_hash e p) = None)"
          using assms Some p by blast
        note ins = insert_local_answer [OF this, where now = now and u = u and n = n
            and em = "prepareValue e (value_or_null (body_member ''email'' ms))"
            and ph = "prepareValue e (value_or_null (body_member ''phone'' ms))" and db = db and f = f]
        show ?thesis using ok p un ins by (simp add: A B)
      qed
    qed
  qed
qed

lemma dangun_register_independent_of_hash:
  assumes "\<forall>ms p. body r = Some ms \<and> body_member ''password'' ms = Some (JStr p)
             \<longrightarrow> (varchar e 255 (hf p) = None) = (varchar e 255 (bcrypt_hash e p) = None)"
  shows "fst (dangun_register (e\<lparr>bcrypt_hash := hf\<rparr>) now r
                (dd\<lparr>users := map (\<lambda>row. row\<lparr>d_password := g row\<rparr>) (users dd)\<rparr>))
         = fst (dangun_register e now r dd)"
proof (cases "body r")
  case None
  then show ?thesis by (simp add: dangun_register_def)
next
  case (Some ms)
  let ?e = "e\<lparr>bcrypt_hash := hf\<rparr>"
  let ?dd = "dd\<lparr>users := map (\<lambda>row. row\<lparr>d_password := g row\<rparr>) (users dd)\<rparr>"
  note A = dangun_register_body [OF Some, of ?e now ?dd, unfolded prepareValue_hash
      dangun_insert_hash dangun_token_hash]
  note B = dangun_register_body [OF Some, of e now dd]
  show ?thesis
  proof (cases "body_member ''password'' ms")
    case None
    then show ?thesis by (simp add: A B)
  next
    case pv: (Some pv)
    show ?thesis
    proof (cases "\<exists>p. pv = JStr p")
      case False
      then show ?thesis using pv by (cases pv) (simp_all add: A B)
    next
      case True
      then obtain p where p: "body_member ''password'' ms = Some (JStr p)" using pv by blast
      show ?thesis
      proof (cases "truthy_value (body_member ''username'' ms) \<and> truthy_value (body_member ''nickname'' ms)
                     \<and> p \<noteq> []")
        case False
        then show ?thesis using p by (auto simp: A B)
      next
        case ok: True
        then obtain u n where un: "prepareValue e (body_member ''username'' ms) = Some u"
          "prepareValue e (body_member ''nickname'' ms) = Some n"
          using truthy_value_prepared by blast
        have "(varchar e 255 (hf p) = None) = (varchar e 255 (bcrypt_hash e p) = None)"
          using assms Some p by blast
        note ins = dangun_insert_answer [OF this, where now = now and u = u and n = n and db = dd
            and g = g]
        show ?thesis using ok p un ins by (simp add: A B)
      qed
    qed
  qed
qed

lemma filter_stored:
  assumes "\<And>row. P (g row) = P row"
  shows "filter P (map g xs) = map g (filter P xs)"
  using assms by (induction xs) auto

lemma login_independent_of_hash:
  assumes "\<forall>ms p row. body r = Some ms \<and> body_member ''password'' ms = Some (JStr p) \<and> row \<in> set (users db)
             \<longrightarrow> map_option (bcrypt_compare e p) (f row) = map_option (bcrypt_compare e p) (u_password row)"
  shows "fst (login e now r (db\<lparr>users := map (\<lambda>row. row\<lparr>u_password := f row\<rparr>) (users db)\<rparr>))
         = fst (login e now r db)"
proof (cases "body r")
  case None
  then show ?thesis by (simp add: login_def)
next
  case (Some ms)
  let ?g = "\<lambda>row. row\<lparr>u_password := f row\<rparr>"
  let ?db = "db\<lparr>users := map ?g (users db)\<rparr>"
  let ?P = "\<lambda>r. sql_equal (u_username r) (prepareValue e (body_member ''username'' ms))
                            \<and> u_provider r = js ''local''"
  have flt: "filter ?P (map ?g (users db)) = map ?g (filter ?P (users db))"
    by (rule filter_stored) simp
  note A = login_body [OF Some, of e now ?db]
  note B = login_body [OF Some, of e now db]
  show ?thesis
  proof (cases "filter ?P (users db)")
    case Nil
    then show ?thesis by (simp add: A B flt)
  next
    case (Cons row rest)
    then have mem: "row \<in> set (users db)"
      using Cons_eq_filterD [OF Cons [symmetric]] by auto
    show ?thesis
    proof (cases "body_member ''password'' ms")
      case None
      then show ?thesis by (simp add: A B)
    next
      case pv: (Some pv)
      show ?thesis
      proof (cases "\<exists>p. pv = JStr p")
        case False
        then show ?thesis using pv Cons by (cases pv) (simp_all add: A B flt)
      next
        case True
        then obtain p where p: "body_member ''password'' ms = Some (JStr p)" using pv by blast
        have verdict: "map_option (bcrypt_compare e p) (f row) = map_option (bcrypt_compare e p) (u_password row)"
          using assms Some p mem by blast
        show ?thesis
          using verdict p Cons
          by (cases "f row"; cases "u_password row")
            (simp_all add: A B flt generateToken_password sanitizeUser_stored)
      qed
    qed
  qed
qed

lemma dangun_login_independent_of_hash:
  assumes "\<forall>ms p row. body r = Some ms \<and> body_member ''password'' ms = Some (JStr p) \<and> row \<in> set (users dd)
             \<longrightarrow> bcrypt_compare e p (g row) = bcrypt_compare e p (d_password row)"
  shows "fst (dangun_login e now r (dd\<lparr>users := map (\<lambda>row. row\<lparr>d_password := g row\<rparr>) (users dd)\<rparr>))
         = fst (dangun_login e now r dd)"
proof (cases "body r")
  case None
  then show ?thesis by (simp add: dangun_login_def)
next
  case (Some ms)
  let ?g = "\<lambda>row. row\<lparr>d_password := g row\<rparr>"
  let ?dd = "dd\<lparr>users := map ?g (users dd)\<rparr>"
  let ?P = "\<lambda>r. sql_equal (Some (d_username r)) (prepareValue e (body_member ''username'' ms))"
  have flt: "filter ?P (map ?g (users dd)) = map ?g (filter ?P (users dd))"
    by (rule filter_stored) simp
  note A = dangun_login_body [OF Some, of e now ?dd]
  note B = dangun_login_body [OF Some, of e now dd]
  show ?thesis
  proof (cases "filter ?P (users dd)")
    case Nil
    then show ?thesis by (simp add: A B flt)
  next
    case (Cons row rest)
    then have mem: "row \<in> set (users dd)"
      using Cons_eq_filterD [OF Cons [symmetric]] by auto
    show ?thesis
    proof (cases "body_member ''password'' ms")
      case None
      then show ?thesis by (simp add: A B)
    next
      case pv: (Some pv)
      show ?thesis
      proof (cases "\<exists>p. pv = JStr p")
        case False
        then show ?thesis using pv Cons by (cases pv) (simp_all add: A B flt)
      next
        case True
        then obtain p where p: "body_member ''password'' ms = Some (JStr p)" using pv by blast
        have verdict: "bcrypt_compare e p (g row) = bcrypt_compare e p (d_password row)"
          using assms Some p mem by blast
        show ?thesis
          using verdict p Cons
          by (simp add: A B flt dangun_token_password)
      qed
    qed
  qed
qed

lemma me_independent_of_hash:
  "fst (me r (db\<lparr>users := map (\<lambda>row. row\<lparr>u_password := f row\<rparr>) (users db)\<rparr>)) = fst (me r db)"
proof (cases "user r")
  case None
  then show ?thesis by (simp add: me_def)
next
  case (Some claims)
  let ?P = "\<lambda>row. Some (u_id row) = user_id claims"
  have "filter ?P (map (\<lambda>row. row\<lparr>u_password := f row\<rparr>) (users db))
          = map (\<lambda>row. row\<lparr>u_password := f row\<rparr>) (filter ?P (users db))"
    by (rule filter_stored) simp
  then show ?thesis using Some
    by (cases "filter ?P (users db)") (simp_all add: me_def sanitizeUser_def)
qed

lemma dangun_me_independent_of_hash:
  "fst (dangun_me r (db\<lparr>users := map (\<lambda>row. row\<lparr>d_password := f row\<rparr>) (users db)\<rparr>)) = fst (dangun_me r db)"
proof (cases "user r")
  case None
  then show ?thesis by (simp add: dangun_me_def)
next
  case (Some claims)
  let ?P = "\<lambda>row. Some (d_id row) = user_id claims"
  have "filter ?P (map (\<lambda>row. row\<lparr>d_password := f row\<rparr>) (users db))
          = map (\<lambda>row. row\<lparr>d_password := f row\<rparr>) (filter ?P (users db))"
    by (rule filter_stored) simp
  then show ?thesis using Some
    by (cases "filter ?P (users db)") (simp_all add: dangun_me_def)
qed

lemma profile_independent_of_hash:
  "fst (profile e r (db\<lparr>users := map (\<lambda>row. row\<lparr>u_password := f row\<rparr>) (users db)\<rparr>))
   = fst (profile e r db)"
proof (cases "body r = None \<or> user r = None")
  case True
  then show ?thesis by (simp add: profile_not_run)
next
  case False
  then obtain ms claims where b: "body r = Some ms" "user r = Some claims" by auto
  let ?g = "\<lambda>row. row\<lparr>u_password := f row\<rparr>"
  let ?db = "db\<lparr>users := map ?g (users db)\<rparr>"
  show ?thesis
  proof (cases "coerce e 50 (prepareValue e (body_member ''nickname'' ms)) = None
         \<or> coerce e 100 (prepareValue e (body_member ''email'' ms)) = None
         \<or> coerce e 20 (prepareValue e (body_member ''phone'' ms)) = None")
    case True
    then show ?thesis by (simp add: profile_refused [OF b(1)])
  next
    case False
    then obtain nick' em' ph' where c:
      "coerce e 50 (prepareValue e (body_member ''nickname'' ms)) = Some nick'"
      "coerce e 100 (prepareValue e (body_member ''email'' ms)) = Some em'"
      "coerce e 20 (prepareValue e (body_member ''phone'' ms)) = Some ph'"
      by auto
    let ?P = "\<lambda>r. Some (u_id r) = user_id claims"
    let ?upd = "\<lambda>r. if Some (u_id r) = user_id claims then profile_row nick' em' ph' r else r"
    have 1: "filter ?P (map (?upd \<circ> ?g) (users db)) = map (?upd \<circ> ?g) (filter ?P (users db))"
      by (rule filter_stored) (simp add: profile_row_def)
    have 2: "filter ?P (map ?upd (users db)) = map ?upd (filter ?P (users db))"
      by (rule filter_stored) (simp add: profile_row_def)
    have 3: "sanitizeUser (?upd (?g row)) = sanitizeUser (?upd row)" for row
      by (simp add: sanitizeUser_def profile_row_def)
    show ?thesis
      using 3 by (cases "filter ?P (users db)")
        (simp_all add: profile_body [OF b] update_profile_accepted [OF c] 1 2)
  qed
qed

lemma dangun_profile_independent_of_hash:
  "fst (dangun_profile e r (dd\<lparr>users := map (\<lambda>row. row\<lparr>d_password := g row\<rparr>) (users dd)\<rparr>))
   = fst (dangun_profile e r dd)"
proof (cases "body r = None \<or> user r = None")
  case True
  then show ?thesis by (simp add: dangun_profile_not_run)
next
  case False
  then obtain ms claims where b: "body r = Some ms" "user r = Some claims" by auto
  let ?g = "\<lambda>row. row\<lparr>d_password := g row\<rparr>"
  show ?thesis
  proof (cases "coerce e 50 (prepareValue e (body_member ''nickname'' ms)) = None
         \<or> coerce e 100 (prepareValue e (body_member ''location'' ms)) = None")
    case True
    then show ?thesis by (simp add: dangun_profile_refused [OF b(1)])
  next
    case False
    then obtain nick' loc' where c:
      "coerce e 50 (prepareValue e (body_member ''nickname'' ms)) = Some nick'"
      "coerce e 100 (prepareValue e (body_member ''location'' ms)) = Some loc'"
      by auto
    let ?P = "\<lambda>r. Some (d_id r) = user_id claims"
    let ?upd = "\<lambda>r. if Some (d_id r) = user_id claims then dangun_profile_row nick' loc' r else r"
    have 1: "filter ?P (map (?upd \<circ> ?g) (users dd)) = map (?upd \<circ> ?g) (filter ?P (users dd))"
      by (rule filter_stored) (simp add: dangun_profile_row_def)
    have 2: "filter ?P (map ?upd (users dd)) = map ?upd (filter ?P (users dd))"
      by (rule filter_stored) (simp add: dangun_profile_row_def)
    show ?thesis
      by (cases "filter ?P (users dd)")
        (simp_all add: dangun_profile_body [OF b] dangun_update_accepted [OF c] 1 2 dangun_profile_row_def)
  qed
qed

text \<open>
  Claim C4. No answer of register, login, profile read or profile update, on either
  server, has a member named \<open>password\<close> at any depth, whatever the request and the
  store. And no answer carries a stored hash under another name, because no answer
  depends on one: the view built by \<open>sanitizeUser\<close> and the token are the same for every
  stored hash; replace the hash of every stored row by any other value, and the hash
  function by any other, and the answers of register, profile read and profile update
  stay the same (for register, as long as the column accepts the one hash when it
  accepts the other), and the answer of login stays the same as long as every replaced
  hash gives \<open>bcrypt.compare\<close> the same verdict on the password of the request.
\<close>

theorem user_view_without_hash:
  "\<not> discloses ''password'' (fst (register e now r db))
   \<and> \<not> discloses ''password'' (fst (login e now r db))
   \<and> \<not> discloses ''password'' (fst (me r db))
   \<and> \<not> discloses ''password'' (fst (profile e r db))
   \<and> \<not> discloses ''password'' (fst (dangun_register e now r dd))
   \<and> \<not> discloses ''password'' (fst (dangun_login e now r dd))
   \<and> \<not> discloses ''password'' (fst (dangun_me r dd))
   \<and> \<not> discloses ''password'' (fst (dangun_profile e r dd))
   \<and> sanitizeUser (u\<lparr>u_password := h\<rparr>) = sanitizeUser u
   \<and> generateToken e now (u\<lparr>u_password := h\<rparr>) = generateToken e now u
   \<and> dangun_token e now (d\<lparr>d_password := h'\<rparr>) = dangun_token e now d
   \<and> ((\<forall>ms p. body r = Some ms \<and> body_member ''password'' ms = Some (JStr p)
             \<longrightarrow> (varchar e 255 (hf p) = None) = (varchar e 255 (bcrypt_hash e p) = None))
       \<longrightarrow> fst (register (e\<lparr>bcrypt_hash := hf\<rparr>) now r
                   (db\<lparr>users := map (\<lambda>row. row\<lparr>u_password := f row\<rparr>) (users db)\<rparr>))
             = fst (register e now r db)
           \<and> fst (dangun_register (e\<lparr>bcrypt_hash := hf\<rparr>) now r
                   (dd\<lparr>users := map (\<lambda>row. row\<lparr>d_password := g row\<rparr>) (users dd)\<rparr>))
             = fst (dangun_register e now r dd))
   \<and> ((\<forall>ms p row. body r = Some ms \<and> body_member ''password'' ms = Some (JStr p) \<and> row \<in> set (users db)
             \<longrightarrow> map_option (bcrypt_compare e p) (f row) = map_option (bcrypt_compare e p) (u_password row))
       \<longrightarrow> fst (login e now r (db\<lparr>users := map (\<lambda>row. row\<lparr>u_password := f row\<rparr>) (users db)\<rparr>))
             = fst (login e now r db))
   \<and> ((\<forall>ms p row. body r = Some ms \<and> body_member ''password'' ms = Some (JStr p) \<and> row \<in> set (users dd)
             \<longrightarrow> bcrypt_compare e p (g row) = bcrypt_compare e p (d_password row))
       \<longrightarrow> fst (dangun_login e now r (dd\<lparr>users := map (\<lambda>row. row\<lparr>d_password := g row\<rparr>) (users dd)\<rparr>))
             = fst (dangun_login e now r dd))
   \<and> fst (me r (db\<lparr>users := map (\<lambda>row. row\<lparr>u_password := f row\<rparr>) (users db)\<rparr>)) = fst (me r db)
   \<and> fst (dangun_me r (dd\<lparr>users := map (\<lambda>row. row\<lparr>d_password := g row\<rparr>) (users dd)\<rparr>))
       = fst (dangun_me r dd)
   \<and> fst (profile e r (db\<lparr>users := map (\<lambda>row. row\<lparr>u_password := f row\<rparr>) (users db)\<rparr>))
       = fst (profile e r db)
   \<and> fst (dangun_profile e r (dd\<lparr>users := map (\<lambda>row. row\<lparr>d_password := g row\<rparr>) (users dd)\<rparr>))
       = fst (dangun_profile e r dd)"
proof (intro conjI impI)
  assume a: "\<forall>ms p. body r = Some ms \<and> body_member ''password'' ms = Some (JStr p)
             \<longrightarrow> (varchar e 255 (hf p) = None) = (varchar e 255 (bcrypt_hash e p) = None)"
  show "fst (register (e\<lparr>bcrypt_hash := hf\<rparr>) now r
                   (db\<lparr>users := map (\<lambda>row. row\<lparr>u_password := f row\<rparr>) (users db)\<rparr>))
             = fst (register e now r db)"
    by (rule register_independent_of_hash [OF a])
  show "fst (dangun_register (e\<lparr>bcrypt_hash := hf\<rparr>) now r
                   (dd\<lparr>users := map (\<lambda>row. row\<lparr>d_password := g row\<rparr>) (users dd)\<rparr>))
             = fst (dangun_register e now r dd)"
    by (rule dangun_register_independent_of_hash [OF a])
next
  assume "\<forall>ms p row. body r = Some ms \<and> body_member ''password'' ms = Some (JStr p) \<and> row \<in> set (users db)
             \<longrightarrow> map_option (bcrypt_compare e p) (f row) = map_option (bcrypt_compare e p) (u_password row)"
  then show "fst (login e now r (db\<lparr>users := map (\<lambda>row. row\<lparr>u_password := f row\<rparr>) (users db)\<rparr>))
             = fst (login e now r db)"
    by (rule login_independent_of_hash)
next
  assume "\<forall>ms p row. body r = Some ms \<and> body_member ''password'' ms = Some (JStr p) \<and> row \<in> set (users dd)
             \<longrightarrow> bcrypt_compare e p (g row) = bcrypt_compare e p (d_password row)"
  then show "fst (dangun_login e now r (dd\<lparr>users := map (\<lambda>row. row\<lparr>d_password := g row\<rparr>) (users dd)\<rparr>))
             = fst (dangun_login e now r dd)"
    by (rule dangun_login_independent_of_hash)
qed (rule register_password login_password me_password profile_password dangun_register_password
      dangun_login_password dangun_me_password dangun_profile_password sanitizeUser_stored
      generateToken_password dangun_token_password me_independent_of_hash
      dangun_me_independent_of_hash profile_independent_of_hash dangun_profile_independent_of_hash)+

lemma example_salted_login:
  "login salted_env 2000
      (json_request [(''username'', JStr (js ''alice'')), (''password'', JStr (js ''secret1''))])
      \<lparr>users = [alice\<lparr>u_password := Some (js ''s1:secret1'')\<rparr>, dana_row], last_id = 2\<rparr>
     = (success (JObj [(''token'', JStr (js ''shop.jwt'')),
                       (''user'', JObj [(''id'', JNum 1), (''username'', JStr (js ''alice'')),
                                        (''nickname'', JStr (js ''Alice'')), (''email'', JNull),
                                        (''phone'', JNull), (''profile_image'', JNull),
                                        (''provider'', JStr (js ''local'')), (''created_at'', JDate 1000)])]),
        \<lparr>users = [alice\<lparr>u_password := Some (js ''s1:secret1'')\<rparr>, dana_row], last_id = 2\<rparr>)"
  by (simp add: login_def Let_def json_request_def empty_request_def body_member_def alice_def dana_row_def
      salted_env_def example_env_def generateToken_def jwt_sign_def jwt_issue_def ecommerce_secret_def
      JWT_SECRET_def sanitizeUser_def js_def)

theorem user_view_without_hash_witness:
  "fst (login salted_env 2000
          (json_request [(''username'', JStr (js ''alice'')), (''password'', JStr (js ''secret1''))])
          \<lparr>users = [alice\<lparr>u_password := Some (js ''s2:secret1'')\<rparr>, dana_row], last_id = 2\<rparr>)
     = success (JObj [(''token'', JStr (js ''shop.jwt'')),
                      (''user'', JObj [(''id'', JNum 1), (''username'', JStr (js ''alice'')),
                                       (''nickname'', JStr (js ''Alice'')), (''email'', JNull),
                                       (''phone'', JNull), (''profile_image'', JNull),
                                       (''provider'', JStr (js ''local'')), (''created_at'', JDate 1000)])])
   \<and> \<not> discloses ''password''
        (fst (login salted_env 2000
               (json_request [(''username'', JStr (js ''alice'')), (''password'', JStr (js ''secret1''))])
               \<lparr>users = [alice\<lparr>u_password := Some (js ''s1:secret1'')\<rparr>, dana_row], last_id = 2\<rparr>))
   \<and> fst (register (example_env\<lparr>bcrypt_hash := (\<lambda>p. js ''s2:'' @ p)\<rparr>) 2000 carol_request
            \<lparr>users = [alice\<lparr>u_password := None\<rparr>], last_id = 1\<rparr>)
     = success (JObj [(''token'', JStr (js ''shop.jwt'')), (''user'', sanitizeUser carol_row)])
   \<and> fst (dangun_register (example_env\<lparr>bcrypt_hash := (\<lambda>p. js ''s2:'' @ p)\<rparr>) 2000 carol_request
            \<lparr>users = [bob\<lparr>d_password := js ''s2:hunter2''\<rparr>], last_id = 1\<rparr>)
     = success (JObj [(''token'', JStr (js ''market.jwt'')),
                      (''user'', JObj [(''id'', JNum 2), (''username'', JStr (js ''carol'')),
                                       (''nickname'', JStr (js ''Carol'')),
                                       (''location'', JStr DEFAULT_LOCATION)])])"
proof -
  let ?r = "json_request [(''username'', JStr (js ''alice'')), (''password'', JStr (js ''secret1''))]"
  let ?db = "\<lparr>users = [alice\<lparr>u_password := Some (js ''s1:secret1'')\<rparr>, dana_row], last_id = 2\<rparr>
               :: ecommerce_01_user db"
  let ?f = "\<lambda>row :: ecommerce_01_user. map_option (\<lambda>h. js ''s2:'' @ drop 3 h) (u_password row)"
  let ?hf = "\<lambda>p. js ''s2:'' @ p"
  let ?dba = "\<lparr>users = [alice], last_id = 1\<rparr> :: ecommerce_01_user db"
  let ?ddb = "\<lparr>users = [bob], last_id = 1\<rparr> :: dangun_01_user db"
  note t = user_view_without_hash [where e = salted_env and now = 2000 and r = ?r and db = ?db and f = ?f]
  note tr = user_view_without_hash [where e = example_env and now = 2000 and r = carol_request
      and db = ?dba and dd = ?ddb and hf = ?hf and f = "\<lambda>row. None" and g = "\<lambda>row. js ''s2:hunter2''"]
  have verdict: "\<forall>ms p row. body ?r = Some ms \<and> body_member ''password'' ms = Some (JStr p) \<and> row \<in> set (users ?db)
             \<longrightarrow> map_option (bcrypt_compare salted_env p) (?f row)
                 = map_option (bcrypt_compare salted_env p) (u_password row)"
    by (auto simp: json_request_def body_member_def salted_env_def alice_def dana_row_def js_def)
  have column: "\<forall>ms p. body carol_request = Some ms \<and> body_member ''password'' ms = Some (JStr p)
             \<longrightarrow> (varchar example_env 255 (?hf p) = None)
                 = (varchar example_env 255 (bcrypt_hash example_env p) = None)"
    by (auto simp: carol_request_def body_member_def example_env_def js_def)
  from t verdict have "fst (login salted_env 2000 ?r
                              (?db\<lparr>users := map (\<lambda>row. row\<lparr>u_password := ?f row\<rparr>) (users ?db)\<rparr>))
                         = fst (login salted_env 2000 ?r ?db)"
    by blast
  then have 1: "fst (login salted_env 2000 ?r
          \<lparr>users = [alice\<lparr>u_password := Some (js ''s2:secret1'')\<rparr>, dana_row], last_id = 2\<rparr>)
     = success (JObj [(''token'', JStr (js ''shop.jwt'')),
                      (''user'', JObj [(''id'', JNum 1), (''username'', JStr (js ''alice'')),
                                       (''nickname'', JStr (js ''Alice'')), (''email'', JNull),
                                       (''phone'', JNull), (''profile_image'', JNull),
                                       (''provider'', JStr (js ''local'')), (''created_at'', JDate 1000)])])"
    by (simp add: example_salted_login) (simp add: alice_def dana_row_def js_def)
  from t have 2: "\<not> discloses ''password'' (fst (login salted_env 2000 ?r ?db))"
    by blast
  from tr column have "fst (register (example_env\<lparr>bcrypt_hash := ?hf\<rparr>) 2000 carol_request
                   (?dba\<lparr>users := map (\<lambda>row. row\<lparr>u_password := None\<rparr>) (users ?dba)\<rparr>))
             = fst (register example_env 2000 carol_request ?dba)"
    by blast
  then have 3: "fst (register (example_env\<lparr>bcrypt_hash := ?hf\<rparr>) 2000 carol_request
            \<lparr>users = [alice\<lparr>u_password := None\<rparr>], last_id = 1\<rparr>)
     = success (JObj [(''token'', JStr (js ''shop.jwt'')), (''user'', sanitizeUser carol_row)])"
    by (simp add: example_register_carol)
  from tr column have "fst (dangun_register (example_env\<lparr>bcrypt_hash := ?hf\<rparr>) 2000 carol_request
                   (?ddb\<lparr>users := map (\<lambda>row. row\<lparr>d_password := js ''s2:hunter2''\<rparr>) (users ?ddb)\<rparr>))
             = fst (dangun_register example_env 2000 carol_request ?ddb)"
    by blast
  then have 4: "fst (dangun_register (example_env\<lparr>bcrypt_hash := ?hf\<rparr>) 2000 carol_request
            \<lparr>users = [bob\<lparr>d_password := js ''s2:hunter2''\<rparr>], last_id = 1\<rparr>)
     = success (JObj [(''token'', JStr (js ''market.jwt'')),
                      (''user'', JObj [(''id'', JNum 2), (''username'', JStr (js ''carol'')),
                                       (''nickname'', JStr (js ''Carol'')),
                                       (''location'', JStr DEFAULT_LOCATION)])])"
    by (simp add: example_dangun_register_carol)
  show ?thesis by (intro conjI) (rule 1, rule 2, rule 3, rule 4)
qed

section \<open>The Kakao callback\<close>

lemma kakao_callback_profile:
  assumes "truthy (code req)" "truthy (access_token td)"
  shows "kakao_callback e now req (Resolved td) (Resolved ku) db =
           (let kakaoId = String (kakao_user_id ku);
                kakaoNickname = or_else (properties_nickname ku) KAKAO_DEFAULT_NICKNAME;
                kakaoEmail = or_null (kakao_account_email ku);
                kakaoProfileImage = or_null (properties_profile_image ku)
            in
              if list_ex (\<lambda>r. u_kakao_id r = Some kakaoId) (users db) then
                (case update_kakao e kakaoNickname kakaoProfileImage kakaoEmail kakaoId db of
                   Inr (row # _, db') \<Rightarrow>
                     (Redirect (js ''/#/kakao-callback?token='' @ generateToken e now row), db')
                 | Inr ([], db') \<Rightarrow> (error_redirect, db')
                 | Inl _ \<Rightarrow> (error_redirect, db))
              else
                (case insert_kakao e now kakaoNickname kakaoEmail kakaoProfileImage kakaoId db of
                   (Inr row, db') \<Rightarrow>
                     (Redirect (js ''/#/kakao-callback?token='' @ generateToken e now row), db')
                 | (Inl _, db') \<Rightarrow> (error_redirect, db')))"
  using assms by (simp add: kakao_callback_def)

lemma update_kakao_found:
  assumes "varchar e 50 nick = Some nick'" "coerce e 100 em = Some em'"
    and "filter (\<lambda>r. u_kakao_id r = Some kid) (users db) = r # rest"
  shows "update_kakao e nick img em kid db
           = Inr (kakao_row nick' img em' r # map (kakao_row nick' img em') rest,
                  db\<lparr>users := map (\<lambda>r. if u_kakao_id r = Some kid then kakao_row nick' img em' r else r)
                                  (users db)\<rparr>)"
proof -
  let ?P = "\<lambda>r. u_kakao_id r = Some kid"
  let ?upd = "\<lambda>r. if u_kakao_id r = Some kid then kakao_row nick' img em' r else r"
  have "filter ?P (map ?upd (users db)) = map ?upd (filter (?P \<circ> ?upd) (users db))"
    by (simp only: filter_map)
  moreover have "?P \<circ> ?upd = ?P"
    by (auto simp: fun_eq_iff kakao_row_def)
  moreover have "\<forall>x\<in>set (r # rest). ?P x"
  proof -
    have "set (r # rest) = set (filter ?P (users db))" by (simp only: assms(3))
    then show ?thesis by simp
  qed
  ultimately have "filter ?P (map ?upd (users db)) = kakao_row nick' img em' r # map (kakao_row nick' img em') rest"
    using assms(3) by (simp cong: map_cong)
  then show ?thesis
    using assms(1,2) by (simp add: update_kakao_def Let_def)
qed

lemma kakao_callback_existing:
  assumes "truthy (code req)" "truthy (access_token td)"
    and "varchar e 50 (or_else (properties_nickname ku) KAKAO_DEFAULT_NICKNAME) = Some nick'"
    and "coerce e 100 (or_null (kakao_account_email ku)) = Some em'"
    and "filter (\<lambda>r. u_kakao_id r = Some (String (kakao_user_id ku))) (users db) = r # rest"
  shows "kakao_callback e now req (Resolved td) (Resolved ku) db
           = (Redirect (js ''/#/kakao-callback?token=''
                          @ generateToken e now (kakao_row nick' (or_null (properties_profile_image ku)) em' r)),
              db\<lparr>users := map (\<lambda>r. if u_kakao_id r = Some (String (kakao_user_id ku))
                                     then kakao_row nick' (or_null (properties_profile_image ku)) em' r
                                     else r) (users db)\<rparr>)"
proof -
  have "r \<in> set (users db) \<and> u_kakao_id r = Some (String (kakao_user_id ku))"
    using Cons_eq_filterD [OF assms(5) [symmetric]] by auto
  then have ex: "list_ex (\<lambda>r. u_kakao_id r = Some (String (kakao_user_id ku))) (users db)"
    by (auto simp: list_ex_iff)
  show ?thesis
    by (simp add: kakao_callback_profile [OF assms(1,2)] Let_def ex
        update_kakao_found [OF assms(3,4,5)])
qed

lemma kakao_callback_new:
  assumes "truthy (code req)" "truthy (access_token td)"
    and "varchar e 50 (or_else (properties_nickname ku) KAKAO_DEFAULT_NICKNAME) = Some nick'"
    and "coerce e 100 (or_null (kakao_account_email ku)) = Some em'"
    and "varchar e 100 (String (kakao_user_id ku)) = Some kid'"
    and "\<forall>r\<in>set (users db). u_kakao_id r \<noteq> Some (String (kakao_user_id ku)) \<and> u_kakao_id r \<noteq> Some kid'"
  shows "kakao_callback e now req (Resolved td) (Resolved ku) db
           = (Redirect (js ''/#/kakao-callback?token='' @ generateToken e now
                \<lparr>u_id = last_id db + 1, u_username = None, u_password = None, u_nickname = nick',
                 u_email = em', u_phone = None, u_profile_image = or_null (properties_profile_image ku),
                 u_kakao_id = Some kid', u_provider = js ''kakao'', u_created_at = now\<rparr>),
              db\<lparr>last_id := last_id db + 1,
                 users := users db @
                   [\<lparr>u_id = last_id db + 1, u_username = None, u_password = None, u_nickname = nick',
                     u_email = em', u_phone = None, u_profile_image = or_null (properties_profile_image ku),
                     u_kakao_id = Some kid', u_provider = js ''kakao'', u_created_at = now\<rparr>]\<rparr>)"
proof -
  have ex: "\<not> list_ex (\<lambda>r. u_kakao_id r = Some (String (kakao_user_id ku))) (users db)"
    using assms(6) by (auto simp: list_ex_iff)
  have fresh: "Some kid' \<notin> set (map u_kakao_id (users db))"
    using assms(6) by auto
  show ?thesis
    using fresh
    by (simp add: kakao_callback_profile [OF assms(1,2)] Let_def ex insert_kakao_def assms(3,4,5))
qed


text \<open>
  Claim C8. Let the callback have its code, the token exchange grant an access token
  and the profile be fetched, and let the store accept the values. If a user with the
  provider's identifier is stored, the callback rewrites that row and adds none: the
  nickname becomes the provider's (the fallback when it supplies none), the profile
  image and the email become the provider's when it supplies them and stay otherwise,
  and the id and the provider tag of every row stay; the token is issued for the
  rewritten row. If no user has the identifier, the callback appends a row with the
  next id, provider \<open>kakao\<close>, no username and no password hash. The nickname is the
  fallback whenever the provider supplies none.
\<close>

theorem federated_login_updates_or_creates:
  "(truthy (code req) \<and> truthy (access_token td)
      \<and> varchar e 50 (or_else (properties_nickname ku) KAKAO_DEFAULT_NICKNAME) = Some nick'
      \<and> coerce e 100 (or_null (kakao_account_email ku)) = Some em'
      \<and> filter (\<lambda>r. u_kakao_id r = Some (String (kakao_user_id ku))) (users db) = r # rest
    \<longrightarrow> kakao_callback e now req (Resolved td) (Resolved ku) db
          = (Redirect (js ''/#/kakao-callback?token=''
                         @ generateToken e now (kakao_row nick' (or_null (properties_profile_image ku)) em' r)),
             db\<lparr>users := map (\<lambda>r. if u_kakao_id r = Some (String (kakao_user_id ku))
                                    then kakao_row nick' (or_null (properties_profile_image ku)) em' r
                                    else r) (users db)\<rparr>)
        \<and> u_id (kakao_row nick' (or_null (properties_profile_image ku)) em' r) = u_id r
        \<and> u_provider (kakao_row nick' (or_null (properties_profile_image ku)) em' r) = u_provider r
        \<and> u_nickname (kakao_row nick' (or_null (properties_profile_image ku)) em' r) = nick'
        \<and> u_profile_image (kakao_row nick' (or_null (properties_profile_image ku)) em' r)
            = (case or_null (properties_profile_image ku) of None \<Rightarrow> u_profile_image r | Some i \<Rightarrow> Some i)
        \<and> u_email (kakao_row nick' (or_null (properties_profile_image ku)) em' r)
            = (case em' of None \<Rightarrow> u_email r | Some m \<Rightarrow> Some m)
        \<and> map u_id (users (snd (kakao_callback e now req (Resolved td) (Resolved ku) db))) = map u_id (users db)
        \<and> map u_provider (users (snd (kakao_callback e now req (Resolved td) (Resolved ku) db)))
            = map u_provider (users db))
   \<and> (truthy (code req) \<and> truthy (access_token td)
      \<and> varchar e 50 (or_else (properties_nickname ku) KAKAO_DEFAULT_NICKNAME) = Some nick'
      \<and> coerce e 100 (or_null (kakao_account_email ku)) = Some em'
      \<and> varchar e 100 (String (kakao_user_id ku)) = Some kid'
      \<and> (\<forall>r\<in>set (users db). u_kakao_id r \<noteq> Some (String (kakao_user_id ku)) \<and> u_kakao_id r \<noteq> Some kid')
    \<longrightarrow> kakao_callback e now req (Resolved td) (Resolved ku) db
          = (Redirect (js ''/#/kakao-callback?token='' @ generateToken e now
               \<lparr>u_id = last_id db + 1, u_username = None, u_password = None, u_nickname = nick',
                u_email = em', u_phone = None, u_profile_image = or_null (properties_profile_image ku),
                u_kakao_id = Some kid', u_provider = js ''kakao'', u_created_at = now\<rparr>),
             db\<lparr>last_id := last_id db + 1,
                users := users db @
                  [\<lparr>u_id = last_id db + 1, u_username = None, u_password = None, u_nickname = nick',
                    u_email = em', u_phone = None, u_profile_image = or_null (properties_profile_image ku),
                    u_kakao_id = Some kid', u_provider = js ''kakao'', u_created_at = now\<rparr>]\<rparr>))
   \<and> (\<not> truthy (properties_nickname ku)
        \<longrightarrow> or_else (properties_nickname ku) KAKAO_DEFAULT_NICKNAME = KAKAO_DEFAULT_NICKNAME)"
proof (intro conjI impI)
  assume a: "truthy (code req) \<and> truthy (access_token td)
      \<and> varchar e 50 (or_else (properties_nickname ku) KAKAO_DEFAULT_NICKNAME) = Some nick'
      \<and> coerce e 100 (or_null (kakao_account_email ku)) = Some em'
      \<and> filter (\<lambda>r. u_kakao_id r = Some (String (kakao_user_id ku))) (users db) = r # rest"
  then show c: "kakao_callback e now req (Resolved td) (Resolved ku) db
          = (Redirect (js ''/#/kakao-callback?token=''
                         @ generateToken e now (kakao_row nick' (or_null (properties_profile_image ku)) em' r)),
             db\<lparr>users := map (\<lambda>r. if u_kakao_id r = Some (String (kakao_user_id ku))
                                    then kakao_row nick' (or_null (properties_profile_image ku)) em' r
                                    else r) (users db)\<rparr>)"
    using kakao_callback_existing by blast
  show "u_id (kakao_row nick' (or_null (properties_profile_image ku)) em' r) = u_id r"
    and "u_provider (kakao_row nick' (or_null (properties_profile_image ku)) em' r) = u_provider r"
    and "u_nickname (kakao_row nick' (or_null (properties_profile_image ku)) em' r) = nick'"
    by (simp_all add: kakao_row_def)
  show "u_profile_image (kakao_row nick' (or_null (properties_profile_image ku)) em' r)
            = (case or_null (properties_profile_image ku) of None \<Rightarrow> u_profile_image r | Some i \<Rightarrow> Some i)"
    by (simp add: kakao_row_def split: option.splits)
  show "u_email (kakao_row nick' (or_null (properties_profile_image ku)) em' r)
            = (case em' of None \<Rightarrow> u_email r | Some m \<Rightarrow> Some m)"
    by (simp add: kakao_row_def split: option.splits)
  show "map u_id (users (snd (kakao_callback e now req (Resolved td) (Resolved ku) db))) = map u_id (users db)"
    by (simp add: c o_def kakao_row_def cong: if_cong)
  show "map u_provider (users (snd (kakao_callback e now req (Resolved td) (Resolved ku) db)))
            = map u_provider (users db)"
    by (simp add: c o_def kakao_row_def cong: if_cong)
next
  assume "truthy (code req) \<and> truthy (access_token td)
      \<and> varchar e 50 (or_else (properties_nickname ku) KAKAO_DEFAULT_NICKNAME) = Some nick'
      \<and> coerce e 100 (or_null (kakao_account_email ku)) = Some em'
      \<and> varchar e 100 (String (kakao_user_id ku)) = Some kid'
      \<and> (\<forall>r\<in>set (users db). u_kakao_id r \<noteq> Some (String (kakao_user_id ku)) \<and> u_kakao_id r \<noteq> Some kid')"
  then show "kakao_callback e now req (Resolved td) (Resolved ku) db
          = (Redirect (js ''/#/kakao-callback?token='' @ generateToken e now
               \<lparr>u_id = last_id db + 1, u_username = None, u_password = None, u_nickname = nick',
                u_email = em', u_phone = None, u_profile_image = or_null (properties_profile_image ku),
                u_kakao_id = Some kid', u_provider = js ''kakao'', u_created_at = now\<rparr>),
             db\<lparr>last_id := last_id db + 1,
                users := users db @
                  [\<lparr>u_id = last_id db + 1, u_username = None, u_password = None, u_nickname = nick',
                    u_email = em', u_phone = None, u_profile_image = or_null (properties_profile_image ku),
                    u_kakao_id = Some kid', u_provider = js ''kakao'', u_created_at = now\<rparr>]\<rparr>)"
    using kakao_callback_new by blast
next
  assume "\<not> truthy (properties_nickname ku)"
  then show "or_else (properties_nickname ku) KAKAO_DEFAULT_NICKNAME = KAKAO_DEFAULT_NICKNAME"
    by (cases "properties_nickname ku") auto
qed


lemma digits_4242: "digits 4242 = js ''4242''"
  by (simp add: digits.simps js_def)

theorem federated_login_updates_or_creates_witness:
  "kakao_callback example_env 3000 kakao_request (Resolved kakao_granted) (Resolved dana)
      \<lparr>users = [alice], last_id = 1\<rparr>
     = (Redirect (js ''/#/kakao-callback?token=shop.jwt''), \<lparr>users = [alice, dana_row], last_id = 2\<rparr>)
   \<and> kakao_callback example_env 4000 kakao_request (Resolved kakao_granted)
        (Resolved (dana\<lparr>properties_nickname := None, kakao_account_email := Some (js ''dana@example.com'')\<rparr>))
        \<lparr>users = [alice, dana_row], last_id = 2\<rparr>
     = (Redirect (js ''/#/kakao-callback?token=shop.jwt''),
        \<lparr>users = [alice, dana_row\<lparr>u_nickname := KAKAO_DEFAULT_NICKNAME,
                                    u_email := Some (js ''dana@example.com'')\<rparr>],
         last_id = 2\<rparr>)"
proof -
  let ?db1 = "\<lparr>users = [alice], last_id = 1\<rparr> :: ecommerce_01_user db"
  let ?db2 = "\<lparr>users = [alice, dana_row], last_id = 2\<rparr> :: ecommerce_01_user db"
  let ?dana2 = "dana\<lparr>properties_nickname := None, kakao_account_email := Some (js ''dana@example.com'')\<rparr>"
  have req: "truthy (code kakao_request) \<and> truthy (access_token kakao_granted)"
    by (simp add: kakao_request_def kakao_granted_def js_def)
  have id: "String (kakao_user_id dana) = js ''4242''" "String (kakao_user_id ?dana2) = js ''4242''"
    by (simp_all add: dana_def digits_4242)
  have first: "varchar example_env 50 (or_else (properties_nickname dana) KAKAO_DEFAULT_NICKNAME) = Some (js ''Dana'')
      \<and> coerce example_env 100 (or_null (kakao_account_email dana)) = Some None
      \<and> varchar example_env 100 (String (kakao_user_id dana)) = Some (js ''4242'')
      \<and> (\<forall>r\<in>set (users ?db1). u_kakao_id r \<noteq> Some (String (kakao_user_id dana)) \<and> u_kakao_id r \<noteq> Some (js ''4242''))"
    by (simp add: id) (simp add: dana_def example_env_def alice_def js_def)
  have second: "varchar example_env 50 (or_else (properties_nickname ?dana2) KAKAO_DEFAULT_NICKNAME)
                  = Some KAKAO_DEFAULT_NICKNAME
      \<and> coerce example_env 100 (or_null (kakao_account_email ?dana2)) = Some (Some (js ''dana@example.com''))
      \<and> filter (\<lambda>r. u_kakao_id r = Some (String (kakao_user_id ?dana2))) (users ?db2) = dana_row # []"
    by (simp add: id) (simp add: dana_def dana_row_def example_env_def alice_def KAKAO_DEFAULT_NICKNAME_def js_def)
  have 1: "kakao_callback example_env 3000 kakao_request (Resolved kakao_granted) (Resolved dana) ?db1
          = (Redirect (js ''/#/kakao-callback?token='' @ generateToken example_env 3000
               \<lparr>u_id = last_id ?db1 + 1, u_username = None, u_password = None, u_nickname = js ''Dana'',
                u_email = None, u_phone = None, u_profile_image = or_null (properties_profile_image dana),
                u_kakao_id = Some (js ''4242''), u_provider = js ''kakao'', u_created_at = 3000\<rparr>),
             ?db1\<lparr>last_id := last_id ?db1 + 1,
                users := users ?db1 @
                  [\<lparr>u_id = last_id ?db1 + 1, u_username = None, u_password = None, u_nickname = js ''Dana'',
                    u_email = None, u_phone = None, u_profile_image = or_null (properties_profile_image dana),
                    u_kakao_id = Some (js ''4242''), u_provider = js ''kakao'', u_created_at = 3000\<rparr>]\<rparr>)"
    using federated_login_updates_or_creates [where e = example_env and req = kakao_request
        and td = kakao_granted and ku = dana and db = ?db1 and nick' = "js ''Dana''" and em' = None
        and kid' = "js ''4242''" and now = 3000] req first
    by blast
  have 2: "kakao_callback example_env 4000 kakao_request (Resolved kakao_granted) (Resolved ?dana2) ?db2
          = (Redirect (js ''/#/kakao-callback?token=''
                         @ generateToken example_env 4000 (kakao_row KAKAO_DEFAULT_NICKNAME (or_null (properties_profile_image ?dana2)) (Some (js ''dana@example.com'')) dana_row)),
             ?db2\<lparr>users := map (\<lambda>r. if u_kakao_id r = Some (String (kakao_user_id ?dana2))
                                    then kakao_row KAKAO_DEFAULT_NICKNAME (or_null (properties_profile_image ?dana2)) (Some (js ''dana@example.com'')) r
                                    else r) (users ?db2)\<rparr>)"
    using federated_login_updates_or_creates [where e = example_env and req = kakao_request
        and td = kakao_granted and ku = ?dana2 and db = ?db2 and nick' = KAKAO_DEFAULT_NICKNAME
        and em' = "Some (js ''dana@example.com'')" and r = dana_row and rest = "[]" and now = 4000]
      req second
    by blast
  have tok: "generateToken example_env t u = js ''shop.jwt''" for t u
    by (simp add: generateToken_def jwt_sign_def jwt_issue_def example_env_def ecommerce_secret_def
        JWT_SECRET_def js_def)
  have created: "kakao_callback example_env 3000 kakao_request (Resolved kakao_granted) (Resolved dana) ?db1
     = (Redirect (js ''/#/kakao-callback?token=shop.jwt''), ?db2)"
    by (simp add: 1 tok) (simp add: dana_def dana_row_def js_def)
  have updated: "kakao_callback example_env 4000 kakao_request (Resolved kakao_granted) (Resolved ?dana2) ?db2
     = (Redirect (js ''/#/kakao-callback?token=shop.jwt''),
        \<lparr>users = [alice, dana_row\<lparr>u_nickname := KAKAO_DEFAULT_NICKNAME,
                                    u_email := Some (js ''dana@example.com'')\<rparr>],
         last_id = 2\<rparr>)"
    by (simp add: 2 tok id) (simp add: dana_def dana_row_def alice_def kakao_row_def js_def)
  from created updated show ?thesis by (rule conjI)
qed

section \<open>Failures of the Kakao callback\<close>

text \<open>
  The callback always answers with a redirect, never with a JSON body. A missing code,
  a rejected or refused token exchange and a rejected profile request lead to the error
  route \<open>/#/login?error=...\<close>, and the store is not changed.
\<close>

lemma kakao_callback_failures:
  "(\<not> truthy (code req)
      \<longrightarrow> kakao_callback e now req tokenRes userRes db
            = (Redirect (js ''/#/login?error='' @ KAKAO_AUTH_FAILED), db))
   \<and> (truthy (code req) \<longrightarrow> kakao_callback e now req Rejected userRes db = (error_redirect, db))
   \<and> (truthy (code req) \<and> \<not> truthy (access_token td)
      \<longrightarrow> (\<exists>m. kakao_callback e now req (Resolved td) userRes db
                  = (Redirect (js ''/#/login?error='' @ m), db)))
   \<and> (truthy (code req) \<and> truthy (access_token td)
      \<longrightarrow> kakao_callback e now req (Resolved td) Rejected db = (error_redirect, db))
   \<and> (\<exists>url. fst (kakao_callback e now req tokenRes userRes db) = Redirect url)"
proof (intro conjI impI)
  show "\<exists>url. fst (kakao_callback e now req tokenRes userRes db) = Redirect url"
    by (simp add: kakao_callback_def error_redirect_def Let_def
        split: fetched.splits option.splits sum.splits list.splits prod.splits)
qed (auto simp: kakao_callback_def error_redirect_def split: option.splits)

text \<open>
  Claim C9 asks that every failure of the callback, a profile-fetch failure among them,
  lead to the error route. The handler tests the answer of the token exchange for an
  access token, but it does not test the answer of the profile request. When the
  provider refuses that request with an error body, \<open>String(kakaoUser.id)\<close> is the text
  \<open>undefined\<close>: the handler stores a user with that identifier and the fallback nickname,
  issues a token for that user, and redirects to the success route.
\<close>

theorem kakao_refusal_is_not_detected:
  "kakao_callback example_env 3000 kakao_request (Resolved kakao_granted) (Resolved kakao_refusal)
      \<lparr>users = [alice], last_id = 1\<rparr>
   = (Redirect (js ''/#/kakao-callback?token=shop.jwt''),
      \<lparr>users = [alice,
                \<lparr>u_id = 2, u_username = None, u_password = None, u_nickname = KAKAO_DEFAULT_NICKNAME,
                 u_email = None, u_phone = None, u_profile_image = None,
                 u_kakao_id = Some (js ''undefined''), u_provider = js ''kakao'', u_created_at = 3000\<rparr>],
       last_id = 2\<rparr>)"
  by (simp add: kakao_callback_def kakao_request_def kakao_granted_def kakao_refusal_def
      empty_request_def Let_def insert_kakao_def alice_def example_env_def generateToken_def
      jwt_sign_def jwt_issue_def ecommerce_secret_def JWT_SECRET_def KAKAO_DEFAULT_NICKNAME_def js_def)

section \<open>A registered username stays taken\<close>

lemma insert_local_cases:
  "insert_local e now u h n em ph db = (Inl OtherError, db)
   \<or> (\<exists>u'. varchar e 50 u = Some u' \<and> Some u' \<in> set (map u_username (users db))
        \<and> insert_local e now u h n em ph db = (Inl UniqueViolation, db\<lparr>last_id := last_id db + 1\<rparr>))
   \<or> (\<exists>row. varchar e 50 u = u_username row
        \<and> insert_local e now u h n em ph db
            = (Inr row, db\<lparr>last_id := last_id db + 1, users := users db @ [row]\<rparr>))"
  by (auto simp: insert_local_def Let_def split: option.splits)

lemma insert_local_taken:
  assumes "varchar e 50 u = Some u'" "Some u' \<in> set (map u_username (users db))"
    and "varchar e 255 h \<noteq> None" "varchar e 50 n \<noteq> None" "coerce e 100 em \<noteq> None" "coerce e 20 ph \<noteq> None"
  shows "insert_local e now u h n em ph db = (Inl UniqueViolation, db\<lparr>last_id := last_id db + 1\<rparr>)"
  using assms by (auto simp: insert_local_def Let_def split: option.splits)

lemma insert_local_taken_fails:
  assumes "varchar e 50 u = Some u'" "Some u' \<in> set (map u_username (users db))"
  shows "insert_local e now u h n em ph db = (Inl OtherError, db)
         \<or> insert_local e now u h n em ph db = (Inl UniqueViolation, db\<lparr>last_id := last_id db + 1\<rparr>)"
  using assms by (auto simp: insert_local_def Let_def split: option.splits)

lemma register_success_stores:
  assumes "fst (register e now r db) = success v" "body r = Some ms"
    and "prepareValue e (body_member ''username'' ms) = Some u"
  shows "\<exists>u'. varchar e 50 u = Some u'
           \<and> Some u' \<in> set (map u_username (users (snd (register e now r db))))"
proof -
  from register_cases [of e now r db] assms(1)
  obtain ms0 u0 p n where f: "body r = Some ms0" "prepareValue e (body_member ''username'' ms0) = Some u0"
    and reg: "register e now r db =
             (case insert_local e now u0 (bcrypt_hash e p) n
                     (prepareValue e (value_or_null (body_member ''email'' ms0)))
                     (prepareValue e (value_or_null (body_member ''phone'' ms0))) db of
                (Inr row, db') \<Rightarrow>
                  (success (JObj [(''token'', JStr (generateToken e now row)),
                                  (''user'', sanitizeUser row)]), db')
              | (Inl UniqueViolation, db') \<Rightarrow> (failure 409 MSG_USERNAME_EXISTS, db')
              | (Inl OtherError, db') \<Rightarrow> (failure 500 MSG_SERVER_ERROR, db'))"
    by (auto simp: success_not_failure [symmetric])
  from f assms(2,3) have u0: "u0 = u" "ms0 = ms" by simp_all
  let ?ins = "insert_local e now u (bcrypt_hash e p) n
                     (prepareValue e (value_or_null (body_member ''email'' ms)))
                     (prepareValue e (value_or_null (body_member ''phone'' ms))) db"
  from insert_local_cases [of e now u "bcrypt_hash e p" n
      "prepareValue e (value_or_null (body_member ''email'' ms))"
      "prepareValue e (value_or_null (body_member ''phone'' ms))" db]
  consider "?ins = (Inl OtherError, db)"
    | "\<exists>db'. ?ins = (Inl UniqueViolation, db')"
    | row where "varchar e 50 u = u_username row"
        "?ins = (Inr row, db\<lparr>last_id := last_id db + 1, users := users db @ [row]\<rparr>)"
    by blast
  then show ?thesis
  proof cases
    case 1
    with reg u0 assms(1) show ?thesis by (simp add: success_not_failure [symmetric])
  next
    case 2
    with reg u0 assms(1) show ?thesis by (auto simp: success_not_failure [symmetric])
  next
    case 3
    from 3(2) have "u_username row \<noteq> None"
      by (auto simp: insert_local_def Let_def split: option.splits if_splits)
    then obtain u' where "u_username row = Some u'" by auto
    with 3 reg u0 show ?thesis by simp
  qed
qed

lemma register_keeps_usernames:
  "set (map u_username (users db)) \<subseteq> set (map u_username (users (snd (register e now r db))))"
proof -
  consider "snd (register e now r db) = db"
    | u p n em ph where "register e now r db =
             (case insert_local e now u (bcrypt_hash e p) n em ph db of
                (Inr row, db') \<Rightarrow>
                  (success (JObj [(''token'', JStr (generateToken e now row)),
                                  (''user'', sanitizeUser row)]), db')
              | (Inl UniqueViolation, db') \<Rightarrow> (failure 409 MSG_USERNAME_EXISTS, db')
              | (Inl OtherError, db') \<Rightarrow> (failure 500 MSG_SERVER_ERROR, db'))"
    using register_cases [of e now r db] by (elim disjE exE conjE) simp_all
  then show ?thesis
  proof cases
    case 1
    then show ?thesis by simp
  next
    case 2
    then have "snd (register e now r db) = snd (insert_local e now u (bcrypt_hash e p) n em ph db)"
      by (simp only: snd_case_insert)
    then show ?thesis
      using insert_local_cases [of e now u "bcrypt_hash e p" n em ph db]
      by auto
  qed
qed

lemma login_keeps_store: "snd (login e now r db) = db"
  by (simp add: login_def Let_def split: option.splits list.splits json.splits)

lemma me_keeps_store: "snd (me r db) = db"
  by (simp add: me_def split: option.splits list.splits)

lemma protected_store:
  "snd (protected secret e now h r db) = db \<or> (\<exists>r'. snd (protected secret e now h r db) = snd (h r' db))"
  by (auto simp: protected_def split: outcome.splits)

lemma kakao_callback_store:
  "snd (kakao_callback e now r tokenRes userRes db) = db
   \<or> (\<exists>nick img em kid rows. update_kakao e nick img em kid db
          = Inr (rows, snd (kakao_callback e now r tokenRes userRes db)))
   \<or> (\<exists>nick em img kid. snd (kakao_callback e now r tokenRes userRes db)
          = snd (insert_kakao e now nick em img kid db))"
proof (cases "truthy (code r)")
  case False
  then show ?thesis using kakao_callback_failures [of r e now tokenRes userRes db] by simp
next
  case code: True
  show ?thesis
  proof (cases tokenRes)
    case Rejected
    then show ?thesis using code kakao_callback_failures [of r e now tokenRes userRes db] by simp
  next
    case (Resolved td)
    show ?thesis
    proof (cases "truthy (access_token td)")
      case False
      then have "\<exists>m. kakao_callback e now r (Resolved td) userRes db = (Redirect (js ''/#/login?error='' @ m), db)"
        using code kakao_callback_failures [of r e now tokenRes userRes db td] by blast
      then show ?thesis using Resolved by auto
    next
      case token: True
      show ?thesis
      proof (cases userRes)
        case Rejected
        then show ?thesis
          using code token Resolved kakao_callback_failures [of r e now tokenRes userRes db td] by simp
      next
        case ku: (Resolved ku)
        let ?kid = "String (kakao_user_id ku)"
        let ?nick = "or_else (properties_nickname ku) KAKAO_DEFAULT_NICKNAME"
        let ?em = "or_null (kakao_account_email ku)"
        let ?img = "or_null (properties_profile_image ku)"
        note eq = kakao_callback_profile [OF code token, of e now ku db]
        show ?thesis
        proof (cases "list_ex (\<lambda>r. u_kakao_id r = Some ?kid) (users db)")
          case True
          show ?thesis
          proof (cases "update_kakao e ?nick ?img ?em ?kid db")
            case (Inl err)
            then show ?thesis using True eq Resolved ku by (simp add: Let_def)
          next
            case (Inr res)
            obtain rows db' where res: "res = (rows, db')" by (cases res)
            have "snd (kakao_callback e now r tokenRes userRes db) = db'"
              using True eq Resolved ku Inr res by (cases rows) (simp_all add: Let_def)
            then show ?thesis using Inr res by blast
          qed
        next
          case False
          have "snd (kakao_callback e now r tokenRes userRes db)
                  = snd (insert_kakao e now ?nick ?em ?img ?kid db)"
            using False eq Resolved ku by (simp add: Let_def split: prod.splits sum.splits)
          then show ?thesis by blast
        qed
      qed
    qed
  qed
qed

lemma update_kakao_keeps_usernames:
  assumes "update_kakao e nick img em kid db = Inr (rows, db')"
  shows "map u_username (users db') = map u_username (users db)"
proof -
  have "map u_username (map (\<lambda>r. if u_kakao_id r = Some kid then kakao_row nick' img em' r else r) (users db))
               = map u_username (users db)" for nick' em'
    by (simp add: kakao_row_def o_def cong: if_cong)
  then show ?thesis
    using assms by (auto simp: update_kakao_def Let_def split: option.splits)
qed

lemma insert_kakao_keeps_usernames:
  "set (map u_username (users db))
     \<subseteq> set (map u_username (users (snd (insert_kakao e now nick em img kid db))))"
  by (auto simp: insert_kakao_def Let_def split: option.splits)

lemma kakao_callback_keeps_usernames:
  "set (map u_username (users db))
     \<subseteq> set (map u_username (users (snd (kakao_callback e now r tokenRes userRes db))))"
  using kakao_callback_store [of e now r tokenRes userRes db]
    update_kakao_keeps_usernames [of e _ _ _ _ db _ "snd (kakao_callback e now r tokenRes userRes db)"]
    insert_kakao_keeps_usernames [of db e now]
  by (elim disjE exE) simp_all


lemma serve_keeps_usernames:
  "set (map u_username (users db)) \<subseteq> set (map u_username (users (snd (serve e now c db))))"
proof (cases c)
  case (Register r)
  then show ?thesis using register_keeps_usernames by simp
next
  case (Login r)
  then show ?thesis by (simp add: login_keeps_store)
next
  case (Me r)
  then show ?thesis
    using protected_store [of "ecommerce_secret e" e now me r db] by (auto simp: me_keeps_store)
next
  case (Profile r)
  have "u_username ` set (users (snd (profile e r' db))) = u_username ` set (users db)" for r'
  proof -
    have "map u_username (users (snd (profile e r' db))) = map u_username (users db)"
      using profile_frame [of e r' db] by blast
    then have "set (map u_username (users (snd (profile e r' db)))) = set (map u_username (users db))"
      by (rule arg_cong)
    then show ?thesis by simp
  qed
  then show ?thesis
    using Profile protected_store [of "ecommerce_secret e" e now "profile e" r db] by auto
next
  case (KakaoCallback r tokenRes userRes)
  then show ?thesis using kakao_callback_keeps_usernames by simp
qed

lemma serve_all_keeps_usernames:
  "set (map u_username (users db)) \<subseteq> set (map u_username (users (serve_all e cs db)))"
proof (induction cs arbitrary: db)
  case Nil
  then show ?case by simp
next
  case (Cons c cs)
  obtain now call where c: "c = (now, call)" by (cases c)
  have "set (map u_username (users db)) \<subseteq> set (map u_username (users (snd (serve e now call db))))"
    by (rule serve_keeps_usernames)
  also have "\<dots> \<subseteq> set (map u_username (users (serve_all e cs (snd (serve e now call db)))))"
    by (rule Cons.IH)
  finally show ?case by (simp add: c)
qed

lemma register_taken:
  assumes "varchar e 50 u = Some u'" "Some u' \<in> set (map u_username (users db))"
    and "body r = Some ms" "prepareValue e (body_member ''username'' ms) = Some u"
  shows "users (snd (register e now r db)) = users db"
    and "fst (register e now r db) = failure 400 MSG_FIELDS_REQUIRED
         \<or> fst (register e now r db) = failure 400 MSG_PASSWORD_TOO_SHORT
         \<or> fst (register e now r db) = failure 409 MSG_USERNAME_EXISTS
         \<or> fst (register e now r db) = failure 500 MSG_SERVER_ERROR"
    and "truthy_value (body_member ''username'' ms)
         \<and> truthy_value (body_member ''nickname'' ms) \<and> prepareValue e (body_member ''nickname'' ms) = Some n
         \<and> body_member ''password'' ms = Some (JStr p) \<and> 6 \<le> length p
         \<and> varchar e 255 (bcrypt_hash e p) \<noteq> None \<and> varchar e 50 n \<noteq> None
         \<and> coerce e 100 (prepareValue e (value_or_null (body_member ''email'' ms))) \<noteq> None
         \<and> coerce e 20 (prepareValue e (value_or_null (body_member ''phone'' ms))) \<noteq> None
         \<longrightarrow> register e now r db = (failure 409 MSG_USERNAME_EXISTS, db\<lparr>last_id := last_id db + 1\<rparr>)"
proof -
  consider "register e now r db = (failure 500 MSG_SERVER_ERROR, db)"
    | "register e now r db = (failure 400 MSG_FIELDS_REQUIRED, db)"
    | "register e now r db = (failure 400 MSG_PASSWORD_TOO_SHORT, db)"
    | p0 n0 em ph where "register e now r db =
             (case insert_local e now u (bcrypt_hash e p0) n0 em ph db of
                (Inr row, db') \<Rightarrow>
                  (success (JObj [(''token'', JStr (generateToken e now row)),
                                  (''user'', sanitizeUser row)]), db')
              | (Inl UniqueViolation, db') \<Rightarrow> (failure 409 MSG_USERNAME_EXISTS, db')
              | (Inl OtherError, db') \<Rightarrow> (failure 500 MSG_SERVER_ERROR, db'))"
    using register_cases [of e now r db] assms(3,4) by (elim disjE exE conjE) simp_all
  then have "users (snd (register e now r db)) = users db
         \<and> (fst (register e now r db) = failure 400 MSG_FIELDS_REQUIRED
         \<or> fst (register e now r db) = failure 400 MSG_PASSWORD_TOO_SHORT
         \<or> fst (register e now r db) = failure 409 MSG_USERNAME_EXISTS
         \<or> fst (register e now r db) = failure 500 MSG_SERVER_ERROR)"
  proof cases
    case 1
    then show ?thesis by simp
  next
    case 2
    then show ?thesis by simp
  next
    case 3
    then show ?thesis by simp
  next
    case 4
    then show ?thesis
      using insert_local_taken_fails [OF assms(1,2), of now "bcrypt_hash e p0" n0 em ph]
      by auto
  qed
  then show "users (snd (register e now r db)) = users db"
    and "fst (register e now r db) = failure 400 MSG_FIELDS_REQUIRED
         \<or> fst (register e now r db) = failure 400 MSG_PASSWORD_TOO_SHORT
         \<or> fst (register e now r db) = failure 409 MSG_USERNAME_EXISTS
         \<or> fst (register e now r db) = failure 500 MSG_SERVER_ERROR"
    by blast+
  show "truthy_value (body_member ''username'' ms)
         \<and> truthy_value (body_member ''nickname'' ms) \<and> prepareValue e (body_member ''nickname'' ms) = Some n
         \<and> body_member ''password'' ms = Some (JStr p) \<and> 6 \<le> length p
         \<and> varchar e 255 (bcrypt_hash e p) \<noteq> None \<and> varchar e 50 n \<noteq> None
         \<and> coerce e 100 (prepareValue e (value_or_null (body_member ''email'' ms))) \<noteq> None
         \<and> coerce e 20 (prepareValue e (value_or_null (body_member ''phone'' ms))) \<noteq> None
         \<longrightarrow> register e now r db = (failure 409 MSG_USERNAME_EXISTS, db\<lparr>last_id := last_id db + 1\<rparr>)"
  proof
    assume v: "truthy_value (body_member ''username'' ms)
         \<and> truthy_value (body_member ''nickname'' ms) \<and> prepareValue e (body_member ''nickname'' ms) = Some n
         \<and> body_member ''password'' ms = Some (JStr p) \<and> 6 \<le> length p
         \<and> varchar e 255 (bcrypt_hash e p) \<noteq> None \<and> varchar e 50 n \<noteq> None
         \<and> coerce e 100 (prepareValue e (value_or_null (body_member ''email'' ms))) \<noteq> None
         \<and> coerce e 20 (prepareValue e (value_or_null (body_member ''phone'' ms))) \<noteq> None"
    then have ins: "insert_local e now u (bcrypt_hash e p) n
                      (prepareValue e (value_or_null (body_member ''email'' ms)))
                      (prepareValue e (value_or_null (body_member ''phone'' ms))) db
                      = (Inl UniqueViolation, db\<lparr>last_id := last_id db + 1\<rparr>)"
      using insert_local_taken [OF assms(1,2)] by blast
    from v have f: "truthy_value (body_member ''username'' ms)"
      "truthy_value (body_member ''nickname'' ms)" "prepareValue e (body_member ''nickname'' ms) = Some n"
      "body_member ''password'' ms = Some (JStr p)" "6 \<le> length p"
      by blast+
    show "register e now r db = (failure 409 MSG_USERNAME_EXISTS, db\<lparr>last_id := last_id db + 1\<rparr>)"
      by (simp add: register_passes [OF assms(3) f(1) assms(4) f(2-5)] ins)
  qed
qed

lemma dangun_insert_cases:
  "dangun_insert e now u h n db = (Inl OtherError, db)
   \<or> (\<exists>u'. varchar e 50 u = Some u' \<and> u' \<in> set (map d_username (users db))
        \<and> dangun_insert e now u h n db = (Inl UniqueViolation, db\<lparr>last_id := last_id db + 1\<rparr>))
   \<or> (\<exists>row. varchar e 50 u = Some (d_username row)
        \<and> dangun_insert e now u h n db
            = (Inr row, db\<lparr>last_id := last_id db + 1, users := users db @ [row]\<rparr>))"
  by (auto simp: dangun_insert_def Let_def split: option.splits)

lemma dangun_insert_taken:
  assumes "varchar e 50 u = Some u'" "u' \<in> set (map d_username (users db))"
    and "varchar e 255 h \<noteq> None" "varchar e 50 n \<noteq> None"
  shows "dangun_insert e now u h n db = (Inl UniqueViolation, db\<lparr>last_id := last_id db + 1\<rparr>)"
  using assms by (auto simp: dangun_insert_def Let_def split: option.splits)

lemma dangun_insert_taken_fails:
  assumes "varchar e 50 u = Some u'" "u' \<in> set (map d_username (users db))"
  shows "dangun_insert e now u h n db = (Inl OtherError, db)
         \<or> dangun_insert e now u h n db = (Inl UniqueViolation, db\<lparr>last_id := last_id db + 1\<rparr>)"
  using assms by (auto simp: dangun_insert_def Let_def split: option.splits)

lemma dangun_register_success_stores:
  assumes "fst (dangun_register e now r db) = success v" "body r = Some ms"
    and "prepareValue e (body_member ''username'' ms) = Some u"
  shows "\<exists>u'. varchar e 50 u = Some u'
           \<and> u' \<in> set (map d_username (users (snd (dangun_register e now r db))))"
proof -
  from dangun_register_cases [of e now r db] assms(1)
  obtain ms0 u0 p n where f: "body r = Some ms0" "prepareValue e (body_member ''username'' ms0) = Some u0"
    and reg: "dangun_register e now r db =
             (case dangun_insert e now u0 (bcrypt_hash e p) n db of
                (Inr row, db') \<Rightarrow>
                  (success (JObj [(''token'', JStr (dangun_token e now row)),
                                  (''user'', JObj [(''id'', JNum (d_id row)),
                                                   (''username'', JStr (d_username row)),
                                                   (''nickname'', JStr (d_nickname row)),
                                                   (''location'', jnullable (d_location row))])]), db')
              | (Inl UniqueViolation, db') \<Rightarrow> (failure 409 MSG_USERNAME_EXISTS, db')
              | (Inl OtherError, db') \<Rightarrow> (failure 500 MSG_SERVER_ERROR, db'))"
    by (auto simp: success_not_failure [symmetric])
  from f assms(2,3) have u0: "u0 = u" by simp
  let ?ins = "dangun_insert e now u (bcrypt_hash e p) n db"
  from dangun_insert_cases [of e now u "bcrypt_hash e p" n db]
  consider "?ins = (Inl OtherError, db)"
    | "\<exists>db'. ?ins = (Inl UniqueViolation, db')"
    | row where "varchar e 50 u = Some (d_username row)"
        "?ins = (Inr row, db\<lparr>last_id := last_id db + 1, users := users db @ [row]\<rparr>)"
    by blast
  then show ?thesis
  proof cases
    case 1
    with reg u0 assms(1) show ?thesis by (simp add: success_not_failure [symmetric])
  next
    case 2
    with reg u0 assms(1) show ?thesis by (auto simp: success_not_failure [symmetric])
  next
    case 3
    with reg u0 show ?thesis by simp
  qed
qed

lemma dangun_register_keeps_usernames:
  "set (map d_username (users db)) \<subseteq> set (map d_username (users (snd (dangun_register e now r db))))"
proof -
  consider "snd (dangun_register e now r db) = db"
    | u p n where "dangun_register e now r db =
             (case dangun_insert e now u (bcrypt_hash e p) n db of
                (Inr row, db') \<Rightarrow>
                  (success (JObj [(''token'', JStr (dangun_token e now row)),
                                  (''user'', JObj [(''id'', JNum (d_id row)),
                                                   (''username'', JStr (d_username row)),
                                                   (''nickname'', JStr (d_nickname row)),
                                                   (''location'', jnullable (d_location row))])]), db')
              | (Inl UniqueViolation, db') \<Rightarrow> (failure 409 MSG_USERNAME_EXISTS, db')
              | (Inl OtherError, db') \<Rightarrow> (failure 500 MSG_SERVER_ERROR, db'))"
    using dangun_register_cases [of e now r db] by (elim disjE exE conjE) simp_all
  then show ?thesis
  proof cases
    case 1
    then show ?thesis by simp
  next
    case 2
    then have "snd (dangun_register e now r db) = snd (dangun_insert e now u (bcrypt_hash e p) n db)"
      by (simp only: snd_case_insert)
    then show ?thesis
      using dangun_insert_cases [of e now u "bcrypt_hash e p" n db] by auto
  qed
qed

lemma dangun_login_keeps_store: "snd (dangun_login e now r db) = db"
  by (simp add: dangun_login_def Let_def split: option.splits list.splits json.splits)

lemma dangun_me_keeps_store: "snd (dangun_me r db) = db"
  by (simp add: dangun_me_def split: option.splits list.splits)

lemma dangun_serve_keeps_usernames:
  "set (map d_username (users db)) \<subseteq> set (map d_username (users (snd (dangun_serve e now c db))))"
proof (cases c)
  case (DangunRegister r)
  then show ?thesis using dangun_register_keeps_usernames by simp
next
  case (DangunLogin r)
  then show ?thesis by (simp add: dangun_login_keeps_store)
next
  case (DangunMe r)
  then show ?thesis
    using protected_store [of "dangun_secret e" e now dangun_me r db] by (auto simp: dangun_me_keeps_store)
next
  case (DangunProfile r)
  have "d_username ` set (users (snd (dangun_profile e r' db))) = d_username ` set (users db)" for r'
  proof -
    have "map d_username (users (snd (dangun_profile e r' db))) = map d_username (users db)"
      using dangun_profile_frame [of e r' db] by blast
    then have "set (map d_username (users (snd (dangun_profile e r' db)))) = set (map d_username (users db))"
      by (rule arg_cong)
    then show ?thesis by simp
  qed
  then show ?thesis
    using DangunProfile protected_store [of "dangun_secret e" e now "dangun_profile e" r db] by auto
qed

lemma dangun_serve_all_keeps_usernames:
  "set (map d_username (users db)) \<subseteq> set (map d_username (users (dangun_serve_all e cs db)))"
proof (induction cs arbitrary: db)
  case Nil
  then show ?case by simp
next
  case (Cons c cs)
  obtain now call where c: "c = (now, call)" by (cases c)
  have "set (map d_username (users db)) \<subseteq> set (map d_username (users (snd (dangun_serve e now call db))))"
    by (rule dangun_serve_keeps_usernames)
  also have "\<dots> \<subseteq> set (map d_username (users (dangun_serve_all e cs (snd (dangun_serve e now call db)))))"
    by (rule Cons.IH)
  finally show ?case by (simp add: c)
qed

lemma dangun_register_taken:
  assumes "varchar e 50 u = Some u'" "u' \<in> set (map d_username (users db))"
    and "body r = Some ms" "prepareValue e (body_member ''username'' ms) = Some u"
  shows "users (snd (dangun_register e now r db)) = users db"
    and "fst (dangun_register e now r db) = failure 400 MSG_FIELDS_REQUIRED
         \<or> fst (dangun_register e now r db) = failure 409 MSG_USERNAME_EXISTS
         \<or> fst (dangun_register e now r db) = failure 500 MSG_SERVER_ERROR"
    and "truthy_value (body_member ''username'' ms)
         \<and> truthy_value (body_member ''nickname'' ms) \<and> prepareValue e (body_member ''nickname'' ms) = Some n
         \<and> body_member ''password'' ms = Some (JStr p) \<and> p \<noteq> []
         \<and> varchar e 255 (bcrypt_hash e p) \<noteq> None \<and> varchar e 50 n \<noteq> None
         \<longrightarrow> dangun_register e now r db = (failure 409 MSG_USERNAME_EXISTS, db\<lparr>last_id := last_id db + 1\<rparr>)"
proof -
  consider "dangun_register e now r db = (failure 500 MSG_SERVER_ERROR, db)"
    | "dangun_register e now r db = (failure 400 MSG_FIELDS_REQUIRED, db)"
    | p0 n0 where "dangun_register e now r db =
             (case dangun_insert e now u (bcrypt_hash e p0) n0 db of
                (Inr row, db') \<Rightarrow>
                  (success (JObj [(''token'', JStr (dangun_token e now row)),
                                  (''user'', JObj [(''id'', JNum (d_id row)),
                                                   (''username'', JStr (d_username row)),
                                                   (''nickname'', JStr (d_nickname row)),
                                                   (''location'', jnullable (d_location row))])]), db')
              | (Inl UniqueViolation, db') \<Rightarrow> (failure 409 MSG_USERNAME_EXISTS, db')
              | (Inl OtherError, db') \<Rightarrow> (failure 500 MSG_SERVER_ERROR, db'))"
    using dangun_register_cases [of e now r db] assms(3,4) by (elim disjE exE conjE) simp_all
  then have "users (snd (dangun_register e now r db)) = users db
         \<and> (fst (dangun_register e now r db) = failure 400 MSG_FIELDS_REQUIRED
         \<or> fst (dangun_register e now r db) = failure 409 MSG_USERNAME_EXISTS
         \<or> fst (dangun_register e now r db) = failure 500 MSG_SERVER_ERROR)"
  proof cases
    case 1
    then show ?thesis by simp
  next
    case 2
    then show ?thesis by simp
  next
    case 3
    then show ?thesis
      using dangun_insert_taken_fails [OF assms(1,2), of now "bcrypt_hash e p0" n0]
      by auto
  qed
  then show "users (snd (dangun_register e now r db)) = users db"
    and "fst (dangun_register e now r db) = failure 400 MSG_FIELDS_REQUIRED
         \<or> fst (dangun_register e now r db) = failure 409 MSG_USERNAME_EXISTS
         \<or> fst (dangun_register e now r db) = failure 500 MSG_SERVER_ERROR"
    by blast+
  show "truthy_value (body_member ''username'' ms)
         \<and> truthy_value (body_member ''nickname'' ms) \<and> prepareValue e (body_member ''nickname'' ms) = Some n
         \<and> body_member ''password'' ms = Some (JStr p) \<and> p \<noteq> []
         \<and> varchar e 255 (bcrypt_hash e p) \<noteq> None \<and> varchar e 50 n \<noteq> None
         \<longrightarrow> dangun_register e now r db = (failure 409 MSG_USERNAME_EXISTS, db\<lparr>last_id := last_id db + 1\<rparr>)"
  proof
    assume v: "truthy_value (body_member ''username'' ms)
         \<and> truthy_value (body_member ''nickname'' ms) \<and> prepareValue e (body_member ''nickname'' ms) = Some n
         \<and> body_member ''password'' ms = Some (JStr p) \<and> p \<noteq> []
         \<and> varchar e 255 (bcrypt_hash e p) \<noteq> None \<and> varchar e 50 n \<noteq> None"
    then have ins: "dangun_insert e now u (bcrypt_hash e p) n db
                      = (Inl UniqueViolation, db\<lparr>last_id := last_id db + 1\<rparr>)"
      using dangun_insert_taken [OF assms(1,2)] by blast
    from v have f: "truthy_value (body_member ''username'' ms)"
      "truthy_value (body_member ''nickname'' ms)" "prepareValue e (body_member ''nickname'' ms) = Some n"
      "body_member ''password'' ms = Some (JStr p)" "p \<noteq> []"
      by blast+
    show "dangun_register e now r db = (failure 409 MSG_USERNAME_EXISTS, db\<lparr>last_id := last_id db + 1\<rparr>)"
      by (simp add: dangun_register_passes [OF assms(3) f(1) assms(4) f(2-5)] ins)
  qed
qed

text \<open>
  Claim C6, as amended. Let a registration succeed for a username, and let the server
  then serve any list of requests. Every later registration with that username fails
  and leaves the rows of the store as they are: the answer is a 400 of the validation,
  the 409 for a username that exists, or the 500 of a statement that the store
  refuses. It is the 409 whenever the request passes validation and its values fit
  their columns, whatever these values are. Two requests have the same username when
  the store is sent the same text for it.
\<close>

theorem registered_username_stays_taken:
  "(fst (register e t r db) = success v \<and> body r = Some ms \<and> body r' = Some ms'
      \<and> prepareValue e (body_member ''username'' ms) = Some u
      \<and> prepareValue e (body_member ''username'' ms') = Some u
    \<longrightarrow> users (snd (register e t' r' (serve_all e cs (snd (register e t r db)))))
          = users (serve_all e cs (snd (register e t r db)))
        \<and> (fst (register e t' r' (serve_all e cs (snd (register e t r db)))) = failure 400 MSG_FIELDS_REQUIRED
           \<or> fst (register e t' r' (serve_all e cs (snd (register e t r db)))) = failure 400 MSG_PASSWORD_TOO_SHORT
           \<or> fst (register e t' r' (serve_all e cs (snd (register e t r db)))) = failure 409 MSG_USERNAME_EXISTS
           \<or> fst (register e t' r' (serve_all e cs (snd (register e t r db)))) = failure 500 MSG_SERVER_ERROR)
        \<and> (truthy_value (body_member ''username'' ms')
             \<and> truthy_value (body_member ''nickname'' ms')
             \<and> prepareValue e (body_member ''nickname'' ms') = Some n
             \<and> body_member ''password'' ms' = Some (JStr p) \<and> 6 \<le> length p
             \<and> varchar e 255 (bcrypt_hash e p) \<noteq> None \<and> varchar e 50 n \<noteq> None
             \<and> coerce e 100 (prepareValue e (value_or_null (body_member ''email'' ms'))) \<noteq> None
             \<and> coerce e 20 (prepareValue e (value_or_null (body_member ''phone'' ms'))) \<noteq> None
           \<longrightarrow> fst (register e t' r' (serve_all e cs (snd (register e t r db))))
                 = failure 409 MSG_USERNAME_EXISTS))
   \<and> (fst (dangun_register e t r dd) = success v \<and> body r = Some ms \<and> body r' = Some ms'
      \<and> prepareValue e (body_member ''username'' ms) = Some u
      \<and> prepareValue e (body_member ''username'' ms') = Some u
    \<longrightarrow> users (snd (dangun_register e t' r' (dangun_serve_all e dcs (snd (dangun_register e t r dd)))))
          = users (dangun_serve_all e dcs (snd (dangun_register e t r dd)))
        \<and> (fst (dangun_register e t' r' (dangun_serve_all e dcs (snd (dangun_register e t r dd))))
              = failure 400 MSG_FIELDS_REQUIRED
           \<or> fst (dangun_register e t' r' (dangun_serve_all e dcs (snd (dangun_register e t r dd))))
              = failure 409 MSG_USERNAME_EXISTS
           \<or> fst (dangun_register e t' r' (dangun_serve_all e dcs (snd (dangun_register e t r dd))))
              = failure 500 MSG_SERVER_ERROR)
        \<and> (truthy_value (body_member ''username'' ms')
             \<and> truthy_value (body_member ''nickname'' ms')
             \<and> prepareValue e (body_member ''nickname'' ms') = Some n
             \<and> body_member ''password'' ms' = Some (JStr p) \<and> p \<noteq> []
             \<and> varchar e 255 (bcrypt_hash e p) \<noteq> None \<and> varchar e 50 n \<noteq> None
           \<longrightarrow> fst (dangun_register e t' r' (dangun_serve_all e dcs (snd (dangun_register e t r dd))))
                 = failure 409 MSG_USERNAME_EXISTS))"
proof (intro conjI impI)
  assume a: "fst (register e t r db) = success v \<and> body r = Some ms \<and> body r' = Some ms'
      \<and> prepareValue e (body_member ''username'' ms) = Some u
      \<and> prepareValue e (body_member ''username'' ms') = Some u"
  let ?db2 = "serve_all e cs (snd (register e t r db))"
  from a have f: "fst (register e t r db) = success v" "body r = Some ms"
    "prepareValue e (body_member ''username'' ms) = Some u"
    and g: "body r' = Some ms'" "prepareValue e (body_member ''username'' ms') = Some u"
    by blast+
  from register_success_stores [OF f] obtain u' where u': "varchar e 50 u = Some u'"
    "Some u' \<in> set (map u_username (users (snd (register e t r db))))"
    by blast
  then have taken: "Some u' \<in> set (map u_username (users ?db2))"
    using serve_all_keeps_usernames by blast
  show "users (snd (register e t' r' ?db2)) = users ?db2"
    by (rule register_taken(1) [OF u'(1) taken g])
  show "fst (register e t' r' ?db2) = failure 400 MSG_FIELDS_REQUIRED
           \<or> fst (register e t' r' ?db2) = failure 400 MSG_PASSWORD_TOO_SHORT
           \<or> fst (register e t' r' ?db2) = failure 409 MSG_USERNAME_EXISTS
           \<or> fst (register e t' r' ?db2) = failure 500 MSG_SERVER_ERROR"
    by (rule register_taken(2) [OF u'(1) taken g])
  assume "truthy_value (body_member ''username'' ms')
             \<and> truthy_value (body_member ''nickname'' ms')
             \<and> prepareValue e (body_member ''nickname'' ms') = Some n
             \<and> body_member ''password'' ms' = Some (JStr p) \<and> 6 \<le> length p
             \<and> varchar e 255 (bcrypt_hash e p) \<noteq> None \<and> varchar e 50 n \<noteq> None
             \<and> coerce e 100 (prepareValue e (value_or_null (body_member ''email'' ms'))) \<noteq> None
             \<and> coerce e 20 (prepareValue e (value_or_null (body_member ''phone'' ms'))) \<noteq> None"
  then show "fst (register e t' r' ?db2) = failure 409 MSG_USERNAME_EXISTS"
    using register_taken(3) [OF u'(1) taken g, of n p t'] by simp
next
  assume a: "fst (dangun_register e t r dd) = success v \<and> body r = Some ms \<and> body r' = Some ms'
      \<and> prepareValue e (body_member ''username'' ms) = Some u
      \<and> prepareValue e (body_member ''username'' ms') = Some u"
  let ?db2 = "dangun_serve_all e dcs (snd (dangun_register e t r dd))"
  from a have f: "fst (dangun_register e t r dd) = success v" "body r = Some ms"
    "prepareValue e (body_member ''username'' ms) = Some u"
    and g: "body r' = Some ms'" "prepareValue e (body_member ''username'' ms') = Some u"
    by blast+
  from dangun_register_success_stores [OF f] obtain u' where u': "varchar e 50 u = Some u'"
    "u' \<in> set (map d_username (users (snd (dangun_register e t r dd))))"
    by blast
  then have taken: "u' \<in> set (map d_username (users ?db2))"
    using dangun_serve_all_keeps_usernames by blast
  show "users (snd (dangun_register e t' r' ?db2)) = users ?db2"
    by (rule dangun_register_taken(1) [OF u'(1) taken g])
  show "fst (dangun_register e t' r' ?db2) = failure 400 MSG_FIELDS_REQUIRED
           \<or> fst (dangun_register e t' r' ?db2) = failure 409 MSG_USERNAME_EXISTS
           \<or> fst (dangun_register e t' r' ?db2) = failure 500 MSG_SERVER_ERROR"
    by (rule dangun_register_taken(2) [OF u'(1) taken g])
  assume "truthy_value (body_member ''username'' ms')
             \<and> truthy_value (body_member ''nickname'' ms')
             \<and> prepareValue e (body_member ''nickname'' ms') = Some n
             \<and> body_member ''password'' ms' = Some (JStr p) \<and> p \<noteq> []
             \<and> varchar e 255 (bcrypt_hash e p) \<noteq> None \<and> varchar e 50 n \<noteq> None"
  then show "fst (dangun_register e t' r' ?db2) = failure 409 MSG_USERNAME_EXISTS"
    using dangun_register_taken(3) [OF u'(1) taken g, of n p t'] by simp
qed

text \<open>
  Claim C6 as stated fails: after \<open>carol\<close> has registered on the shop server, a registration
  with the same username and the password \<open>abc\<close> is answered with 400, not with 409,
  because the members are validated before the \<open>INSERT\<close> is tried.
\<close>

theorem register_again_counterexample:
  "fst (register example_env 2000 carol_request \<lparr>users = [alice], last_id = 1\<rparr>)
     = success (JObj [(''token'', JStr (js ''shop.jwt'')), (''user'', sanitizeUser carol_row)])
   \<and> body_member ''username'' [(''username'', JStr (js ''carol'')), (''password'', JStr (js ''secret1'')),
                                (''nickname'', JStr (js ''Carol''))]
     = body_member ''username'' [(''username'', JStr (js ''carol'')), (''password'', JStr (js ''abc'')),
                                  (''nickname'', JStr (js ''Carol''))]
   \<and> register example_env 3000
        (json_request [(''username'', JStr (js ''carol'')), (''password'', JStr (js ''abc'')),
                       (''nickname'', JStr (js ''Carol''))])
        (snd (register example_env 2000 carol_request \<lparr>users = [alice], last_id = 1\<rparr>))
     = (failure 400 MSG_PASSWORD_TOO_SHORT, \<lparr>users = [alice, carol_row], last_id = 2\<rparr>)
   \<and> failure 400 MSG_PASSWORD_TOO_SHORT \<noteq> failure 409 MSG_USERNAME_EXISTS"
  by (simp add: example_register_carol failure_status)
    (simp add: register_def json_request_def empty_request_def body_member_def Let_def js_def)

theorem registered_username_stays_taken_witness:
  "fst (register example_env 3000
          (json_request [(''username'', JStr (js ''carol'')), (''password'', JStr (js ''another1'')),
                         (''nickname'', JStr (js ''Second''))])
          (serve_all example_env
             [(2500, Profile (json_request [(''nickname'', JStr (js ''Alicia''))]
                                \<lparr>authorization := Some (js ''Bearer shop.jwt'')\<rparr>))]
             (snd (register example_env 2000 carol_request \<lparr>users = [alice], last_id = 1\<rparr>))))
     = failure 409 MSG_USERNAME_EXISTS
   \<and> users (snd (register example_env 3000
          (json_request [(''username'', JStr (js ''carol'')), (''password'', JStr (js ''another1'')),
                         (''nickname'', JStr (js ''Second''))])
          (serve_all example_env
             [(2500, Profile (json_request [(''nickname'', JStr (js ''Alicia''))]
                                \<lparr>authorization := Some (js ''Bearer shop.jwt'')\<rparr>))]
             (snd (register example_env 2000 carol_request \<lparr>users = [alice], last_id = 1\<rparr>)))))
     = [alice\<lparr>u_nickname := js ''Alicia''\<rparr>, carol_row]
   \<and> fst (dangun_register example_env 3000
          (json_request [(''username'', JStr (js ''carol'')), (''password'', JStr (js ''abc'')),
                         (''nickname'', JStr (js ''Second''))])
          (dangun_serve_all example_env
             [(2500, DangunLogin (json_request [(''username'', JStr (js ''bob'')),
                                                (''password'', JStr (js ''hunter2''))]))]
             (snd (dangun_register example_env 2000 carol_request \<lparr>users = [bob], last_id = 1\<rparr>))))
     = failure 409 MSG_USERNAME_EXISTS"
proof -
  let ?db = "\<lparr>users = [alice], last_id = 1\<rparr> :: ecommerce_01_user db"
  let ?dd = "\<lparr>users = [bob], last_id = 1\<rparr> :: dangun_01_user db"
  let ?mc = "[(''username'', JStr (js ''carol'')), (''password'', JStr (js ''secret1'')),
              (''nickname'', JStr (js ''Carol''))]"
  let ?m' = "[(''username'', JStr (js ''carol'')), (''password'', JStr (js ''another1'')),
              (''nickname'', JStr (js ''Second''))]"
  let ?md = "[(''username'', JStr (js ''carol'')), (''password'', JStr (js ''abc'')),
              (''nickname'', JStr (js ''Second''))]"
  let ?r' = "json_request ?m'"
  let ?rd = "json_request ?md"
  let ?pr = "json_request [(''nickname'', JStr (js ''Alicia''))]\<lparr>authorization := Some (js ''Bearer shop.jwt'')\<rparr>"
  let ?cs = "[(2500, Profile ?pr)]"
  let ?dcs = "[(2500, DangunLogin (json_request [(''username'', JStr (js ''bob'')),
                                                (''password'', JStr (js ''hunter2''))]))]"
  let ?v = "JObj [(''token'', JStr (js ''shop.jwt'')), (''user'', sanitizeUser carol_row)]"
  let ?vd = "JObj [(''token'', JStr (js ''market.jwt'')),
                     (''user'', JObj [(''id'', JNum 2), (''username'', JStr (js ''carol'')),
                                      (''nickname'', JStr (js ''Carol'')),
                                      (''location'', JStr DEFAULT_LOCATION)])]"
  have names: "body carol_request = Some ?mc"
    "prepareValue example_env (body_member ''username'' ?mc) = Some (js ''carol'')"
    "body ?r' = Some ?m'" "prepareValue example_env (body_member ''username'' ?m') = Some (js ''carol'')"
    "body ?rd = Some ?md" "prepareValue example_env (body_member ''username'' ?md) = Some (js ''carol'')"
    by (simp_all add: carol_request_def json_request_def body_member_def)
  have first: "fst (register example_env 2000 carol_request ?db) = success ?v"
    by (simp add: example_register_carol)
  have firstd: "fst (dangun_register example_env 2000 carol_request ?dd) = success ?vd"
    by (simp add: example_dangun_register_carol)
  have valid: "truthy_value (body_member ''username'' ?m')
         \<and> truthy_value (body_member ''nickname'' ?m')
         \<and> prepareValue example_env (body_member ''nickname'' ?m') = Some (js ''Second'')
         \<and> body_member ''password'' ?m' = Some (JStr (js ''another1''))
         \<and> 6 \<le> length (js ''another1'')
         \<and> varchar example_env 255 (bcrypt_hash example_env (js ''another1'')) \<noteq> None
         \<and> varchar example_env 50 (js ''Second'') \<noteq> None
         \<and> coerce example_env 100 (prepareValue example_env (value_or_null (body_member ''email'' ?m'))) \<noteq> None
         \<and> coerce example_env 20 (prepareValue example_env (value_or_null (body_member ''phone'' ?m'))) \<noteq> None"
    by (simp add: body_member_def value_or_null_def example_env_def js_def)
  have validd: "truthy_value (body_member ''username'' ?md)
         \<and> truthy_value (body_member ''nickname'' ?md)
         \<and> prepareValue example_env (body_member ''nickname'' ?md) = Some (js ''Second'')
         \<and> body_member ''password'' ?md = Some (JStr (js ''abc''))
         \<and> js ''abc'' \<noteq> []
         \<and> varchar example_env 255 (bcrypt_hash example_env (js ''abc'')) \<noteq> None
         \<and> varchar example_env 50 (js ''Second'') \<noteq> None"
    by (simp add: body_member_def example_env_def js_def)
  note t = registered_username_stays_taken [where e = example_env and t = 2000 and r = carol_request
      and db = ?db and v = ?v and u = "js ''carol''" and r' = ?r' and t' = 3000 and cs = ?cs
      and n = "js ''Second''" and p = "js ''another1''" and ms = ?mc and ms' = ?m']
  note td = registered_username_stays_taken [where e = example_env and t = 2000 and r = carol_request
      and dd = ?dd and v = ?vd and u = "js ''carol''" and r' = ?rd and t' = 3000 and dcs = ?dcs
      and n = "js ''Second''" and p = "js ''abc''" and ms = ?mc and ms' = ?md]
  from t first names valid have 1: "fst (register example_env 3000 ?r'
          (serve_all example_env ?cs (snd (register example_env 2000 carol_request ?db))))
     = failure 409 MSG_USERNAME_EXISTS"
    by blast
  from t first names have 2: "users (snd (register example_env 3000 ?r'
          (serve_all example_env ?cs (snd (register example_env 2000 carol_request ?db)))))
     = users (serve_all example_env ?cs (snd (register example_env 2000 carol_request ?db)))"
    by blast
  from td firstd names validd have 3: "fst (dangun_register example_env 3000 ?rd
          (dangun_serve_all example_env ?dcs (snd (dangun_register example_env 2000 carol_request ?dd))))
     = failure 409 MSG_USERNAME_EXISTS"
    by blast
  have auth: "auth (ecommerce_secret example_env) example_env 2500 ?pr = Next (?pr\<lparr>user := Some alice_claims\<rparr>)"
    by (simp add: auth_def bearer_token_def jwt_verify_def example_env_def ecommerce_secret_def
      JWT_SECRET_def alice_jwt_def alice_claims_def json_request_def empty_request_def js_def)
  have run: "users (serve_all example_env ?cs (snd (register example_env 2000 carol_request ?db)))
               = [alice\<lparr>u_nickname := js ''Alicia''\<rparr>, carol_row]"
    by (simp add: example_register_carol protected_def auth)
      (simp add: profile_def update_profile_def profile_row_def Let_def user_id_def alice_claims_def
        alice_jwt_def alice_def carol_row_def example_env_def json_request_def empty_request_def
        body_member_def js_def)
  from 1 2 3 run show ?thesis by simp
qed

end
